(* ===== verification/Prelude.thy ===== *)
theory Prelude
  imports Main "HOL-Library.Sublist"
begin

text \<open>
  Shared vocabulary of the development: the named collections of evaluation rules used by
  the component theories, Python's string primitives that the handlers rely on
  (\<open>str.split\<close>, \<open>str.join\<close>, \<open>startswith\<close>, \<open>endswith\<close>, the substring test of
  \<open>in\<close>), the byte length of a file name under the UTF-8 file-system encoding, and the
  type synonyms for names and paths.
\<close>

named_theorems py_simps "evaluation rules of the modelled Python runtime"
named_theorems fs_simps "evaluation rules of the modelled file system calls"
named_theorems flask_simps "evaluation rules of the modelled Flask request cycle"

type_synonym name = string
type_synonym path = "name list"

section \<open>Python string primitives\<close>

text \<open>\<open>s.split(c)\<close> for a one-character separator: always at least one field.\<close>

fun split_on :: "char \<Rightarrow> string \<Rightarrow> string list" where
  "split_on c [] = [[]]"
| "split_on c (x # xs) =
     (let r = split_on c xs in if x = c then [] # r else (x # hd r) # tl r)"

text \<open>\<open>c.join(ws)\<close>.\<close>

fun join_with :: "char \<Rightarrow> string list \<Rightarrow> string" where
  "join_with c [] = []"
| "join_with c [w] = w"
| "join_with c (w # v # ws) = w @ c # join_with c (v # ws)"

definition startswith :: "string \<Rightarrow> string \<Rightarrow> bool" where
  "startswith s p \<longleftrightarrow> take (length p) s = p"

definition endswith :: "string \<Rightarrow> string \<Rightarrow> bool" where
  "endswith s p \<longleftrightarrow> length p \<le> length s \<and> drop (length s - length p) s = p"

text \<open>The substring test \<open>needle in hay\<close> on strings, by scanning the start positions.\<close>

fun str_contains :: "string \<Rightarrow> string \<Rightarrow> bool" where
  "str_contains needle [] = (needle = [])"
| "str_contains needle (h # hs) =
     (startswith (h # hs) needle \<or> str_contains needle hs)"

text \<open>
  Byte length of a name under the file-system encoding (UTF-8). A \<open>char\<close> stands for a
  code point below 256: one byte below 128, two bytes above.
\<close>

definition utf8_len :: "string \<Rightarrow> nat" where
  "utf8_len s = sum_list (map (\<lambda>c. if of_char c < (128::nat) then 1 else 2) s)"

text \<open>
  A path component that names something: \<open>pathlib\<close> drops empty and \<open>.\<close> parts when
  it parses a path, and the kernel's path walk skips them.
\<close>

definition pp_keep :: "string \<Rightarrow> bool" where
  "pp_keep x \<longleftrightarrow> x \<noteq> [] \<and> x \<noteq> ''.''"

section \<open>Lemmas on the string primitives\<close>

lemma split_on_not_Nil [simp]: "split_on c s \<noteq> []"
  by (induction s) (auto simp: Let_def)

lemma split_on_sep_free: "x \<in> set (split_on c s) \<Longrightarrow> c \<notin> set x"
proof (induction s arbitrary: x)
  case Nil
  then show ?case by simp
next
  case (Cons y ys)
  obtain w ws where r: "split_on c ys = w # ws"
    by (cases "split_on c ys") auto
  with Cons show ?case by (auto simp: Let_def split: if_splits)
qed

lemma join_with_Cons:
  "join_with c (w # ws) = (if ws = [] then w else w @ c # join_with c ws)"
  by (cases ws) simp_all

lemma split_on_no_sep [simp]: "c \<notin> set w \<Longrightarrow> split_on c w = [w]"
  by (induction w) (auto simp: Let_def)

lemma split_on_append_sep:
  "c \<notin> set w \<Longrightarrow> split_on c (w @ c # s) = w # split_on c s"
  by (induction w) (auto simp: Let_def)

lemma split_on_append_no_sep:
  "c \<notin> set w \<Longrightarrow> split_on c (s @ w) = butlast (split_on c s) @ [last (split_on c s) @ w]"
proof (induction s)
  case Nil
  then show ?case by simp
next
  case (Cons x xs)
  have ne: "split_on c xs \<noteq> []" by simp
  show ?case
  proof (cases "x = c")
    case True
    with Cons show ?thesis by (simp add: Let_def)
  next
    case False
    with Cons ne show ?thesis
      by (cases "split_on c xs") (auto simp: Let_def split: if_splits)
  qed
qed

text \<open>
  Round trip of the \<open>str.split\<close> and \<open>str.join\<close> models: joining the fields of
  \<open>s.split(c)\<close> with \<open>c\<close> gives \<open>s\<close> back.
\<close>

lemma join_split_on: "join_with c (split_on c s) = s"
proof (induction s)
  case Nil
  then show ?case by simp
next
  case (Cons x xs)
  obtain w ws where r: "split_on c xs = w # ws"
    by (cases "split_on c xs") auto
  with Cons show ?case
    by (cases ws) (auto simp: Let_def join_with_Cons)
qed

text \<open>Splitting a join of separator-free fields gives the fields back.\<close>

lemma split_on_join:
  "ws \<noteq> [] \<Longrightarrow> \<forall>w \<in> set ws. c \<notin> set w \<Longrightarrow> split_on c (join_with c ws) = ws"
proof (induction ws)
  case Nil
  then show ?case by simp
next
  case (Cons w ws)
  then show ?case
    by (cases ws) (auto simp: join_with_Cons split_on_append_sep)
qed

lemma startswith_Nil [simp]: "startswith s []"
  by (simp add: startswith_def)

lemma startswith_Cons_Cons [simp]:
  "startswith (x # xs) (y # ys) \<longleftrightarrow> x = y \<and> startswith xs ys"
  by (simp add: startswith_def)

lemma startswith_Nil_Cons [simp]: "\<not> startswith [] (y # ys)"
  by (simp add: startswith_def)

lemma startswith_prefix: "startswith s p \<longleftrightarrow> prefix p s"
proof (induction p arbitrary: s)
  case Nil
  then show ?case by simp
next
  case (Cons y ys)
  then show ?case by (cases s) auto
qed

text \<open>
  The model of the substring test of \<open>in\<close> on strings, which scans the start
  positions, agrees with the library's \<open>sublist\<close> relation.
\<close>

lemma str_contains_sublist: "str_contains n h \<longleftrightarrow> sublist n h"
proof (induction h)
  case Nil
  then show ?case by simp
next
  case (Cons x xs)
  have "sublist n (x # xs) \<longleftrightarrow> prefix n (x # xs) \<or> sublist n xs"
    by (rule sublist_Cons_right)
  with Cons show ?case by (simp add: startswith_prefix)
qed

lemma utf8_len_append [simp]: "utf8_len (s @ t) = utf8_len s + utf8_len t"
  by (simp add: utf8_len_def)

lemma utf8_len_Nil [simp]: "utf8_len [] = 0"
  by (simp add: utf8_len_def)

lemma utf8_len_Cons [simp]:
  "utf8_len (c # s) = (if of_char c < (128::nat) then 1 else 2) + utf8_len s"
  by (simp add: utf8_len_def)

lemma length_le_utf8_len: "length s \<le> utf8_len s"
  by (induction s) auto

lemma split_on_member:
  "c \<noteq> sep \<Longrightarrow> c \<in> set s \<Longrightarrow> \<exists>w \<in> set (split_on sep s). c \<in> set w"
proof (induction s)
  case Nil
  then show ?case by simp
next
  case (Cons x xs)
  obtain w ws where r: "split_on sep xs = w # ws"
    by (cases "split_on sep xs") auto
  show ?case
  proof (cases "c = x")
    case True
    with Cons.prems r show ?thesis by (auto simp: Let_def)
  next
    case False
    with Cons.prems have "c \<in> set xs" by simp
    with Cons.IH Cons.prems(1) r obtain u where "u \<in> set (w # ws)" "c \<in> set u" by auto
    with r show ?thesis by (auto simp: Let_def)
  qed
qed

lemma set_join_with: "w \<in> set ws \<Longrightarrow> set w \<subseteq> set (join_with c ws)"
  by (induction ws) (auto simp: join_with_Cons)

end
