(* ===== verification/PyCore.thy ===== *)
theory PyCore
  imports Prelude
begin

text \<open>
  The part of the Python runtime the handlers run on: the exceptions they can raise and
  catch (with the class hierarchy that \<open>except\<close> tests), computations that thread a
  state and may raise (\<open>('s, 'a) pyst\<close>, a world-passing function returning
  \<open>Inl\<close> of the exception or \<open>Inr\<close> of the value), and \<open>try\<close>/\<open>except\<close> with both
  forms found in the sources: \<open>except ValueError:\<close> names a class, while
  \<open>except ValueError():\<close> evaluates to an instance, which Python 3 refuses with a
  \<open>TypeError\<close> as soon as an exception reaches the clause.
\<close>

section \<open>Exceptions\<close>

text \<open>The errno values of the \<open>OSError\<close>s the file system calls raise.\<close>

datatype errno = ENOENT | EEXIST | ENOTDIR | EISDIR | EACCES | ENOSPC | ENAMETOOLONG

datatype py_exc =
    NameError string
  | AttributeError string
  | TypeError string
  | ValueError string
  | KeyError string
  | BadRequestKeyError string   \<comment> \<open>werkzeug: a \<open>KeyError\<close> and a \<open>BadRequest\<close>\<close>
  | OSError errno               \<comment> \<open>with its subclasses FileNotFoundError, ...\<close>
  | DataOverflowError           \<comment> \<open>qrcode.exceptions: derives from Exception only\<close>
  | BadRequest                  \<comment> \<open>werkzeug HTTPException with code 400\<close>

text \<open>The classes that \<open>except\<close> clauses of the sources name.\<close>

datatype exc_class = CValueError | COSError | CKeyError | CTypeError | CException

fun isinstance_exc :: "py_exc \<Rightarrow> exc_class \<Rightarrow> bool" where
  "isinstance_exc e CException = True"
| "isinstance_exc (ValueError _) c = (c = CValueError)"
| "isinstance_exc (OSError _) c = (c = COSError)"
| "isinstance_exc (KeyError _) c = (c = CKeyError)"
| "isinstance_exc (BadRequestKeyError _) c = (c = CKeyError)"
| "isinstance_exc (TypeError _) c = (c = CTypeError)"
| "isinstance_exc _ _ = False"

text \<open>The status code of an exception that Flask renders as an HTTP error.\<close>

fun http_code :: "py_exc \<Rightarrow> nat option" where
  "http_code BadRequest = Some 400"
| "http_code (BadRequestKeyError _) = Some 400"
| "http_code _ = None"

section \<open>Computations with state and exceptions\<close>

type_synonym ('s, 'a) pyst = "'s \<Rightarrow> (py_exc + 'a) \<times> 's"

definition py_return :: "'a \<Rightarrow> ('s, 'a) pyst" where
  "py_return a s = (Inr a, s)"

definition py_raise :: "py_exc \<Rightarrow> ('s, 'a) pyst" where
  "py_raise e s = (Inl e, s)"

text \<open>A pure step that may raise, such as \<open>data["_id"]\<close>.\<close>

definition py_lift :: "py_exc + 'a \<Rightarrow> ('s, 'a) pyst" where
  "py_lift r s = (r, s)"

definition py_bind :: "('s, 'a) pyst \<Rightarrow> ('a \<Rightarrow> ('s, 'b) pyst) \<Rightarrow> ('s, 'b) pyst" where
  "py_bind m f s = (case m s of (Inl e, s') \<Rightarrow> (Inl e, s') | (Inr a, s') \<Rightarrow> f a s')"

text \<open>
  An \<open>except\<close> clause: the expression after \<open>except\<close> evaluates to a class
  (\<open>except ValueError:\<close>) or to an exception instance (\<open>except ValueError():\<close>).
\<close>

datatype except_clause = ExceptClass exc_class | ExceptInstance py_exc

definition catch_error :: py_exc where
  "catch_error = TypeError ''catching classes that do not inherit from BaseException is not allowed''"

text \<open>
  The clauses are tried in order. A class clause catches an instance of the class; an
  instance clause raises \<open>TypeError\<close> (the exception being handled becomes its context);
  with no matching clause the exception propagates.
\<close>

fun py_handle :: "py_exc \<Rightarrow> (except_clause \<times> ('s, 'a) pyst) list \<Rightarrow> ('s, 'a) pyst" where
  "py_handle e [] = py_raise e"
| "py_handle e ((ExceptClass c, h) # hs) = (if isinstance_exc e c then h else py_handle e hs)"
| "py_handle e ((ExceptInstance _, h) # hs) = py_raise catch_error"

definition py_try :: "('s, 'a) pyst \<Rightarrow> (except_clause \<times> ('s, 'a) pyst) list \<Rightarrow> ('s, 'a) pyst" where
  "py_try m hs s = (case m s of (Inl e, s') \<Rightarrow> py_handle e hs s' | (Inr a, s') \<Rightarrow> (Inr a, s'))"

section \<open>Evaluation rules\<close>

lemma py_bind_return [simp, py_simps]: "py_bind (py_return a) f = f a"
  by (simp add: fun_eq_iff py_bind_def py_return_def)

lemma py_bind_raise [simp, py_simps]: "py_bind (py_raise e) f = py_raise e"
  by (simp add: fun_eq_iff py_bind_def py_raise_def)

lemma py_lift_Inl [simp, py_simps]: "py_lift (Inl e) = py_raise e"
  by (simp add: fun_eq_iff py_lift_def py_raise_def)

lemma py_lift_Inr [simp, py_simps]: "py_lift (Inr a) = py_return a"
  by (simp add: fun_eq_iff py_lift_def py_return_def)

lemma py_return_apply [simp, py_simps]: "py_return a s = (Inr a, s)"
  by (simp add: py_return_def)

lemma py_raise_apply [simp, py_simps]: "py_raise e s = (Inl e, s)"
  by (simp add: py_raise_def)

lemma py_bind_apply [py_simps]:
  "py_bind m f s = (case m s of (Inl e, s') \<Rightarrow> (Inl e, s') | (Inr a, s') \<Rightarrow> f a s')"
  by (simp add: py_bind_def)

lemma py_try_return [simp, py_simps]: "py_try (py_return a) hs = py_return a"
  by (simp add: fun_eq_iff py_try_def)

lemma py_try_raise [simp, py_simps]: "py_try (py_raise e) hs = py_handle e hs"
  by (simp add: fun_eq_iff py_try_def)

lemma py_bind_assoc [py_simps]:
  "py_bind (py_bind m f) g = py_bind m (\<lambda>a. py_bind (f a) g)"
  by (auto simp: fun_eq_iff py_bind_def split: prod.splits sum.splits)

text \<open>A clause list whose first clause is an instance catches nothing.\<close>

lemma py_handle_instance_first [simp]:
  "py_handle e ((ExceptInstance x, h) # hs) = py_raise catch_error"
  by simp

lemma py_try_instance_first:
  "fst (m s) = Inl e \<Longrightarrow>
   py_try m ((ExceptInstance x, h) # hs) s = (Inl catch_error, snd (m s))"
  by (cases "m s") (simp add: py_try_def)

end
