(* ===== verification/PyJson.thy ===== *)
theory PyJson
  imports PyCore
begin

text \<open>
  The values \<open>request.json\<close> produces (\<open>json.loads\<close>: \<open>None\<close>, \<open>bool\<close>, \<open>int\<close>,
  \<open>str\<close>, \<open>list\<close>, \<open>dict\<close>; JSON numbers with a fraction or exponent, which load as
  \<open>float\<close>, are not modelled), and the three Python operations the handler of
  \<open>features/backend.py\<close> applies to them: \<open>"_id" in data\<close>, \<open>data["_id"]\<close> and
  \<open>str(entry_id)\<close>. A dict is its list of items in insertion order; the dicts the
  parser builds have distinct keys (\<open>wf_json\<close>).
\<close>

datatype json =
    JNull
  | JBool bool
  | JInt int
  | JStr string
  | JList "json list"
  | JObj "(string \<times> json) list"

fun wf_json :: "json \<Rightarrow> bool" where
  "wf_json (JList xs) = list_all wf_json xs"
| "wf_json (JObj kvs) = (distinct (map fst kvs) \<and> list_all (\<lambda>kv. wf_json (snd kv)) kvs)"
| "wf_json _ = True"

section \<open>Membership and subscription\<close>

text \<open>\<open>s in data\<close> for a string \<open>s\<close>: key test on a dict, element test on a list,
  substring test on a string, \<open>TypeError\<close> on scalars.\<close>

fun py_in_str :: "string \<Rightarrow> json \<Rightarrow> py_exc + bool" where
  "py_in_str s (JObj kvs) = Inr (s \<in> set (map fst kvs))"
| "py_in_str s (JList xs) = Inr (JStr s \<in> set xs)"
| "py_in_str s (JStr t) = Inr (str_contains s t)"
| "py_in_str s JNull = Inl (TypeError ''argument of type NoneType is not iterable'')"
| "py_in_str s (JBool b) = Inl (TypeError ''argument of type bool is not iterable'')"
| "py_in_str s (JInt i) = Inl (TypeError ''argument of type int is not iterable'')"

text \<open>\<open>data[s]\<close> for a string \<open>s\<close>.\<close>

fun py_getitem_str :: "json \<Rightarrow> string \<Rightarrow> py_exc + json" where
  "py_getitem_str (JObj kvs) s = (case map_of kvs s of Some v \<Rightarrow> Inr v | None \<Rightarrow> Inl (KeyError s))"
| "py_getitem_str (JList xs) s = Inl (TypeError ''list indices must be integers or slices, not str'')"
| "py_getitem_str (JStr t) s = Inl (TypeError ''string indices must be integers'')"
| "py_getitem_str JNull s = Inl (TypeError ''NoneType object is not subscriptable'')"
| "py_getitem_str (JBool b) s = Inl (TypeError ''bool object is not subscriptable'')"
| "py_getitem_str (JInt i) s = Inl (TypeError ''int object is not subscriptable'')"

section \<open>str() and repr()\<close>

text \<open>Decimal digits of a natural number, most significant first.\<close>

fun nat_digits :: "nat \<Rightarrow> string" where
  "nat_digits n =
     (if n < 10 then [char_of (48 + n)] else nat_digits (n div 10) @ [char_of (48 + n mod 10)])"

declare nat_digits.simps [simp del]

definition int_str :: "int \<Rightarrow> string" where
  "int_str i = (if i < 0 then CHR ''-'' # nat_digits (nat (- i)) else nat_digits (nat i))"

definition hex_digit :: "nat \<Rightarrow> char" where
  "hex_digit n = (if n < 10 then char_of (48 + n) else char_of (87 + n))"

text \<open>\<open>str.isprintable\<close> on the code points below 256.\<close>

definition printable :: "char \<Rightarrow> bool" where
  "printable c \<longleftrightarrow>
     (let n = of_char c :: nat in (32 \<le> n \<and> n < 127) \<or> (161 \<le> n \<and> n \<noteq> 173))"

text \<open>\<open>repr(s)\<close>: single quotes unless the string holds a single quote and no double
  quote; the quote and the backslash are escaped, tab, newline and return by name, other
  non-printable characters as \<open>\xhh\<close>.\<close>

definition repr_quote :: "string \<Rightarrow> char" where
  "repr_quote s = (if CHR 0x27 \<in> set s \<and> CHR 0x22 \<notin> set s then CHR 0x22 else CHR 0x27)"

definition repr_char :: "char \<Rightarrow> char \<Rightarrow> string" where
  "repr_char q c =
     (if c = q \<or> c = CHR 0x5C then [CHR 0x5C, c]
      else if c = CHR 0x09 then [CHR 0x5C, CHR ''t'']
      else if c = CHR 0x0A then [CHR 0x5C, CHR ''n'']
      else if c = CHR 0x0D then [CHR 0x5C, CHR ''r'']
      else if \<not> printable c then
        [CHR 0x5C, CHR ''x'', hex_digit (of_char c div 16), hex_digit (of_char c mod 16)]
      else [c])"

definition repr_str :: "string \<Rightarrow> string" where
  "repr_str s = (let q = repr_quote s in q # concat (map (repr_char q) s) @ [q])"

fun str_join :: "string \<Rightarrow> string list \<Rightarrow> string" where
  "str_join sep [] = []"
| "str_join sep [w] = w"
| "str_join sep (w # v # ws) = w @ sep @ str_join sep (v # ws)"

fun py_repr :: "json \<Rightarrow> string" where
  "py_repr JNull = ''None''"
| "py_repr (JBool b) = (if b then ''True'' else ''False'')"
| "py_repr (JInt i) = int_str i"
| "py_repr (JStr s) = repr_str s"
| "py_repr (JList xs) = CHR ''['' # str_join '', '' (map py_repr xs) @ '']''"
| "py_repr (JObj kvs) =
     CHR ''{'' # str_join '', '' (map (\<lambda>kv. repr_str (fst kv) @ '': '' @ py_repr (snd kv)) kvs) @ ''}''"

text \<open>\<open>str(v)\<close>: a string is itself, every other value its \<open>repr\<close>.\<close>

fun py_str :: "json \<Rightarrow> string" where
  "py_str (JStr s) = s"
| "py_str v = py_repr v"

section \<open>Lemmas\<close>

lemma nat_digits_not_Nil [simp]: "nat_digits n \<noteq> []"
  by (subst nat_digits.simps) simp

lemma int_str_not_Nil [simp]: "int_str i \<noteq> []"
  by (simp add: int_str_def)

lemma repr_str_not_Nil [simp]: "repr_str s \<noteq> []"
  by (simp add: repr_str_def Let_def)

lemma py_repr_not_Nil [simp]: "py_repr v \<noteq> []"
  by (cases v) simp_all

lemma py_str_Nil_iff: "py_str v = [] \<longleftrightarrow> v = JStr []"
  by (cases v) simp_all

lemma py_in_str_JObj_getitem:
  "py_in_str s (JObj kvs) = Inr True \<Longrightarrow> \<exists>v. py_getitem_str (JObj kvs) s = Inr v"
  by (auto simp: weak_map_of_SomeI split: option.splits)

end
