(* ===== verification/Flask.thy ===== *)
theory Flask
  imports PyJson
begin

text \<open>
  The request cycle of Flask/werkzeug that the three applications rely on: the request
  fields a view reads (\<open>method\<close>, the URL path, \<open>mimetype\<close>, the parsed JSON body, the
  parsed form), \<open>request.is_json\<close>, \<open>request.json\<close> (a body that does not decode is a
  \<open>BadRequest\<close>), the values a view returns (\<open>(jsonify(...), code)\<close>, a \<open>dict\<close>, a
  \<open>str\<close>, or \<open>None\<close> by falling off the end), the conversion of those values and of
  uncaught exceptions into responses, and URL routing with the automatic \<open>HEAD\<close> and
  \<open>OPTIONS\<close> methods, 404 and 405. The HTTP transport itself, headers and the HTML of
  werkzeug's error pages are not modelled: an error response is its status code.
\<close>

record request =
  req_method :: string
  req_url :: string
  req_mimetype :: string
  req_json :: "json option"             \<comment> \<open>None: the body does not decode as JSON\<close>
  req_form :: "(string \<times> string) list"   \<comment> \<open>empty unless the body is a form\<close>

datatype resp_body =
    JsonBody json
  | HtmlBody string
  | ErrorPage nat
  | NoBody

record response =
  resp_status :: nat
  resp_body :: resp_body

text \<open>What a view function returns.\<close>

datatype view_ret =
    RetJsonify json nat   \<comment> \<open>\<open>return jsonify(d), code\<close>\<close>
  | RetDict json          \<comment> \<open>\<open>return {...}\<close>: jsonified, status 200\<close>
  | RetStr string         \<comment> \<open>\<open>return "..."\<close>: HTML, status 200\<close>
  | RetNone               \<comment> \<open>the function ends without \<open>return\<close>\<close>

text \<open>\<open>jsonify({"message": m})\<close>.\<close>

definition msg_json :: "string \<Rightarrow> json" where
  "msg_json m = JObj [(''message'', JStr m)]"

text \<open>\<open>request.is_json\<close> (werkzeug): \<open>application/json\<close> or \<open>application/*+json\<close>.\<close>

definition is_json :: "request \<Rightarrow> bool" where
  "is_json r \<longleftrightarrow>
     req_mimetype r = ''application/json'' \<or>
     (startswith (req_mimetype r) ''application/'' \<and> endswith (req_mimetype r) ''+json'')"

text \<open>\<open>request.json\<close> once \<open>is_json\<close> holds: the decoded body, or \<open>BadRequest\<close>.\<close>

definition get_json :: "request \<Rightarrow> py_exc + json" where
  "get_json r = (case req_json r of Some j \<Rightarrow> Inr j | None \<Rightarrow> Inl BadRequest)"

text \<open>\<open>request.form.get(k)\<close>: the first value for the key.\<close>

definition form_get :: "request \<Rightarrow> string \<Rightarrow> string option" where
  "form_get r k = map_of (req_form r) k"

text \<open>\<open>request.form[k]\<close>: a missing key is werkzeug's \<open>BadRequestKeyError\<close>.\<close>

definition form_getitem :: "request \<Rightarrow> string \<Rightarrow> py_exc + string" where
  "form_getitem r k = (case map_of (req_form r) k of Some v \<Rightarrow> Inr v | None \<Rightarrow> Inl (BadRequestKeyError k))"

text \<open>\<open>make_response\<close>: \<open>None\<close> is refused with a \<open>TypeError\<close>.\<close>

fun make_response :: "view_ret \<Rightarrow> py_exc + response" where
  "make_response (RetJsonify j c) = Inr \<lparr>resp_status = c, resp_body = JsonBody j\<rparr>"
| "make_response (RetDict j) = Inr \<lparr>resp_status = 200, resp_body = JsonBody j\<rparr>"
| "make_response (RetStr s) = Inr \<lparr>resp_status = 200, resp_body = HtmlBody s\<rparr>"
| "make_response RetNone =
     Inl (TypeError ''The view function did not return a valid response.'')"

definition error_response :: "nat \<Rightarrow> response" where
  "error_response c = \<lparr>resp_status = c, resp_body = ErrorPage c\<rparr>"

text \<open>\<open>handle_user_exception\<close>: an HTTP exception is rendered with its code, any other
  exception becomes 500 Internal Server Error.\<close>

definition handle_exception :: "py_exc \<Rightarrow> response" where
  "handle_exception e = error_response (case http_code e of Some c \<Rightarrow> c | None \<Rightarrow> 500)"

definition finalize :: "py_exc + view_ret \<Rightarrow> response" where
  "finalize r =
     (case r of
        Inl e \<Rightarrow> handle_exception e
      | Inr v \<Rightarrow> (case make_response v of Inl e \<Rightarrow> handle_exception e | Inr resp \<Rightarrow> resp))"

section \<open>Routing\<close>

text \<open>A rule of the URL map: endpoint, path, and the methods the decorator lists.\<close>

type_synonym 'e rule = "'e \<times> string \<times> string list"

text \<open>Flask adds \<open>HEAD\<close> to every rule with \<open>GET\<close>, and \<open>OPTIONS\<close> to every rule.\<close>

definition rule_methods :: "string list \<Rightarrow> string list" where
  "rule_methods ms = ms @ (if ''GET'' \<in> set ms then [''HEAD''] else []) @ [''OPTIONS'']"

datatype 'e route = NotFound | MethodNotAllowed | AutoOptions | Endpoint 'e

fun match_url :: "'e rule list \<Rightarrow> string \<Rightarrow> ('e \<times> string list) option" where
  "match_url [] u = None"
| "match_url ((e, p, ms) # rs) u = (if p = u then Some (e, ms) else match_url rs u)"

definition route_request :: "'e rule list \<Rightarrow> request \<Rightarrow> 'e route" where
  "route_request rs r =
     (case match_url rs (req_url r) of
        None \<Rightarrow> NotFound
      | Some (e, ms) \<Rightarrow>
          if req_method r \<notin> set (rule_methods ms) then MethodNotAllowed
          else if req_method r = ''OPTIONS'' \<and> ''OPTIONS'' \<notin> set ms then AutoOptions
          else Endpoint e)"

text \<open>\<open>full_dispatch_request\<close>: route, run the view on the state, finalize.\<close>

definition dispatch ::
  "'e rule list \<Rightarrow> ('e \<Rightarrow> request \<Rightarrow> ('s, view_ret) pyst) \<Rightarrow> request \<Rightarrow> 's \<Rightarrow> response \<times> 's" where
  "dispatch rs view r s =
     (case route_request rs r of
        NotFound \<Rightarrow> (error_response 404, s)
      | MethodNotAllowed \<Rightarrow> (error_response 405, s)
      | AutoOptions \<Rightarrow> (\<lparr>resp_status = 200, resp_body = NoBody\<rparr>, s)
      | Endpoint e \<Rightarrow> (let (res, s') = view e r s in (finalize res, s')))"

section \<open>Lemmas\<close>

lemma finalize_Inl [simp, flask_simps]: "finalize (Inl e) = handle_exception e"
  by (simp add: finalize_def)

lemma finalize_jsonify [simp, flask_simps]:
  "finalize (Inr (RetJsonify j c)) = \<lparr>resp_status = c, resp_body = JsonBody j\<rparr>"
  by (simp add: finalize_def)

lemma finalize_dict [simp, flask_simps]:
  "finalize (Inr (RetDict j)) = \<lparr>resp_status = 200, resp_body = JsonBody j\<rparr>"
  by (simp add: finalize_def)

lemma finalize_str [simp, flask_simps]:
  "finalize (Inr (RetStr s)) = \<lparr>resp_status = 200, resp_body = HtmlBody s\<rparr>"
  by (simp add: finalize_def)

lemma handle_exception_status [flask_simps]:
  "resp_status (handle_exception e) = (case http_code e of Some c \<Rightarrow> c | None \<Rightarrow> 500)"
  by (simp add: handle_exception_def error_response_def)

lemma handle_exception_500 [simp, flask_simps]:
  "http_code e = None \<Longrightarrow> handle_exception e = error_response 500"
  by (simp add: handle_exception_def)

lemma msg_json_inj [simp]: "msg_json a = msg_json b \<longleftrightarrow> a = b"
  by (simp add: msg_json_def)

end
