(* ===== verification/FileSys.thy ===== *)
theory FileSys
  imports PyCore
begin

text \<open>
  The file system as the handlers see it through \<open>os.path.exists\<close>, \<open>os.mkdir\<close> and
  Pillow's \<open>Image.save\<close> (\<open>builtins.open(filename, "w+b")\<close>, write, and removal of a
  file it created when the write fails). The state is a record of the directories and
  regular files (absolute component lists), the working directory, the directories in
  which entries cannot be created or written (permission denied), and whether the device
  is full. A path string is checked as CPython and Linux check it (embedded NUL,
  \<open>PATH_MAX\<close>, empty path), then walked component by component from the root or the
  working directory (\<open>NAME_MAX\<close>, missing directory, file used as directory, \<open>..\<close>).
  Not modelled: symbolic links, mount points, file modes other than the per-directory
  permission flag, and the trailing-slash forms of path strings (the handlers never pass
  one: \<open>str()\<close> of a pure path has no trailing slash).
\<close>

datatype 'img content =
    Png 'img     \<comment> \<open>an image written completely\<close>
  | Partial      \<comment> \<open>a file truncated or created by open and not (fully) written\<close>
  | Blob         \<comment> \<open>any other file\<close>

record 'img fs =
  fs_dirs :: "path set"
  fs_files :: "path \<rightharpoonup> 'img content"
  fs_cwd :: path
  fs_ro :: "path set"
  fs_full :: bool

definition NAME_MAX :: nat where "NAME_MAX = 255"
definition PATH_MAX :: nat where "PATH_MAX = 4096"

section \<open>Path resolution\<close>

text \<open>The kernel's walk over the directory components of a path.\<close>

fun walk :: "'img fs \<Rightarrow> path \<Rightarrow> name list \<Rightarrow> errno + path" where
  "walk fs cur [] = Inr cur"
| "walk fs cur (c # cs) =
     (if c = ''..'' then walk fs (butlast cur) cs
      else if NAME_MAX < utf8_len c then Inl ENAMETOOLONG
      else if cur @ [c] \<in> fs_dirs fs then walk fs (cur @ [c]) cs
      else if fs_files fs (cur @ [c]) \<noteq> None then Inl ENOTDIR
      else Inl ENOENT)"

definition os_comps :: "string \<Rightarrow> name list" where
  "os_comps s = filter pp_keep (split_on (CHR ''/'') s)"

definition start_dir :: "'img fs \<Rightarrow> string \<Rightarrow> path" where
  "start_dir fs s = (if startswith s ''/'' then [] else fs_cwd fs)"

text \<open>What a path string names: an existing directory reached by \<open>..\<close> or by the
  empty component list, or an entry of an existing directory.\<close>

datatype target = TDir path | TEntry path name

definition os_resolve :: "'img fs \<Rightarrow> string \<Rightarrow> py_exc + target" where
  "os_resolve fs s =
     (if CHR 0x00 \<in> set s then Inl (ValueError ''embedded null byte'')
      else if s = [] then Inl (OSError ENOENT)
      else if PATH_MAX \<le> utf8_len s then Inl (OSError ENAMETOOLONG)
      else let cs = os_comps s; d0 = start_dir fs s in
        if cs = [] then Inr (TDir d0)
        else case walk fs d0 (butlast cs) of
          Inl e \<Rightarrow> Inl (OSError e)
        | Inr d \<Rightarrow>
            if last cs = ''..'' then Inr (TDir (butlast d))
            else if NAME_MAX < utf8_len (last cs) then Inl (OSError ENAMETOOLONG)
            else Inr (TEntry d (last cs)))"

datatype node = NDir | NFile

definition node_at :: "'img fs \<Rightarrow> path \<Rightarrow> node option" where
  "node_at fs p =
     (if p \<in> fs_dirs fs then Some NDir else if fs_files fs p \<noteq> None then Some NFile else None)"

section \<open>System calls\<close>

definition os_stat :: "'img fs \<Rightarrow> string \<Rightarrow> py_exc + node" where
  "os_stat fs s =
     (case os_resolve fs s of
        Inl e \<Rightarrow> Inl e
      | Inr (TDir _) \<Rightarrow> Inr NDir
      | Inr (TEntry d n) \<Rightarrow>
          (case node_at fs (d @ [n]) of Some k \<Rightarrow> Inr k | None \<Rightarrow> Inl (OSError ENOENT)))"

text \<open>\<open>os.path.exists\<close> turns every \<open>OSError\<close> and \<open>ValueError\<close> of \<open>stat\<close> into False.\<close>

definition os_path_exists :: "string \<Rightarrow> 'img fs \<Rightarrow> bool" where
  "os_path_exists s fs = (case os_stat fs s of Inr _ \<Rightarrow> True | Inl _ \<Rightarrow> False)"

definition os_mkdir :: "string \<Rightarrow> ('img fs, unit) pyst" where
  "os_mkdir s fs =
     (case os_resolve fs s of
        Inl e \<Rightarrow> (Inl e, fs)
      | Inr (TDir _) \<Rightarrow> (Inl (OSError EEXIST), fs)
      | Inr (TEntry d n) \<Rightarrow>
          if node_at fs (d @ [n]) \<noteq> None then (Inl (OSError EEXIST), fs)
          else if d \<in> fs_ro fs then (Inl (OSError EACCES), fs)
          else if fs_full fs then (Inl (OSError ENOSPC), fs)
          else (Inr (), fs\<lparr>fs_dirs := insert (d @ [n]) (fs_dirs fs)\<rparr>))"

text \<open>\<open>open(s, "w+b")\<close>: creates or truncates a regular file.\<close>

definition open_wb :: "string \<Rightarrow> ('img fs, path) pyst" where
  "open_wb s fs =
     (case os_resolve fs s of
        Inl e \<Rightarrow> (Inl e, fs)
      | Inr (TDir _) \<Rightarrow> (Inl (OSError EISDIR), fs)
      | Inr (TEntry d n) \<Rightarrow>
          if d @ [n] \<in> fs_dirs fs then (Inl (OSError EISDIR), fs)
          else if d \<in> fs_ro fs then (Inl (OSError EACCES), fs)
          else (Inr (d @ [n]), fs\<lparr>fs_files := (fs_files fs)(d @ [n] \<mapsto> Partial)\<rparr>))"

text \<open>
  \<open>img.save(s)\<close> (qrcode's PilImage.save delegating to Pillow's Image.save with format
  PNG): \<open>created = not os.path.exists(s)\<close>, open with \<open>w+b\<close>, write through a buffer,
  close; if the save handler raises, the file is closed, removed when it was created,
  and the error re-raised. A full device makes every write fail with \<open>ENOSPC\<close>, and
  the failure surfaces in \<open>fp.close()\<close>: the one after the \<open>try\<close> when the image fits
  in the buffer, the one in the \<open>except\<close> block (before \<open>os.remove\<close>) otherwise. Either
  way the truncated file stays, whether or not the save created it.
\<close>

definition img_save :: "'img \<Rightarrow> string \<Rightarrow> ('img fs, unit) pyst" where
  "img_save img s fs =
     (case open_wb s fs of
        (Inl e, fs1) \<Rightarrow> (Inl e, fs1)
      | (Inr p, fs1) \<Rightarrow>
          if fs_full fs1 then (Inl (OSError ENOSPC), fs1)
          else (Inr (), fs1\<lparr>fs_files := (fs_files fs1)(p \<mapsto> Png img)\<rparr>))"

section \<open>Well-formed file systems\<close>

text \<open>The root exists, so does the working directory, every directory's parent is a
  directory, and every file lies in a directory and is not itself a directory.\<close>

definition wf_fs :: "'img fs \<Rightarrow> bool" where
  "wf_fs fs \<longleftrightarrow>
     [] \<in> fs_dirs fs \<and> fs_cwd fs \<in> fs_dirs fs
     \<and> (\<forall>p \<in> fs_dirs fs. p \<noteq> [] \<longrightarrow> butlast p \<in> fs_dirs fs)
     \<and> (\<forall>p \<in> dom (fs_files fs). p \<noteq> [] \<and> butlast p \<in> fs_dirs fs \<and> p \<notin> fs_dirs fs)"

text \<open>Where \<open>img.save(s)\<close> writes, and when it succeeds.\<close>

definition save_target :: "'img fs \<Rightarrow> string \<Rightarrow> path option" where
  "save_target fs s = (case os_resolve fs s of Inr (TEntry d n) \<Rightarrow> Some (d @ [n]) | _ \<Rightarrow> None)"

definition save_ok :: "'img fs \<Rightarrow> string \<Rightarrow> bool" where
  "save_ok fs s \<longleftrightarrow>
     (case os_resolve fs s of
        Inr (TEntry d n) \<Rightarrow> d @ [n] \<notin> fs_dirs fs \<and> d \<notin> fs_ro fs \<and> \<not> fs_full fs
      | _ \<Rightarrow> False)"

section \<open>Lemmas\<close>

text \<open>A walk without \<open>..\<close> only descends.\<close>

lemma walk_prefix:
  "''..'' \<notin> set cs \<Longrightarrow> walk fs cur cs = Inr d \<Longrightarrow> prefix cur d"
proof (induction cs arbitrary: cur)
  case Nil
  then show ?case by simp
next
  case (Cons c cs)
  then have "walk fs (cur @ [c]) cs = Inr d" by (auto split: if_splits)
  with Cons.IH Cons.prems(1) have "prefix (cur @ [c]) d" by simp
  then show ?case by (metis append_assoc prefix_def)
qed

lemma walk_in_dirs:
  assumes "wf_fs fs" and "cur \<in> fs_dirs fs" and "walk fs cur cs = Inr d"
  shows "d \<in> fs_dirs fs"
  using assms(2,3)
proof (induction cs arbitrary: cur)
  case Nil
  then show ?case by simp
next
  case (Cons c cs)
  have parent: "butlast cur \<in> fs_dirs fs"
    using assms(1) Cons.prems(1) by (cases "cur = []") (auto simp: wf_fs_def)
  from Cons parent show ?case by (auto split: if_splits)
qed

lemma start_dir_in_dirs: "wf_fs fs \<Longrightarrow> start_dir fs s \<in> fs_dirs fs"
  by (simp add: start_dir_def wf_fs_def)

lemma os_resolve_TEntry_dir [fs_simps]:
  assumes "wf_fs fs" and "os_resolve fs s = Inr (TEntry d n)"
  shows "d \<in> fs_dirs fs"
proof -
  from assms(2) have "walk fs (start_dir fs s) (butlast (os_comps s)) = Inr d"
    by (auto simp: os_resolve_def Let_def split: if_splits sum.splits)
  with assms(1) start_dir_in_dirs show ?thesis by (blast intro: walk_in_dirs)
qed

lemma wf_fs_add_dir:
  "wf_fs fs \<Longrightarrow> d \<in> fs_dirs fs \<Longrightarrow> fs_files fs (d @ [n]) = None \<Longrightarrow>
   wf_fs (fs\<lparr>fs_dirs := insert (d @ [n]) (fs_dirs fs)\<rparr>)"
  by (auto simp: wf_fs_def)

lemma wf_fs_set_file:
  "wf_fs fs \<Longrightarrow> d \<in> fs_dirs fs \<Longrightarrow> d @ [n] \<notin> fs_dirs fs \<Longrightarrow>
   wf_fs (fs\<lparr>fs_files := (fs_files fs)(d @ [n] \<mapsto> c)\<rparr>)"
  by (auto simp: wf_fs_def)

lemma wf_fs_del_file:
  "wf_fs fs \<Longrightarrow> wf_fs (fs\<lparr>fs_files := (fs_files fs)(p := None)\<rparr>)"
  by (auto simp: wf_fs_def)

lemma os_mkdir_wf:
  assumes "wf_fs fs"
  shows "wf_fs (snd (os_mkdir s fs))"
proof (cases "os_resolve fs s")
  case (Inr t)
  with assms show ?thesis
    by (cases t) (auto simp: os_mkdir_def node_at_def intro!: wf_fs_add_dir
        dest: os_resolve_TEntry_dir)
qed (simp add: os_mkdir_def assms)

lemma open_wb_result:
  "open_wb s fs = (Inr p, fs') \<Longrightarrow>
   \<exists>d n. os_resolve fs s = Inr (TEntry d n) \<and> p = d @ [n] \<and> p \<notin> fs_dirs fs \<and>
         d \<notin> fs_ro fs \<and> fs' = fs\<lparr>fs_files := (fs_files fs)(p \<mapsto> Partial)\<rparr>"
  by (auto simp: open_wb_def split: sum.splits target.splits if_splits)

lemma open_wb_error:
  "open_wb s fs = (Inl e, fs') \<Longrightarrow> fs' = fs"
  by (auto simp: open_wb_def split: sum.splits target.splits if_splits)

lemma open_wb_wf:
  assumes "wf_fs fs"
  shows "wf_fs (snd (open_wb s fs))"
proof (cases "open_wb s fs")
  case (Pair r fs')
  show ?thesis
  proof (cases r)
    case (Inl e)
    with Pair assms show ?thesis by (auto dest: open_wb_error)
  next
    case (Inr p)
    with Pair obtain d n where
      "os_resolve fs s = Inr (TEntry d n)" and "p = d @ [n]" and "p \<notin> fs_dirs fs"
      and "fs' = fs\<lparr>fs_files := (fs_files fs)(p \<mapsto> Partial)\<rparr>"
      by (blast dest: open_wb_result)
    with Pair assms show ?thesis
      by (auto intro!: wf_fs_set_file dest: os_resolve_TEntry_dir)
  qed
qed

text \<open>Saving keeps the file system well formed.\<close>

lemma img_save_wf:
  assumes "wf_fs fs"
  shows "wf_fs (snd (img_save img s fs))"
proof (cases "open_wb s fs")
  case (Pair r fs1)
  have wf1: "wf_fs fs1" using open_wb_wf [OF assms, of s] Pair by simp
  show ?thesis
  proof (cases r)
    case (Inl e)
    with Pair wf1 show ?thesis by (simp add: img_save_def)
  next
    case (Inr p)
    with Pair obtain d n where
      res: "os_resolve fs s = Inr (TEntry d n)" and p: "p = d @ [n]" and "p \<notin> fs_dirs fs"
      and fs1: "fs1 = fs\<lparr>fs_files := (fs_files fs)(p \<mapsto> Partial)\<rparr>"
      by (blast dest: open_wb_result)
    then have "wf_fs (fs1\<lparr>fs_files := (fs_files fs1)(p \<mapsto> Png img)\<rparr>)"
      using assms by (auto intro!: wf_fs_set_file dest: os_resolve_TEntry_dir)
    with Pair Inr wf1 show ?thesis
      by (simp add: img_save_def Let_def wf_fs_del_file)
  qed
qed

text \<open>A save that the checks allow writes the image at the resolved path and changes
  nothing else.\<close>

lemma img_save_ok:
  assumes "save_ok fs s" and "save_target fs s = Some p"
  shows "img_save img s fs = (Inr (), fs\<lparr>fs_files := (fs_files fs)(p \<mapsto> Png img)\<rparr>)"
  using assms
  by (auto simp: img_save_def save_ok_def save_target_def open_wb_def Let_def
      split: sum.splits target.splits)

lemma img_save_not_ok:
  assumes "\<not> save_ok fs s"
  shows "\<exists>e. fst (img_save img s fs) = Inl e"
  using assms
  by (auto simp: img_save_def save_ok_def open_wb_def Let_def
      split: sum.splits target.splits prod.splits if_splits)

lemma save_ok_target: "save_ok fs s \<Longrightarrow> \<exists>p. save_target fs s = Some p"
  by (auto simp: save_ok_def save_target_def split: sum.splits target.splits)

text \<open>Saving never changes the directories.\<close>

lemma img_save_dirs [fs_simps]: "fs_dirs (snd (img_save img s fs)) = fs_dirs fs"
  by (auto simp: img_save_def open_wb_def Let_def
      split: sum.splits target.splits prod.splits if_splits)

text \<open>Saving changes at most the file at the resolved path.\<close>

lemma img_save_frame:
  assumes "save_target fs s \<noteq> Some q"
  shows "fs_files (snd (img_save img s fs)) q = fs_files fs q"
  using assms
  by (auto simp: img_save_def open_wb_def save_target_def Let_def
      split: sum.splits target.splits prod.splits if_splits)

lemma img_save_other_fields [fs_simps]:
  "fs_cwd (snd (img_save img s fs)) = fs_cwd fs"
  "fs_ro (snd (img_save img s fs)) = fs_ro fs"
  "fs_full (snd (img_save img s fs)) = fs_full fs"
  by (auto simp: img_save_def open_wb_def Let_def
      split: sum.splits target.splits prod.splits if_splits)

lemma os_mkdir_files [fs_simps]: "fs_files (snd (os_mkdir s fs)) = fs_files fs"
  by (auto simp: os_mkdir_def split: sum.splits target.splits)

lemma os_mkdir_other_fields [fs_simps]:
  "fs_cwd (snd (os_mkdir s fs)) = fs_cwd fs"
  "fs_ro (snd (os_mkdir s fs)) = fs_ro fs"
  "fs_full (snd (os_mkdir s fs)) = fs_full fs"
  by (auto simp: os_mkdir_def split: sum.splits target.splits)

lemma os_mkdir_dirs:
  "fs_dirs (snd (os_mkdir s fs)) = fs_dirs fs \<or>
   (\<exists>p. save_target fs s = Some p \<and> fs_dirs (snd (os_mkdir s fs)) = insert p (fs_dirs fs))"
  by (auto simp: os_mkdir_def save_target_def split: sum.splits target.splits)

lemma img_save_success:
  assumes "img_save img s fs = (Inr u, fs')"
  shows "\<exists>p. save_ok fs s \<and> save_target fs s = Some p \<and>
           fs' = fs\<lparr>fs_files := (fs_files fs)(p \<mapsto> Png img)\<rparr>"
  using assms
  by (auto simp: img_save_def open_wb_def save_target_def save_ok_def Let_def
      split: sum.splits target.splits prod.splits if_splits)

text \<open>Saving raises only \<open>ValueError\<close> (an embedded NUL) or \<open>OSError\<close>.\<close>

lemma os_resolve_error_class:
  "os_resolve fs s = Inl e \<Longrightarrow> isinstance_exc e CValueError \<or> isinstance_exc e COSError"
  by (auto simp: os_resolve_def Let_def split: if_splits sum.splits)

lemma img_save_error_class:
  assumes "fst (img_save img s fs) = Inl e"
  shows "isinstance_exc e CValueError \<or> isinstance_exc e COSError"
  using assms os_resolve_error_class [of fs s]
  by (auto simp: img_save_def open_wb_def Let_def
      split: sum.splits target.splits prod.splits if_splits)

text \<open>A path with an embedded NUL is refused before any system call.\<close>

lemma img_save_nul:
  "CHR 0x00 \<in> set s \<Longrightarrow> img_save img s fs = (Inl (ValueError ''embedded null byte''), fs)"
  by (simp add: img_save_def open_wb_def os_resolve_def)

lemma img_save_resolve_error:
  "os_resolve fs s = Inl e \<Longrightarrow> img_save img s fs = (Inl e, fs)"
  by (simp add: img_save_def open_wb_def)

text \<open>The only image a save can put anywhere is its own.\<close>

lemma img_save_png:
  assumes "fs_files (snd (img_save img s fs)) p = Some (Png i)"
  shows "fs_files fs p = Some (Png i) \<or> i = img"
  using assms
  by (auto simp: img_save_def open_wb_def Let_def
      split: sum.splits target.splits prod.splits if_splits)

text \<open>A failed save leaves every file as it was or truncated (\<open>Partial\<close>): a file it
  created is removed again, a file it opened for overwriting keeps no image.\<close>

lemma img_save_fail_files:
  assumes "img_save img s fs = (Inl e, fs')"
  shows "fs_files fs' q = fs_files fs q \<or> fs_files fs' q = Some Partial"
  using assms
  by (auto simp: img_save_def open_wb_def os_path_exists_def os_stat_def node_at_def Let_def
      split: sum.splits target.splits prod.splits if_splits option.splits)

lemma img_save_success_ok:
  assumes "img_save img s fs = (Inr u, fs')"
  shows "save_ok fs s"
  using assms
  by (auto simp: img_save_def open_wb_def save_ok_def Let_def
      split: sum.splits target.splits prod.splits if_splits)

text \<open>A save on a full device that overwrites an existing file leaves it truncated.\<close>

lemma img_save_full_existing:
  assumes "os_resolve fs s = Inr (TEntry d n)" and "d @ [n] \<notin> fs_dirs fs" and "d \<notin> fs_ro fs"
    and "fs_full fs" and "fs_files fs (d @ [n]) = Some c"
  shows "img_save img s fs = (Inl (OSError ENOSPC), fs\<lparr>fs_files := (fs_files fs)(d @ [n] \<mapsto> Partial)\<rparr>)"
  using assms
  by (simp add: img_save_def open_wb_def os_path_exists_def os_stat_def node_at_def)

text \<open>Changing files never changes where a successful resolution leads: the walk
  only passes through directories.\<close>

lemma walk_files_update:
  "walk fs cur cs = Inr d \<Longrightarrow> walk (fs\<lparr>fs_files := f\<rparr>) cur cs = Inr d"
  by (induction cs arbitrary: cur) (auto split: if_splits)

lemma os_resolve_files_update:
  "os_resolve fs s = Inr t \<Longrightarrow> os_resolve (fs\<lparr>fs_files := f\<rparr>) s = Inr t"
  by (auto simp: os_resolve_def start_dir_def Let_def walk_files_update
      split: if_splits sum.splits)

lemma save_ok_entry: "save_ok fs s \<Longrightarrow> \<exists>d n. os_resolve fs s = Inr (TEntry d n)"
  by (auto simp: save_ok_def split: sum.splits target.splits)

lemma save_target_entry: "save_target fs s = Some p \<Longrightarrow> \<exists>d n. os_resolve fs s = Inr (TEntry d n)"
  by (auto simp: save_target_def split: sum.splits target.splits)

lemma save_ok_files_update:
  assumes "save_ok fs s"
  shows "save_ok (fs\<lparr>fs_files := f\<rparr>) s"
proof -
  obtain d n where r: "os_resolve fs s = Inr (TEntry d n)" using save_ok_entry [OF assms] by blast
  with assms show ?thesis by (simp add: save_ok_def os_resolve_files_update [OF r])
qed

lemma save_target_files_update:
  assumes "save_target fs s = Some p"
  shows "save_target (fs\<lparr>fs_files := f\<rparr>) s = Some p"
proof -
  obtain d n where r: "os_resolve fs s = Inr (TEntry d n)" using save_target_entry [OF assms] by blast
  with assms show ?thesis by (simp add: save_target_def os_resolve_files_update [OF r])
qed

end
