(* ===== verification/PurePath.thy ===== *)
theory PurePath
  imports Prelude
begin

text \<open>
  \<open>pathlib.PurePath\<close> on POSIX, as the handlers use it in
  \<open>PurePath("imgs", entry_id + ".png")\<close>: the arguments are joined by
  \<open>posixpath.join\<close>, the result is split into an anchor (root) and its parts, dropping
  empty and \<open>.\<close> parts (\<open>..\<close> is kept: a pure path is never resolved), and \<open>str()\<close>
  writes the path back. The roundtrip \<open>parse (str p) = p\<close> holds for every well-formed
  pure path, and the parts of the joined path show where the handlers' file lands.
\<close>

record pure_path =
  pp_root :: string
  pp_parts :: "string list"

text \<open>\<open>posixpath.splitroot\<close> (without the drive, always empty on POSIX).\<close>

definition posix_splitroot :: "string \<Rightarrow> string \<times> string" where
  "posix_splitroot p =
     (if take 1 p \<noteq> ''/'' then ([], p)
      else if take 1 (drop 1 p) \<noteq> ''/'' \<or> take 1 (drop 2 p) = ''/'' then (''/'', drop 1 p)
      else (''//'', drop 2 p))"

definition parse_pure_path :: "string \<Rightarrow> pure_path" where
  "parse_pure_path s =
     (let (root, rel) = posix_splitroot s
      in \<lparr>pp_root = root, pp_parts = filter pp_keep (split_on (CHR ''/'') rel)\<rparr>)"

text \<open>\<open>posixpath.join(a, b)\<close>: an absolute \<open>b\<close> replaces \<open>a\<close>.\<close>

definition posix_join :: "string \<Rightarrow> string \<Rightarrow> string" where
  "posix_join a b =
     (if startswith b ''/'' then b
      else if a = [] \<or> endswith a ''/'' then a @ b
      else a @ CHR ''/'' # b)"

text \<open>\<open>PurePath(a, b)\<close>.\<close>

definition pure_path2 :: "string \<Rightarrow> string \<Rightarrow> pure_path" where
  "pure_path2 a b = parse_pure_path (posix_join a b)"

text \<open>\<open>str(p)\<close>: the anchor followed by the parts, or \<open>.\<close> for the empty path.\<close>

definition pp_str :: "pure_path \<Rightarrow> string" where
  "pp_str p = (let s = pp_root p @ join_with (CHR ''/'') (pp_parts p) in if s = [] then ''.'' else s)"

text \<open>The pure paths \<open>_parse_path\<close> can return.\<close>

definition wf_pure_path :: "pure_path \<Rightarrow> bool" where
  "wf_pure_path p \<longleftrightarrow>
     pp_root p \<in> {[], ''/'', ''//''} \<and> (\<forall>x \<in> set (pp_parts p). pp_keep x \<and> CHR ''/'' \<notin> set x)"

section \<open>Lemmas\<close>

lemma filter_pp_keep_split_on_join:
  assumes "\<forall>x \<in> set xs. pp_keep x \<and> CHR ''/'' \<notin> set x"
  shows "filter pp_keep (split_on (CHR ''/'') (join_with (CHR ''/'') xs)) = xs"
proof (cases "xs = []")
  case True
  then show ?thesis by (simp add: pp_keep_def)
next
  case False
  with assms have "split_on (CHR ''/'') (join_with (CHR ''/'') xs) = xs"
    by (intro split_on_join) auto
  with assms show ?thesis by (simp add: filter_id_conv)
qed

lemma join_with_hd:
  "xs \<noteq> [] \<Longrightarrow> \<exists>t. join_with c xs = hd xs @ t"
  by (cases xs) (auto simp: join_with_Cons)

lemma parse_pure_path_wf: "wf_pure_path (parse_pure_path s)"
  by (auto simp: wf_pure_path_def parse_pure_path_def posix_splitroot_def
      dest: split_on_sep_free split: prod.splits if_splits)

text \<open>Writing a well-formed pure path and parsing it again gives it back.\<close>

lemma join_parts_no_lead_slash:
  assumes "\<forall>x \<in> set xs. pp_keep x \<and> CHR ''/'' \<notin> set x"
  shows "take 1 (join_with (CHR ''/'') xs) \<noteq> ''/''"
proof (cases "xs = []")
  case True
  then show ?thesis by simp
next
  case False
  obtain t where t: "join_with (CHR ''/'') xs = hd xs @ t"
    using join_with_hd [OF False] by blast
  from assms False have "hd xs \<noteq> []" and "CHR ''/'' \<notin> set (hd xs)"
    by (auto simp: pp_keep_def)
  then obtain y ys where "hd xs = y # ys" and "y \<noteq> CHR ''/''"
    by (cases "hd xs") auto
  with t show ?thesis by simp
qed

text \<open>
  Round trip of the \<open>pathlib\<close> model: parsing \<open>str(p)\<close> of a pure path that parsing
  can produce gives \<open>p\<close> back, so \<open>str()\<close> loses nothing \<open>PurePath\<close> keeps.
\<close>

lemma pp_str_parse_pure_path:
  assumes "wf_pure_path p"
  shows "parse_pure_path (pp_str p) = p"
proof -
  let ?j = "join_with (CHR ''/'') (pp_parts p)"
  have parts: "\<forall>x \<in> set (pp_parts p). pp_keep x \<and> CHR ''/'' \<notin> set x"
    using assms by (simp add: wf_pure_path_def)
  have rt: "filter pp_keep (split_on (CHR ''/'') ?j) = pp_parts p"
    using parts by (rule filter_pp_keep_split_on_join)
  have lead: "take 1 ?j \<noteq> ''/''"
    using parts by (rule join_parts_no_lead_slash)
  have root: "pp_root p \<in> {[], ''/'', ''//''}"
    using assms by (simp add: wf_pure_path_def)
  show ?thesis
  proof (cases "pp_root p = []")
    case True
    show ?thesis
    proof (cases "?j = []")
      case True
      with rt \<open>pp_root p = []\<close> show ?thesis
        by (simp add: pp_str_def parse_pure_path_def posix_splitroot_def pp_keep_def)
    next
      case False
      with rt lead \<open>pp_root p = []\<close> show ?thesis
        by (simp add: pp_str_def parse_pure_path_def posix_splitroot_def)
    qed
  next
    case False
    with root lead rt show ?thesis
      by (auto simp: pp_str_def parse_pure_path_def posix_splitroot_def)
  qed
qed

lemma posix_splitroot_keeps:
  assumes "c \<noteq> CHR ''/''" and "c \<in> set s"
  shows "c \<in> set (snd (posix_splitroot s))"
proof (cases s)
  case Nil
  with assms show ?thesis by simp
next
  case (Cons x t)
  show ?thesis
  proof (cases t)
    case Nil
    with Cons assms show ?thesis by (auto simp: posix_splitroot_def)
  next
    case (Cons y u)
    with \<open>s = x # t\<close> assms show ?thesis by (auto simp: posix_splitroot_def)
  qed
qed

text \<open>A character other than \<open>/\<close> and \<open>.\<close> survives parsing and writing.\<close>

lemma pp_str_parse_keeps:
  assumes "c \<noteq> CHR ''/''" and "c \<noteq> CHR ''.''" and "c \<in> set s"
  shows "c \<in> set (pp_str (parse_pure_path s))"
proof -
  obtain root rel where sr: "posix_splitroot s = (root, rel)" by fastforce
  have "c \<in> set rel" using posix_splitroot_keeps [OF assms(1,3)] sr by simp
  then obtain w where w: "w \<in> set (split_on (CHR ''/'') rel)" "c \<in> set w"
    using split_on_member [OF assms(1)] by blast
  with assms(2) have "pp_keep w" by (auto simp: pp_keep_def)
  with w have "w \<in> set (filter pp_keep (split_on (CHR ''/'') rel))" by simp
  then have "c \<in> set (join_with (CHR ''/'') (filter pp_keep (split_on (CHR ''/'') rel)))"
    using set_join_with w(2) by blast
  with sr show ?thesis by (auto simp: pp_str_def parse_pure_path_def Let_def)
qed

lemma posix_join_keeps: "c \<in> set b \<Longrightarrow> c \<in> set (posix_join a b)"
  by (simp add: posix_join_def)

end
