(* ===== verification/Backend.thy ===== *)
theory Backend
  imports Flask FileSys PurePath
begin

text \<open>
  \<open>src/project-root/features/backend.py\<close>, the current version of the service: the
  view \<open>generate_qr_code\<close> of \<open>POST /qrcode\<close>, the view \<open>main\<close> of \<open>GET /\<close>, and
  the Flask application that routes to them. The QR encoder \<open>qrcode.make\<close> is a
  parameter of type \<open>'img encoder\<close>: it returns the image or raises (the library raises
  \<open>DataOverflowError\<close> for data beyond the capacity of version 40). The view's state is
  the file system of \<^theory_text>\<open>FileSys\<close>.
\<close>

type_synonym 'img encoder = "string \<Rightarrow> py_exc + 'img"

text \<open>\<open>PurePath("imgs", entry_id + ".png")\<close>, as the string \<open>img.save\<close> opens.\<close>

definition qr_path :: "string \<Rightarrow> string" where
  "qr_path entry_id = pp_str (pure_path2 ''imgs'' (entry_id @ ''.png''))"

text \<open>\<open>if not os.path.exists("imgs"): os.mkdir("imgs")\<close>\<close>

definition ensure_imgs :: "('img fs, unit) pyst" where
  "ensure_imgs fs = (if os_path_exists ''imgs'' fs then (Inr (), fs) else os_mkdir ''imgs'' fs)"

text \<open>The body of the \<open>try\<close> statement (lines 14--24).\<close>

definition generate_qr_code_try :: "'img encoder \<Rightarrow> json \<Rightarrow> ('img fs, view_ret) pyst" where
  "generate_qr_code_try enc data =
     py_bind (py_lift (py_in_str ''_id'' data)) (\<lambda>found.
     if \<not> found then py_return (RetJsonify (msg_json ''entry_id not provided'') 400) else
     py_bind (py_lift (py_getitem_str data ''_id'')) (\<lambda>v.
     let entry_id = py_str v in
     if entry_id = [] then py_return (RetJsonify (msg_json ''entry_id is empty'') 400) else
     py_bind (py_lift (enc entry_id)) (\<lambda>img.
     py_bind ensure_imgs (\<lambda>_.
     py_bind (img_save img (qr_path entry_id)) (\<lambda>_.
     py_return (RetJsonify (msg_json ''Success'') 200))))))"

text \<open>The answers of the two handlers: \<open>return jsonify({"message": "Invalid entry_id"}), 400\<close>
  (line 26) and \<open>return jsonify({"message": "Error processing QR code"}), 500\<close> (line 28).\<close>

definition invalid_entry :: view_ret where
  "invalid_entry = RetJsonify (msg_json ''Invalid entry_id'') 400"

definition storage_error :: view_ret where
  "storage_error = RetJsonify (msg_json ''Error processing QR code'') 500"

text \<open>\<open>except ValueError:\<close> and \<open>except OSError:\<close> (lines 25--28).\<close>

definition qr_clauses :: "(except_clause \<times> ('img fs, view_ret) pyst) list" where
  "qr_clauses =
     [(ExceptClass CValueError, py_return invalid_entry),
      (ExceptClass COSError, py_return storage_error)]"

text \<open>\<open>generate_qr_code()\<close> (lines 9--28).\<close>

definition generate_qr_code :: "'img encoder \<Rightarrow> request \<Rightarrow> ('img fs, view_ret) pyst" where
  "generate_qr_code enc req =
     (if \<not> is_json req then py_return (RetJsonify (msg_json ''Request must be JSON'') 400)
      else py_bind (py_lift (get_json req)) (\<lambda>data.
        py_try (generate_qr_code_try enc data) qr_clauses))"

text \<open>\<open>main()\<close> (lines 31--35): a constant HTML fragment (\<open>CHR 0x22\<close> is the
  double quote, \<open>CHR 0x0A\<close> the line break of the triple-quoted string).\<close>

definition main_html :: string where
  "main_html =
     [CHR 0x0A] @
     ''        <h1 style='' @ [CHR 0x22] @ ''text-align:center;'' @ [CHR 0x22] @ ''>Main Page</h1>'' @
     [CHR 0x0A] @
     ''        <p style='' @ [CHR 0x22] @ ''text-align:center;'' @ [CHR 0x22] @
     ''>This is the main page of the backend use other routes to make requests</p>'' @
     [CHR 0x0A] @ ''        ''"

definition main_view :: "('s, view_ret) pyst" where
  "main_view = py_return (RetStr main_html)"

text \<open>The application. Its endpoints are named after the view functions.\<close>

datatype endpoint = EpGenerateQrCode | EpMain

text \<open>\<open>@app.route("/qrcode", methods=['POST'])\<close> on \<open>def generate_qr_code\<close>
  (lines 8--9).\<close>

definition qr_rule :: "endpoint rule" where
  "qr_rule = (EpGenerateQrCode, ''/qrcode'', [''POST''])"

text \<open>\<open>@app.route("/")\<close> on \<open>def main\<close> (lines 30--31), with Flask's default
  methods.\<close>

definition main_rule :: "endpoint rule" where
  "main_rule = (EpMain, ''/'', [''GET''])"

text \<open>The URL map, in the order the decorators run.\<close>

definition app_rules :: "endpoint rule list" where
  "app_rules = [qr_rule, main_rule]"

fun app_view :: "'img encoder \<Rightarrow> endpoint \<Rightarrow> request \<Rightarrow> ('img fs, view_ret) pyst" where
  "app_view enc EpGenerateQrCode r = generate_qr_code enc r"
| "app_view enc EpMain r = main_view"

definition app :: "'img encoder \<Rightarrow> request \<Rightarrow> 'img fs \<Rightarrow> response \<times> 'img fs" where
  "app enc r fs = dispatch app_rules (app_view enc) r fs"

definition imgs_dir :: "'img fs \<Rightarrow> path" where
  "imgs_dir fs = fs_cwd fs @ [''imgs'']"

text \<open>An identifier that names a plain file in \<open>imgs\<close>: no \<open>/\<close>, no NUL, and short
  enough for \<open>NAME_MAX\<close> once \<open>.png\<close> is appended.\<close>

definition plain_id :: "string \<Rightarrow> bool" where
  "plain_id eid \<longleftrightarrow> CHR ''/'' \<notin> set eid \<and> CHR 0x00 \<notin> set eid \<and> utf8_len eid + 4 \<le> NAME_MAX"

subsection \<open>Concrete inputs for the witnesses\<close>

text \<open>A working directory \<open>/app\<close> without \<open>imgs\<close>, an encoder whose image is its
  payload, and a JSON \<open>POST /qrcode\<close> request.\<close>

definition demo_fs :: "string fs" where
  "demo_fs =
     \<lparr>fs_dirs = {[], [''app'']}, fs_files = Map.empty, fs_cwd = [''app''], fs_ro = {}, fs_full = False\<rparr>"

definition demo_enc :: "string encoder" where
  "demo_enc s = Inr s"

definition post_json :: "json option \<Rightarrow> request" where
  "post_json j =
     \<lparr>req_method = ''POST'', req_url = ''/qrcode'', req_mimetype = ''application/json'',
      req_json = j, req_form = []\<rparr>"

lemmas demo_simps = demo_fs_def demo_enc_def post_json_def imgs_dir_def node_at_def
  os_resolve_def os_comps_def start_dir_def PATH_MAX_def NAME_MAX_def pp_keep_def
  save_ok_def save_target_def is_json_def
  qr_path_def pure_path2_def posix_join_def parse_pure_path_def posix_splitroot_def pp_str_def
  endswith_def

end
