(* ===== verification/BackendEval.thy ===== *)
theory BackendEval
  imports Backend
begin

text \<open>
  Evaluation lemmas for \<^theory_text>\<open>Backend\<close>: what each step of \<open>generate_qr_code\<close>
  computes on every branch (the existence test and \<open>os.mkdir\<close>, the body of the
  \<open>try\<close>, the two \<open>except\<close> clauses, routing to the views), the effect of a request on
  the file system, and the facts the properties of the view and of the application share.
\<close>


lemma os_resolve_imgs [simp, fs_simps]: "os_resolve fs ''imgs'' = Inr (TEntry (fs_cwd fs) ''imgs'')"
  by (simp add: os_resolve_def os_comps_def start_dir_def PATH_MAX_def NAME_MAX_def pp_keep_def)

text \<open>Lines 21--22: the directory is created unless something named \<open>imgs\<close> exists.\<close>

lemma ensure_imgs_eq:
  "ensure_imgs fs =
     (if node_at fs (imgs_dir fs) \<noteq> None then (Inr (), fs)
      else if fs_cwd fs \<in> fs_ro fs then (Inl (OSError EACCES), fs)
      else if fs_full fs then (Inl (OSError ENOSPC), fs)
      else (Inr (), fs\<lparr>fs_dirs := insert (imgs_dir fs) (fs_dirs fs)\<rparr>))"
  by (auto simp: ensure_imgs_def os_path_exists_def os_stat_def os_mkdir_def imgs_dir_def
      split: option.splits)

lemma ensure_imgs_error: "ensure_imgs fs = (Inl e, fs1) \<Longrightarrow> isinstance_exc e COSError \<and> fs1 = fs"
  by (auto simp: ensure_imgs_eq split: if_splits)

lemma ensure_imgs_files [fs_simps]: "fs_files (snd (ensure_imgs fs)) = fs_files fs"
  by (simp add: ensure_imgs_eq)

lemma ensure_imgs_dirs:
  "fs_dirs (snd (ensure_imgs fs)) = fs_dirs fs \<or>
   fs_dirs (snd (ensure_imgs fs)) = insert (imgs_dir fs) (fs_dirs fs)"
  by (simp add: ensure_imgs_eq)

lemma ensure_imgs_other_fields [fs_simps]:
  "fs_cwd (snd (ensure_imgs fs)) = fs_cwd fs"
  "fs_ro (snd (ensure_imgs fs)) = fs_ro fs"
  "fs_full (snd (ensure_imgs fs)) = fs_full fs"
  by (simp_all add: ensure_imgs_eq)

lemma ensure_imgs_wf: "wf_fs fs \<Longrightarrow> wf_fs (snd (ensure_imgs fs))"
  using os_mkdir_wf [of fs "''imgs''"] by (simp add: ensure_imgs_def)

text \<open>The \<open>except\<close> clauses of the view.\<close>

lemma py_handle_qr_clauses [py_simps]:
  "py_handle e qr_clauses =
     (if isinstance_exc e CValueError then py_return invalid_entry
      else if isinstance_exc e COSError then py_return storage_error
      else py_raise e)"
  by (simp add: qr_clauses_def)

text \<open>The outcomes of the view before its \<open>try\<close> statement.\<close>

lemma generate_qr_code_not_json:
  "\<not> is_json req \<Longrightarrow>
   generate_qr_code enc req = py_return (RetJsonify (msg_json ''Request must be JSON'') 400)"
  by (simp add: generate_qr_code_def)

lemma generate_qr_code_undecodable:
  "is_json req \<Longrightarrow> req_json req = None \<Longrightarrow> generate_qr_code enc req = py_raise BadRequest"
  by (simp add: generate_qr_code_def get_json_def)

lemma generate_qr_code_json:
  "is_json req \<Longrightarrow> req_json req = Some data \<Longrightarrow>
   generate_qr_code enc req = py_try (generate_qr_code_try enc data) qr_clauses"
  by (simp add: generate_qr_code_def get_json_def)

text \<open>The outcomes of the \<open>try\<close> body, one per branch of the source.\<close>

lemma qr_try_in_error:
  "py_in_str ''_id'' data = Inl e \<Longrightarrow> generate_qr_code_try enc data = py_raise e"
  by (simp add: generate_qr_code_try_def fun_eq_iff)

lemma qr_try_missing:
  "py_in_str ''_id'' data = Inr False \<Longrightarrow>
   generate_qr_code_try enc data = py_return (RetJsonify (msg_json ''entry_id not provided'') 400)"
  by (simp add: generate_qr_code_try_def fun_eq_iff)

lemma qr_try_getitem_error:
  "py_in_str ''_id'' data = Inr True \<Longrightarrow> py_getitem_str data ''_id'' = Inl e \<Longrightarrow>
   generate_qr_code_try enc data = py_raise e"
  by (simp add: generate_qr_code_try_def fun_eq_iff)

lemma qr_try_empty:
  "py_in_str ''_id'' data = Inr True \<Longrightarrow> py_getitem_str data ''_id'' = Inr v \<Longrightarrow>
   py_str v = [] \<Longrightarrow>
   generate_qr_code_try enc data = py_return (RetJsonify (msg_json ''entry_id is empty'') 400)"
  by (simp add: generate_qr_code_try_def fun_eq_iff)

lemma qr_try_encode_error:
  "py_in_str ''_id'' data = Inr True \<Longrightarrow> py_getitem_str data ''_id'' = Inr v \<Longrightarrow>
   py_str v \<noteq> [] \<Longrightarrow> enc (py_str v) = Inl e \<Longrightarrow>
   generate_qr_code_try enc data = py_raise e"
  by (simp add: generate_qr_code_try_def fun_eq_iff)

lemma qr_try_store:
  "py_in_str ''_id'' data = Inr True \<Longrightarrow> py_getitem_str data ''_id'' = Inr v \<Longrightarrow>
   py_str v \<noteq> [] \<Longrightarrow> enc (py_str v) = Inr img \<Longrightarrow>
   generate_qr_code_try enc data =
     py_bind ensure_imgs (\<lambda>_. py_bind (img_save img (qr_path (py_str v)))
       (\<lambda>_. py_return (RetJsonify (msg_json ''Success'') 200)))"
  by (simp add: generate_qr_code_try_def fun_eq_iff)

lemma py_in_str_JObj [simp]: "py_in_str s (JObj kvs) = Inr (map_of kvs s \<noteq> None)"
  by (simp add: map_of_eq_None_iff)

lemma py_getitem_str_JObj_Some [simp]:
  "map_of kvs s = Some v \<Longrightarrow> py_getitem_str (JObj kvs) s = Inr v"
  by simp

text \<open>The routes of the application.\<close>

lemma app_post_qrcode:
  "req_method req = ''POST'' \<Longrightarrow> req_url req = ''/qrcode'' \<Longrightarrow>
   app enc req fs = (let (r, fs') = generate_qr_code enc req fs in (finalize r, fs'))"
  by (simp add: app_def dispatch_def route_request_def app_rules_def qr_rule_def main_rule_def rule_methods_def)

lemma app_get_main:
  "req_method req = ''GET'' \<Longrightarrow> req_url req = ''/'' \<Longrightarrow>
   app enc req fs = (\<lparr>resp_status = 200, resp_body = HtmlBody main_html\<rparr>, fs)"
  by (simp add: app_def dispatch_def route_request_def app_rules_def qr_rule_def main_rule_def rule_methods_def main_view_def)

text \<open>Every value the view returns is a \<open>jsonify\<close> tuple.\<close>

lemma qr_try_jsonify:
  "fst (generate_qr_code_try enc data fs) = Inr r \<Longrightarrow> \<exists>j c. r = RetJsonify j c"
  by (auto simp: generate_qr_code_try_def py_bind_apply Let_def
      split: sum.splits prod.splits if_splits)

lemma generate_qr_code_jsonify:
  assumes "fst (generate_qr_code enc req fs) = Inr r"
  shows "\<exists>j c. r = RetJsonify j c"
proof (cases "is_json req \<and> req_json req \<noteq> None")
  case True
  then obtain data where data: "is_json req" "req_json req = Some data" by auto
  obtain r0 fs0 where m: "generate_qr_code_try enc data fs = (r0, fs0)" by fastforce
  show ?thesis
  proof (cases r0)
    case (Inl e)
    with assms data m show ?thesis
      by (auto simp: generate_qr_code_json py_try_def py_handle_qr_clauses
          invalid_entry_def storage_error_def split: if_splits)
  next
    case (Inr r1)
    with assms data m qr_try_jsonify [of enc data fs] show ?thesis
      by (simp add: generate_qr_code_json py_try_def)
  qed
next
  case False
  with assms show ?thesis
    by (cases "is_json req") (auto simp: generate_qr_code_not_json generate_qr_code_undecodable)
qed

lemma handle_exception_not_200 [simp]: "resp_status (handle_exception e) \<noteq> 200"
  by (cases e) (simp_all add: handle_exception_def error_response_def)

text \<open>The clauses of the view never answer 200: a 200 comes from the body itself.\<close>

lemma py_try_qr_clauses_200:
  "py_try m qr_clauses s = (Inr (RetJsonify j 200), s') \<Longrightarrow> m s = (Inr (RetJsonify j 200), s')"
  by (auto simp: py_try_def py_handle_qr_clauses invalid_entry_def storage_error_def
      split: prod.splits sum.splits if_splits)

lemma qr_try_200:
  assumes "generate_qr_code_try enc data fs = (Inr (RetJsonify j 200), fs')"
  shows "\<exists>kvs v img fs1 p. data = JObj kvs \<and> map_of kvs ''_id'' = Some v \<and> py_str v \<noteq> [] \<and>
           enc (py_str v) = Inr img \<and> ensure_imgs fs = (Inr (), fs1) \<and>
           save_ok fs1 (qr_path (py_str v)) \<and> save_target fs1 (qr_path (py_str v)) = Some p \<and>
           fs' = fs1\<lparr>fs_files := (fs_files fs1)(p \<mapsto> Png img)\<rparr> \<and> j = msg_json ''Success''"
  using assms
  by (cases data)
     (auto simp: generate_qr_code_try_def py_bind_apply py_lift_def Let_def
        split: sum.splits prod.splits if_splits option.splits dest!: img_save_success)

lemma py_in_str_key: "map_of kvs k = Some v \<Longrightarrow> py_in_str k (JObj kvs) = Inr True"
  by (auto dest: map_of_SomeD intro: rev_image_eqI)

text \<open>The view on a request that passes every check stores the image and answers
  \<open>Success\<close>.\<close>

lemma generate_qr_code_store:
  assumes json: "is_json req" "req_json req = Some (JObj kvs)" "map_of kvs ''_id'' = Some v"
    and eid: "py_str v \<noteq> []" "enc (py_str v) = Inr img"
    and dir: "ensure_imgs fs = (Inr (), fs1)"
    and save: "save_ok fs1 (qr_path (py_str v))" "save_target fs1 (qr_path (py_str v)) = Some p"
  shows "generate_qr_code enc req fs =
           (Inr (RetJsonify (msg_json ''Success'') 200), fs1\<lparr>fs_files := (fs_files fs1)(p \<mapsto> Png img)\<rparr>)"
proof -
  have body: "generate_qr_code_try enc (JObj kvs) =
     py_bind ensure_imgs (\<lambda>_. py_bind (img_save img (qr_path (py_str v)))
       (\<lambda>_. py_return (RetJsonify (msg_json ''Success'') 200)))"
    using json(3) eid by (intro qr_try_store py_in_str_key) simp_all
  show ?thesis
    using json(1,2) dir img_save_ok [OF save, of img]
    by (simp add: generate_qr_code_json body py_try_def py_bind_apply)
qed

text \<open>A 200 from the view comes from the body of the \<open>try\<close> statement, which only
  answers 200 after storing the image.\<close>

lemma generate_qr_code_200:
  assumes gen: "generate_qr_code enc req fs = (r, fs')" and r: "r = Inr (RetJsonify j 200)"
  obtains kvs v img fs1 p where "req_json req = Some (JObj kvs)" "map_of kvs ''_id'' = Some v"
    "py_str v \<noteq> []" "enc (py_str v) = Inr img" "ensure_imgs fs = (Inr (), fs1)"
    "save_ok fs1 (qr_path (py_str v))" "save_target fs1 (qr_path (py_str v)) = Some p"
    "fs' = fs1\<lparr>fs_files := (fs_files fs1)(p \<mapsto> Png img)\<rparr>" "j = msg_json ''Success''"
proof -
  have js: "is_json req"
    using gen r by (cases "is_json req") (simp_all add: generate_qr_code_not_json)
  then obtain data where data: "req_json req = Some data"
    using gen r by (cases "req_json req") (simp_all add: generate_qr_code_undecodable)
  have "py_try (generate_qr_code_try enc data) qr_clauses fs = (Inr (RetJsonify j 200), fs')"
    using gen r js data by (simp add: generate_qr_code_json)
  then have "generate_qr_code_try enc data fs = (Inr (RetJsonify j 200), fs')"
    by (rule py_try_qr_clauses_200)
  from qr_try_200 [OF this] obtain kvs v img fs1 p where
    "data = JObj kvs" "map_of kvs ''_id'' = Some v" "py_str v \<noteq> []"
    "enc (py_str v) = Inr img" "ensure_imgs fs = (Inr (), fs1)"
    "save_ok fs1 (qr_path (py_str v))" "save_target fs1 (qr_path (py_str v)) = Some p"
    "fs' = fs1\<lparr>fs_files := (fs_files fs1)(p \<mapsto> Png img)\<rparr>" "j = msg_json ''Success''"
    by (elim exE conjE)
  with data that show ?thesis by blast
qed

lemma generate_qr_code_finalize_200:
  assumes gen: "generate_qr_code enc req fs = (r, fs')" and fin: "resp = finalize r"
    and ok: "resp_status resp = 200"
  shows "\<exists>j. r = Inr (RetJsonify j 200)"
proof (cases r)
  case (Inl e)
  with ok fin show ?thesis by simp
next
  case (Inr x)
  with gen generate_qr_code_jsonify [of enc req fs] obtain j c where "x = RetJsonify j c"
    by auto
  with Inr ok fin show ?thesis by simp
qed

lemma app_post_eq:
  "req_method req = ''POST'' \<Longrightarrow> req_url req = ''/qrcode'' \<Longrightarrow>
   generate_qr_code enc req fs = (r, fs') \<Longrightarrow> app enc req fs = (finalize r, fs')"
  by (simp add: app_post_qrcode)

text \<open>A JSON \<open>POST /qrcode\<close> whose image is stored.\<close>

lemma app_post_json_store:
  assumes "map_of kvs ''_id'' = Some v" "py_str v \<noteq> []" "enc (py_str v) = Inr img"
    and "ensure_imgs fs = (Inr (), fs1)"
    and "save_ok fs1 (qr_path (py_str v))" "save_target fs1 (qr_path (py_str v)) = Some p"
  shows "app enc (post_json (Some (JObj kvs))) fs =
           (\<lparr>resp_status = 200, resp_body = JsonBody (msg_json ''Success'')\<rparr>,
            fs1\<lparr>fs_files := (fs_files fs1)(p \<mapsto> Png img)\<rparr>)"
proof -
  have r: "req_method (post_json (Some (JObj kvs))) = ''POST''"
    "req_url (post_json (Some (JObj kvs))) = ''/qrcode''"
    "is_json (post_json (Some (JObj kvs)))" "req_json (post_json (Some (JObj kvs))) = Some (JObj kvs)"
    by (simp_all add: post_json_def is_json_def)
  show ?thesis
    using app_post_eq [OF r(1,2) generate_qr_code_store [where enc = enc, OF r(3,4) assms]] by simp
qed

lemma py_in_str_no_key: "map_of kvs k = None \<Longrightarrow> py_in_str k (JObj kvs) = Inr False"
  by (simp add: map_of_eq_None_iff)

text \<open>The store phase of the view (lines 20--24) with its \<open>except\<close> clauses.\<close>

lemma generate_qr_code_stage:
  assumes json: "is_json req" "req_json req = Some (JObj kvs)" "map_of kvs ''_id'' = Some v"
    and eid: "py_str v \<noteq> []" "enc (py_str v) = Inr img"
  shows "generate_qr_code enc req fs =
     (case ensure_imgs fs of
        (Inl e, fs1) \<Rightarrow> py_handle e qr_clauses fs1
      | (Inr _, fs1) \<Rightarrow>
          (case img_save img (qr_path (py_str v)) fs1 of
             (Inl e, fs2) \<Rightarrow> py_handle e qr_clauses fs2
           | (Inr _, fs2) \<Rightarrow> (Inr (RetJsonify (msg_json ''Success'') 200), fs2)))"
proof -
  have body: "generate_qr_code_try enc (JObj kvs) =
     py_bind ensure_imgs (\<lambda>_. py_bind (img_save img (qr_path (py_str v)))
       (\<lambda>_. py_return (RetJsonify (msg_json ''Success'') 200)))"
    using json(3) eid by (intro qr_try_store py_in_str_key) simp_all
  show ?thesis
    using json(1,2)
    by (simp add: generate_qr_code_json body py_try_def py_bind_apply split: prod.splits sum.splits)
qed

lemma qr_path_keeps:
  "c \<noteq> CHR ''/'' \<Longrightarrow> c \<noteq> CHR ''.'' \<Longrightarrow> c \<in> set eid \<Longrightarrow> c \<in> set (qr_path eid)"
  unfolding qr_path_def pure_path2_def by (intro pp_str_parse_keeps posix_join_keeps) simp_all

lemma py_handle_qr_clauses_save:
  "fst (img_save img s fs) = Inl e \<Longrightarrow>
   py_handle e qr_clauses = py_return (if isinstance_exc e CValueError then invalid_entry else storage_error)"
  by (auto simp: py_handle_qr_clauses dest: img_save_error_class)

text \<open>Only \<open>POST /qrcode\<close> runs code that changes the file system.\<close>

lemma app_cases:
  assumes "app enc req fs = (resp, fs')"
  shows "fs' = fs \<or>
         (req_method req = ''POST'' \<and> req_url req = ''/qrcode'' \<and>
          (\<exists>r. generate_qr_code enc req fs = (r, fs') \<and> resp = finalize r))"
  using assms
  by (auto simp: app_def dispatch_def route_request_def app_rules_def qr_rule_def main_rule_def rule_methods_def main_view_def
      split: if_splits prod.splits)

lemma ensure_imgs_files_eq: "ensure_imgs fs = (r, fs1) \<Longrightarrow> fs_files fs1 = fs_files fs"
  by (auto simp: ensure_imgs_eq split: if_splits)

lemma py_handle_qr_clauses_state: "snd (py_handle e qr_clauses s) = s"
  by (simp add: py_handle_qr_clauses)

lemma store_fail_files:
  "ensure_imgs fs = (Inr u, fs1) \<Longrightarrow> img_save img s fs1 = (Inl e, fs') \<Longrightarrow>
   fs_files fs' q = fs_files fs q \<or> fs_files fs' q = Some Partial"
  using img_save_fail_files [of img s fs1 e fs' q] ensure_imgs_files_eq [of fs "Inr u" fs1] by simp

lemma qr_try_fail_files:
  assumes "generate_qr_code_try enc data fs = (r, fs')"
    and "r \<noteq> Inr (RetJsonify (msg_json ''Success'') 200)"
  shows "fs_files fs' q = fs_files fs q \<or> fs_files fs' q = Some Partial"
  using assms
  by (auto simp: generate_qr_code_try_def py_bind_apply py_lift_def Let_def
      split: sum.splits prod.splits if_splits dest: store_fail_files ensure_imgs_error)

text \<open>Whatever the view answers other than \<open>Success\<close>, no file holds a new image.\<close>

lemma generate_qr_code_fail_files:
  assumes gen: "generate_qr_code enc req fs = (r, fs')"
    and r: "r \<noteq> Inr (RetJsonify (msg_json ''Success'') 200)"
  shows "fs_files fs' q = fs_files fs q \<or> fs_files fs' q = Some Partial"
proof (cases "is_json req \<and> req_json req \<noteq> None")
  case True
  then obtain data where js: "is_json req" "req_json req = Some data" by auto
  obtain r0 fs0 where body: "generate_qr_code_try enc data fs = (r0, fs0)" by fastforce
  show ?thesis
  proof (cases r0)
    case (Inl e)
    then have "fs' = fs0" "r0 \<noteq> Inr (RetJsonify (msg_json ''Success'') 200)"
      using gen js body py_handle_qr_clauses_state [of e fs0]
      by (auto simp: generate_qr_code_json py_try_def split: prod.splits)
    with body show ?thesis by (blast dest: qr_try_fail_files)
  next
    case (Inr a)
    then have "fs' = fs0" "r0 = r"
      using gen js body by (auto simp: generate_qr_code_json py_try_def)
    with body r show ?thesis by (blast dest: qr_try_fail_files)
  qed
next
  case False
  then have "fs' = fs"
    using gen by (cases "is_json req") (auto simp: generate_qr_code_not_json generate_qr_code_undecodable)
  then show ?thesis by simp
qed

text \<open>Re-running the checks of lines 21--23 after a success finds \<open>imgs\<close> and the
  same target.\<close>

lemma ensure_imgs_ok_node: "ensure_imgs fs = (Inr u, fs1) \<Longrightarrow> node_at fs1 (imgs_dir fs1) \<noteq> None"
  by (auto simp: ensure_imgs_eq node_at_def imgs_dir_def split: if_splits)

lemma ensure_imgs_node: "node_at fs (imgs_dir fs) \<noteq> None \<Longrightarrow> ensure_imgs fs = (Inr (), fs)"
  by (simp add: ensure_imgs_eq)

lemma node_at_file_update:
  "node_at fs q \<noteq> None \<Longrightarrow> node_at (fs\<lparr>fs_files := (fs_files fs)(p \<mapsto> c)\<rparr>) q \<noteq> None"
  by (auto simp: node_at_def split: if_splits)

lemma imgs_dir_file_update [simp]: "imgs_dir (fs\<lparr>fs_files := f\<rparr>) = imgs_dir fs"
  by (simp add: imgs_dir_def)

text \<open>Where a plain identifier's image goes.\<close>

lemma not_startswith_slash: "CHR ''/'' \<notin> set eid \<Longrightarrow> \<not> startswith (eid @ ''.png'') ''/''"
  by (cases eid) (auto simp: startswith_def)

lemma qr_path_noslash:
  assumes "CHR ''/'' \<notin> set eid"
  shows "qr_path eid = ''imgs'' @ CHR ''/'' # eid @ ''.png''"
proof -
  have slash: "CHR ''/'' \<notin> set (eid @ ''.png'')" using assms by simp
  have join: "posix_join ''imgs'' (eid @ ''.png'') = ''imgs'' @ CHR ''/'' # eid @ ''.png''"
    using not_startswith_slash [OF assms] by (simp add: posix_join_def endswith_def)
  show ?thesis
    using slash
    by (simp add: qr_path_def pure_path2_def join parse_pure_path_def posix_splitroot_def
        pp_str_def pp_keep_def Let_def)
qed

lemma qr_path_plain:
  "plain_id eid \<Longrightarrow> qr_path eid = ''imgs'' @ CHR ''/'' # eid @ ''.png''"
  by (simp add: plain_id_def qr_path_noslash)

lemma os_resolve_plain:
  assumes "plain_id eid" and "imgs_dir fs \<in> fs_dirs fs"
  shows "os_resolve fs (''imgs'' @ CHR ''/'' # eid @ ''.png'') = Inr (TEntry (imgs_dir fs) (eid @ ''.png''))"
proof -
  have slash: "CHR ''/'' \<notin> set (eid @ ''.png'')" using assms by (simp add: plain_id_def)
  have len: "utf8_len eid + 4 \<le> 255" using assms by (simp add: plain_id_def NAME_MAX_def)
  have dd: "eid @ ''.png'' \<noteq> ''..''" by (cases eid) simp_all
  show ?thesis
    using assms len dd slash
    by (simp add: os_resolve_def os_comps_def pp_keep_def Let_def start_dir_def plain_id_def
        PATH_MAX_def NAME_MAX_def imgs_dir_def)
qed

lemma qr_parts_ok:
  "\<forall>x \<in> set (filter pp_keep (split_on (CHR ''/'') s)). pp_keep x \<and> CHR ''/'' \<notin> set x"
  by (auto dest: split_on_sep_free)

text \<open>Line 23's path for an identifier that does not start with a slash.\<close>

lemma qr_path_rel:
  assumes "\<not> startswith eid ''/''"
  shows "qr_path eid =
           join_with (CHR ''/'') (''imgs'' # filter pp_keep (split_on (CHR ''/'') (eid @ ''.png'')))"
proof -
  have ns: "\<not> startswith (eid @ ''.png'') ''/''" using assms by (cases eid) (auto simp: startswith_def)
  have join: "posix_join ''imgs'' (eid @ ''.png'') = ''imgs'' @ CHR ''/'' # eid @ ''.png''"
    using ns by (simp add: posix_join_def endswith_def)
  have sp: "split_on (CHR ''/'') (''imgs'' @ CHR ''/'' # eid @ ''.png'') =
              ''imgs'' # split_on (CHR ''/'') (eid @ ''.png'')"
    by (rule split_on_append_sep) simp
  show ?thesis
    by (simp only: qr_path_def pure_path2_def join parse_pure_path_def posix_splitroot_def sp)
      (simp add: pp_str_def pp_keep_def Let_def join_with_Cons)
qed

text \<open>The parts of \<open>entry_id + ".png"\<close>: the parts of the identifier but its last field,
  then that field with the suffix.\<close>

lemma qr_parts_last:
  "\<exists>ys y. filter pp_keep (split_on (CHR ''/'') (eid @ ''.png'')) = ys @ [y @ ''.png''] \<and>
          set ys \<subseteq> set (split_on (CHR ''/'') eid)"
proof -
  let ?w = "split_on (CHR ''/'') eid"
  have sp: "split_on (CHR ''/'') (eid @ ''.png'') = butlast ?w @ [last ?w @ ''.png'']"
    by (rule split_on_append_no_sep) simp
  have keep: "pp_keep (last ?w @ ''.png'')"
    by (auto simp: pp_keep_def dest: arg_cong [of _ _ length])
  show ?thesis
    using sp keep by (intro exI [of _ "filter pp_keep (butlast ?w)"]) (auto dest: in_set_butlastD)
qed

text \<open>The state changes of the view: none, the one of lines 21--22, or the one of lines
  21--22 followed by the one of line 23.\<close>

lemma qr_try_effect:
  assumes "generate_qr_code_try enc data fs = (r, fs')"
  shows "fs' = fs \<or> fs' = snd (ensure_imgs fs) \<or>
         (\<exists>img s eid. enc eid = Inr img \<and> fs' = snd (img_save img s (snd (ensure_imgs fs))))"
  using assms
  by (auto simp: generate_qr_code_try_def py_bind_apply py_lift_def Let_def
      split: sum.splits prod.splits if_splits; metis snd_conv)

lemma generate_qr_code_effect:
  assumes gen: "generate_qr_code enc req fs = (r, fs')"
  shows "fs' = fs \<or> fs' = snd (ensure_imgs fs) \<or>
         (\<exists>img s eid. enc eid = Inr img \<and> fs' = snd (img_save img s (snd (ensure_imgs fs))))"
proof (cases "is_json req \<and> req_json req \<noteq> None")
  case True
  then obtain data where js: "is_json req" "req_json req = Some data" by auto
  obtain r0 fs0 where body: "generate_qr_code_try enc data fs = (r0, fs0)" by fastforce
  have "fs' = fs0"
  proof (cases r0)
    case (Inl e)
    then show ?thesis
      using gen js body py_handle_qr_clauses_state [of e fs0]
      by (auto simp: generate_qr_code_json py_try_def split: prod.splits)
  next
    case (Inr a)
    then show ?thesis using gen js body by (auto simp: generate_qr_code_json py_try_def)
  qed
  with body show ?thesis by (blast dest: qr_try_effect)
next
  case False
  then have "fs' = fs"
    using gen by (cases "is_json req") (auto simp: generate_qr_code_not_json generate_qr_code_undecodable)
  then show ?thesis by simp
qed

lemma app_effect:
  assumes "app enc req fs = (resp, fs')"
  shows "fs' = fs \<or> fs' = snd (ensure_imgs fs) \<or>
         (\<exists>img s eid. enc eid = Inr img \<and> fs' = snd (img_save img s (snd (ensure_imgs fs))))"
  using app_cases [OF assms] generate_qr_code_effect by blast

lemma ensure_imgs_frame:
  assumes "ensure_imgs fs = (u, fs1)"
  shows "fs_dirs fs \<subseteq> fs_dirs fs1 \<and> fs_dirs fs1 \<subseteq> insert (imgs_dir fs) (fs_dirs fs) \<and>
         fs_files fs1 = fs_files fs \<and> fs_cwd fs1 = fs_cwd fs \<and> fs_ro fs1 = fs_ro fs \<and>
         fs_full fs1 = fs_full fs"
  using assms by (auto simp: ensure_imgs_eq split: if_splits)

lemma img_save_frame_ex:
  "\<exists>p. \<forall>q. q \<noteq> p \<longrightarrow> fs_files (snd (img_save img s fs)) q = fs_files fs q"
proof (cases "save_target fs s")
  case None
  then show ?thesis using img_save_frame [of fs s] by auto
next
  case (Some p)
  then have "\<forall>q. q \<noteq> p \<longrightarrow> fs_files (snd (img_save img s fs)) q = fs_files fs q"
    using img_save_frame [of fs s] by auto
  then show ?thesis by blast
qed

end
