(* ===== verification/BackendView.thy ===== *)
theory BackendView
  imports BackendEval
begin

text \<open>
  Properties of the view \<open>generate_qr_code\<close> of \<open>features/backend.py\<close> as the
  application runs it: the answer and the file written for a valid request, and the
  answer and the file system for each way a request can fail (C1--C11).
\<close>

section \<open>Properties of the view\<close>


text \<open>
  C1. A JSON \<open>POST /qrcode\<close> whose object has an \<open>_id\<close> with a non-empty \<open>str()\<close>,
  which the encoder accepts, and whose image can be stored (after \<open>imgs\<close> has been
  ensured) is answered 200 \<open>{"message": "Success"}\<close>, and the only change besides the
  creation of \<open>imgs\<close> is the QR image of \<open>str(_id)\<close> at the resolved path of
  \<open>imgs/<entry_id>.png\<close>.
\<close>

theorem app_valid_request:
  assumes post: "req_method req = ''POST''" "req_url req = ''/qrcode''"
    and json: "is_json req" "req_json req = Some (JObj kvs)" "map_of kvs ''_id'' = Some v"
    and eid: "py_str v \<noteq> []" "enc (py_str v) = Inr img"
    and dir: "ensure_imgs fs = (Inr (), fs1)"
    and save: "save_ok fs1 (qr_path (py_str v))" "save_target fs1 (qr_path (py_str v)) = Some p"
  shows "app enc req fs =
           (\<lparr>resp_status = 200, resp_body = JsonBody (msg_json ''Success'')\<rparr>,
            fs1\<lparr>fs_files := (fs_files fs1)(p \<mapsto> Png img)\<rparr>)"
  using generate_qr_code_store [where enc = enc, OF json eid dir save] post by (simp add: app_post_qrcode)

theorem app_valid_request_witness:
  "app demo_enc (post_json (Some (JObj [(''_id'', JStr ''abc'')]))) demo_fs =
     (\<lparr>resp_status = 200, resp_body = JsonBody (msg_json ''Success'')\<rparr>,
      \<lparr>fs_dirs = {[''app'', ''imgs''], [], [''app'']},
       fs_files = [[''app'', ''imgs'', ''abc.png''] \<mapsto> Png ''abc''],
       fs_cwd = [''app''], fs_ro = {}, fs_full = False\<rparr>)"
proof -
  let ?r = "post_json (Some (JObj [(''_id'', JStr ''abc'')]))"
  let ?fs1 = "demo_fs\<lparr>fs_dirs := insert [''app'', ''imgs''] (fs_dirs demo_fs)\<rparr>"
  have m: "req_method ?r = ''POST''" "req_url ?r = ''/qrcode''" "is_json ?r"
    "req_json ?r = Some (JObj [(''_id'', JStr ''abc'')])"
    by (simp_all add: post_json_def is_json_def)
  have k: "map_of [(''_id'', JStr ''abc'')] ''_id'' = Some (JStr ''abc'')" by simp
  have e: "py_str (JStr ''abc'') \<noteq> []" "demo_enc (py_str (JStr ''abc'')) = Inr ''abc''"
    by (simp_all add: demo_enc_def)
  have dir: "ensure_imgs demo_fs = (Inr (), ?fs1)"
    by (simp add: ensure_imgs_eq demo_simps)
  have ok: "save_ok ?fs1 (qr_path (py_str (JStr ''abc'')))"
    by (simp add: demo_simps)
  have tgt: "save_target ?fs1 (qr_path (py_str (JStr ''abc''))) = Some [''app'', ''imgs'', ''abc.png'']"
    by (simp add: demo_simps)
  from app_valid_request [where enc = demo_enc, OF m k e dir ok tgt] show ?thesis
    by (simp add: demo_fs_def)
qed

text \<open>
  C2. Conversely, a 200 answer to \<open>POST /qrcode\<close> happens only for a JSON object whose
  \<open>_id\<close> has a non-empty \<open>str()\<close> accepted by the encoder, and afterwards the file at the
  resolved path of \<open>imgs/<entry_id>.png\<close> holds exactly that QR image.
\<close>

theorem app_success_persisted:
  assumes run: "app enc req fs = (resp, fs')"
    and post: "req_method req = ''POST''" "req_url req = ''/qrcode''"
    and ok: "resp_status resp = 200"
  shows "\<exists>kvs v img fs1 p. req_json req = Some (JObj kvs) \<and> map_of kvs ''_id'' = Some v \<and>
           py_str v \<noteq> [] \<and> enc (py_str v) = Inr img \<and> ensure_imgs fs = (Inr (), fs1) \<and>
           save_target fs1 (qr_path (py_str v)) = Some p \<and> fs_files fs' p = Some (Png img)"
proof -
  obtain r where gen: "generate_qr_code enc req fs = (r, fs')" and fin: "resp = finalize r"
    using run post by (simp add: app_post_qrcode split: prod.splits)
  obtain j where "r = Inr (RetJsonify j 200)"
    using gen fin ok by (blast dest: generate_qr_code_finalize_200)
  with gen obtain kvs v img fs1 p where
    "req_json req = Some (JObj kvs)" "map_of kvs ''_id'' = Some v"
    "py_str v \<noteq> []" "enc (py_str v) = Inr img" "ensure_imgs fs = (Inr (), fs1)"
    "save_target fs1 (qr_path (py_str v)) = Some p"
    "fs' = fs1\<lparr>fs_files := (fs_files fs1)(p \<mapsto> Png img)\<rparr>"
    by (rule generate_qr_code_200)
  then show ?thesis by auto
qed

theorem app_success_persisted_witness:
  "\<exists>kvs v img fs1 p.
     req_json (post_json (Some (JObj [(''_id'', JStr ''qr'')]))) = Some (JObj kvs) \<and>
     map_of kvs ''_id'' = Some v \<and> py_str v \<noteq> [] \<and> demo_enc (py_str v) = Inr img \<and>
     ensure_imgs demo_fs = (Inr (), fs1) \<and> save_target fs1 (qr_path (py_str v)) = Some p \<and>
     fs_files (snd (app demo_enc (post_json (Some (JObj [(''_id'', JStr ''qr'')]))) demo_fs)) p =
       Some (Png img)"
proof -
  let ?r = "post_json (Some (JObj [(''_id'', JStr ''qr'')]))"
  let ?fs1 = "demo_fs\<lparr>fs_dirs := insert [''app'', ''imgs''] (fs_dirs demo_fs)\<rparr>"
  have m: "req_method ?r = ''POST''" "req_url ?r = ''/qrcode''" "is_json ?r"
    "req_json ?r = Some (JObj [(''_id'', JStr ''qr'')])"
    by (simp_all add: post_json_def is_json_def)
  have k: "map_of [(''_id'', JStr ''qr'')] ''_id'' = Some (JStr ''qr'')" by simp
  have e: "py_str (JStr ''qr'') \<noteq> []" "demo_enc (py_str (JStr ''qr'')) = Inr ''qr''"
    by (simp_all add: demo_enc_def)
  have dir: "ensure_imgs demo_fs = (Inr (), ?fs1)"
    by (simp add: ensure_imgs_eq demo_simps)
  have ok: "save_ok ?fs1 (qr_path (py_str (JStr ''qr'')))"
    by (simp add: demo_simps)
  have tgt: "save_target ?fs1 (qr_path (py_str (JStr ''qr''))) = Some [''app'', ''imgs'', ''qr.png'']"
    by (simp add: demo_simps)
  have gen: "generate_qr_code demo_enc ?r demo_fs =
      (Inr (RetJsonify (msg_json ''Success'') 200),
       ?fs1\<lparr>fs_files := (fs_files ?fs1)([''app'', ''imgs'', ''qr.png''] \<mapsto> Png ''qr'')\<rparr>)"
    by (rule generate_qr_code_store [where enc = demo_enc, OF m(3,4) k e dir ok tgt])
  have st: "resp_status (fst (app demo_enc ?r demo_fs)) = 200"
    using m(1,2) gen by (simp add: app_post_qrcode)
  show ?thesis
    by (rule app_success_persisted [OF surjective_pairing m(1,2) st])
qed

text \<open>
  C3. A JSON object without the key \<open>_id\<close> is answered 400
  \<open>{"message": "entry_id not provided"}\<close> and the file system is unchanged.
\<close>

theorem app_missing_id:
  assumes post: "req_method req = ''POST''" "req_url req = ''/qrcode''"
    and json: "is_json req" "req_json req = Some (JObj kvs)" "map_of kvs ''_id'' = None"
  shows "app enc req fs =
           (\<lparr>resp_status = 400, resp_body = JsonBody (msg_json ''entry_id not provided'')\<rparr>, fs)"
proof -
  have "generate_qr_code_try enc (JObj kvs) =
          py_return (RetJsonify (msg_json ''entry_id not provided'') 400)"
    using py_in_str_no_key [OF json(3)] by (rule qr_try_missing)
  then have "generate_qr_code enc req fs =
          (Inr (RetJsonify (msg_json ''entry_id not provided'') 400), fs)"
    using json by (simp add: generate_qr_code_json)
  with post show ?thesis by (simp add: app_post_eq)
qed

theorem app_missing_id_witness:
  "app demo_enc (post_json (Some (JObj [(''id'', JInt 1)]))) demo_fs =
     (\<lparr>resp_status = 400, resp_body = JsonBody (msg_json ''entry_id not provided'')\<rparr>, demo_fs)"
  by (rule app_missing_id [where kvs = "[(''id'', JInt 1)]"]) (simp_all add: post_json_def is_json_def)

text \<open>
  C4. A JSON object whose \<open>_id\<close> is the empty string is answered 400
  \<open>{"message": "entry_id is empty"}\<close> and the file system is unchanged.
\<close>

theorem app_empty_id:
  assumes post: "req_method req = ''POST''" "req_url req = ''/qrcode''"
    and json: "is_json req" "req_json req = Some (JObj kvs)" "map_of kvs ''_id'' = Some (JStr [])"
  shows "app enc req fs =
           (\<lparr>resp_status = 400, resp_body = JsonBody (msg_json ''entry_id is empty'')\<rparr>, fs)"
proof -
  have "generate_qr_code_try enc (JObj kvs) =
          py_return (RetJsonify (msg_json ''entry_id is empty'') 400)"
  proof (rule qr_try_empty [OF py_in_str_key [OF json(3)]])
    show "py_getitem_str (JObj kvs) ''_id'' = Inr (JStr [])" using json(3) by simp
  qed simp
  then have "generate_qr_code enc req fs = (Inr (RetJsonify (msg_json ''entry_id is empty'') 400), fs)"
    using json by (simp add: generate_qr_code_json)
  with post show ?thesis by (simp add: app_post_eq)
qed

theorem app_empty_id_witness:
  "app demo_enc (post_json (Some (JObj [(''_id'', JStr [])]))) demo_fs =
     (\<lparr>resp_status = 400, resp_body = JsonBody (msg_json ''entry_id is empty'')\<rparr>, demo_fs)"
  by (rule app_empty_id [where kvs = "[(''_id'', JStr [])]"]) (simp_all add: post_json_def is_json_def)

text \<open>
  C5. A request to \<open>POST /qrcode\<close> whose body is not declared JSON is answered 400
  \<open>{"message": "Request must be JSON"}\<close> and the file system is unchanged.
\<close>

theorem app_not_json:
  assumes "req_method req = ''POST''" "req_url req = ''/qrcode''" "\<not> is_json req"
  shows "app enc req fs =
           (\<lparr>resp_status = 400, resp_body = JsonBody (msg_json ''Request must be JSON'')\<rparr>, fs)"
  using assms by (simp add: app_post_qrcode generate_qr_code_not_json)

theorem app_not_json_witness:
  "app demo_enc ((post_json None)\<lparr>req_mimetype := ''text/plain''\<rparr>) demo_fs =
     (\<lparr>resp_status = 400, resp_body = JsonBody (msg_json ''Request must be JSON'')\<rparr>, demo_fs)"
  by (rule app_not_json) (simp_all add: post_json_def is_json_def startswith_def)

text \<open>
  C6. A body declared JSON that does not decode is refused by \<open>request.json\<close> itself:
  the answer is werkzeug's 400 Bad Request page, not the view's
  \<open>{"message": "Request must be JSON"}\<close>, and the file system is unchanged.
\<close>

theorem app_undecodable_json:
  assumes "req_method req = ''POST''" "req_url req = ''/qrcode''" "is_json req" "req_json req = None"
  shows "app enc req fs = (error_response 400, fs)"
  using assms by (simp add: app_post_qrcode generate_qr_code_undecodable handle_exception_def)

theorem app_undecodable_json_witness:
  "app demo_enc (post_json None) demo_fs = (error_response 400, demo_fs)"
  by (rule app_undecodable_json) (simp_all add: post_json_def is_json_def)

text \<open>
  C7. A JSON body that is not an object is never stored: \<open>None\<close>, a boolean or a number
  makes \<open>"_id" in data\<close> raise \<open>TypeError\<close>, a list or a string that contains
  \<open>"_id"\<close> makes \<open>data["_id"]\<close> raise it, and neither handler catches it, so the answer
  is 500; any other list or string is answered 400 \<open>entry_id not provided\<close>.
\<close>

theorem app_non_object_body:
  assumes post: "req_method req = ''POST''" "req_url req = ''/qrcode''"
    and json: "is_json req" "req_json req = Some data"
    and notobj: "\<forall>kvs. data \<noteq> JObj kvs"
  shows "app enc req fs =
           (if py_in_str ''_id'' data = Inr False
            then \<lparr>resp_status = 400, resp_body = JsonBody (msg_json ''entry_id not provided'')\<rparr>
            else error_response 500, fs)"
  using notobj post json
  by (cases data)
     (auto simp: app_post_qrcode generate_qr_code_json generate_qr_code_try_def
        py_handle_qr_clauses handle_exception_def)

theorem app_non_object_body_witness:
  "app demo_enc (post_json (Some (JList [JStr ''_id'']))) demo_fs = (error_response 500, demo_fs) \<and>
   app demo_enc (post_json (Some (JStr ''no key''))) demo_fs =
     (\<lparr>resp_status = 400, resp_body = JsonBody (msg_json ''entry_id not provided'')\<rparr>, demo_fs)"
proof -
  have a: "app demo_enc (post_json (Some (JList [JStr ''_id'']))) demo_fs = (error_response 500, demo_fs)"
    by (rule trans [OF app_non_object_body [where data = "JList [JStr ''_id'']"]])
       (simp_all add: post_json_def is_json_def)
  have b: "app demo_enc (post_json (Some (JStr ''no key''))) demo_fs =
     (\<lparr>resp_status = 400, resp_body = JsonBody (msg_json ''entry_id not provided'')\<rparr>, demo_fs)"
    by (rule trans [OF app_non_object_body [where data = "JStr ''no key''"]])
       (simp_all add: post_json_def is_json_def startswith_def)
  from a b show ?thesis ..
qed

text \<open>
  C8. When the encoder raises for a present, non-empty identifier, nothing is written;
  a \<open>ValueError\<close> is answered 400 \<open>Invalid entry_id\<close>, an \<open>OSError\<close> 500
  \<open>Error processing QR code\<close>, and any other exception (qrcode's
  \<open>DataOverflowError\<close> for data beyond version 40) escapes the view as a 500 error page.
\<close>

theorem app_encoder_error:
  assumes post: "req_method req = ''POST''" "req_url req = ''/qrcode''"
    and json: "is_json req" "req_json req = Some (JObj kvs)" "map_of kvs ''_id'' = Some v"
    and eid: "py_str v \<noteq> []" "enc (py_str v) = Inl e"
  shows "app enc req fs =
           (if isinstance_exc e CValueError
            then \<lparr>resp_status = 400, resp_body = JsonBody (msg_json ''Invalid entry_id'')\<rparr>
            else if isinstance_exc e COSError
            then \<lparr>resp_status = 500, resp_body = JsonBody (msg_json ''Error processing QR code'')\<rparr>
            else handle_exception e, fs)"
proof -
  have "generate_qr_code_try enc (JObj kvs) = py_raise e"
    using py_in_str_key [OF json(3)] json(3) eid by (intro qr_try_encode_error) simp_all
  then have "generate_qr_code enc req fs = py_handle e qr_clauses fs"
    using json by (simp add: generate_qr_code_json)
  with post show ?thesis
    by (simp add: app_post_eq py_handle_qr_clauses invalid_entry_def storage_error_def)
qed

theorem app_encoder_error_witness:
  "app (\<lambda>s. Inl DataOverflowError) (post_json (Some (JObj [(''_id'', JStr ''abc'')]))) demo_fs =
     (error_response 500, demo_fs)"
  by (rule trans [OF app_encoder_error [where kvs = "[(''_id'', JStr ''abc'')]" and v = "JStr ''abc''"
        and e = DataOverflowError and enc = "\<lambda>s. Inl DataOverflowError"]])
     (simp_all add: post_json_def is_json_def handle_exception_def)

text \<open>
  C9. When \<open>imgs\<close> is missing and cannot be created (\<open>os.mkdir\<close> raises an
  \<open>OSError\<close>: permission denied, device full), a valid request is answered 500
  \<open>Error processing QR code\<close> and the file system is unchanged.
\<close>

theorem app_mkdir_error:
  assumes post: "req_method req = ''POST''" "req_url req = ''/qrcode''"
    and json: "is_json req" "req_json req = Some (JObj kvs)" "map_of kvs ''_id'' = Some v"
    and eid: "py_str v \<noteq> []" "enc (py_str v) = Inr img"
    and dir: "fst (ensure_imgs fs) = Inl e"
  shows "app enc req fs =
           (\<lparr>resp_status = 500, resp_body = JsonBody (msg_json ''Error processing QR code'')\<rparr>, fs)"
proof -
  obtain fs1 where d: "ensure_imgs fs = (Inl e, fs1)" using dir by (cases "ensure_imgs fs") simp
  then have "isinstance_exc e COSError" "fs1 = fs" by (simp_all add: ensure_imgs_error)
  moreover from this have "\<not> isinstance_exc e CValueError" by (cases e) simp_all
  ultimately show ?thesis
    using post generate_qr_code_stage [where enc = enc and fs = fs, OF json eid] d
    by (simp add: app_post_eq py_handle_qr_clauses storage_error_def)
qed

theorem app_mkdir_error_witness:
  "app demo_enc (post_json (Some (JObj [(''_id'', JStr ''abc'')]))) (demo_fs\<lparr>fs_ro := {[''app'']}\<rparr>) =
     (\<lparr>resp_status = 500, resp_body = JsonBody (msg_json ''Error processing QR code'')\<rparr>,
      demo_fs\<lparr>fs_ro := {[''app'']}\<rparr>)"
  by (rule app_mkdir_error [where kvs = "[(''_id'', JStr ''abc'')]" and v = "JStr ''abc''"
        and img = "''abc''" and e = "OSError EACCES"])
     (simp_all add: demo_simps ensure_imgs_eq)

text \<open>
  C10. When the image cannot be saved, the answer follows the class of the error: a
  \<open>ValueError\<close> gives 400 \<open>Invalid entry_id\<close>, an \<open>OSError\<close> (missing or
  non-writable directory, a directory in the way, a name too long, a full device) gives
  500 \<open>Error processing QR code\<close>; the file system is the one the failed save leaves.
\<close>

theorem app_save_error:
  assumes post: "req_method req = ''POST''" "req_url req = ''/qrcode''"
    and json: "is_json req" "req_json req = Some (JObj kvs)" "map_of kvs ''_id'' = Some v"
    and eid: "py_str v \<noteq> []" "enc (py_str v) = Inr img"
    and dir: "ensure_imgs fs = (Inr (), fs1)"
    and save: "img_save img (qr_path (py_str v)) fs1 = (Inl e, fs2)"
  shows "app enc req fs =
           (if isinstance_exc e CValueError
            then \<lparr>resp_status = 400, resp_body = JsonBody (msg_json ''Invalid entry_id'')\<rparr>
            else \<lparr>resp_status = 500, resp_body = JsonBody (msg_json ''Error processing QR code'')\<rparr>,
            fs2)"
proof -
  have hq: "py_handle e qr_clauses =
          py_return (if isinstance_exc e CValueError then invalid_entry else storage_error)"
    using save by (intro py_handle_qr_clauses_save [of img "qr_path (py_str v)" fs1]) simp
  have "py_handle e qr_clauses fs2 =
          (Inr (if isinstance_exc e CValueError then invalid_entry else storage_error), fs2)"
    using fun_cong [OF hq, of fs2] by (simp only: py_return_apply)
  then have "generate_qr_code enc req fs =
      (Inr (if isinstance_exc e CValueError then invalid_entry else storage_error), fs2)"
    using generate_qr_code_stage [where enc = enc and fs = fs, OF json eid] dir save by simp
  then show ?thesis
    using post by (simp add: app_post_eq invalid_entry_def storage_error_def)
qed

theorem app_save_error_witness:
  "app demo_enc (post_json (Some (JObj [(''_id'', JStr ''abc'')])))
     (demo_fs\<lparr>fs_dirs := {[], [''app''], [''app'', ''imgs'']}, fs_ro := {[''app'', ''imgs'']}\<rparr>) =
     (\<lparr>resp_status = 500, resp_body = JsonBody (msg_json ''Error processing QR code'')\<rparr>,
      demo_fs\<lparr>fs_dirs := {[], [''app''], [''app'', ''imgs'']}, fs_ro := {[''app'', ''imgs'']}\<rparr>)"
proof -
  let ?fs = "demo_fs\<lparr>fs_dirs := {[], [''app''], [''app'', ''imgs'']}, fs_ro := {[''app'', ''imgs'']}\<rparr>"
  have dir: "ensure_imgs ?fs = (Inr (), ?fs)"
    by (simp add: ensure_imgs_eq demo_simps)
  have save: "img_save ''abc'' (qr_path (py_str (JStr ''abc''))) ?fs = (Inl (OSError EACCES), ?fs)"
    by (simp add: img_save_def open_wb_def demo_simps)
  show ?thesis
    by (rule trans [OF app_save_error [where kvs = "[(''_id'', JStr ''abc'')]" and v = "JStr ''abc''"
          and img = "''abc''" and enc = demo_enc, OF _ _ _ _ _ _ _ dir save]])
       (simp_all add: demo_simps)
qed

text \<open>
  C11. An identifier with an embedded NUL character passes every check of the view and
  the encoder, but \<open>img.save\<close> refuses the path with \<open>ValueError\<close>, which the view
  answers 400 \<open>Invalid entry_id\<close>; nothing is written, although \<open>imgs\<close> may have been
  created.
\<close>

theorem app_nul_id:
  assumes post: "req_method req = ''POST''" "req_url req = ''/qrcode''"
    and json: "is_json req" "req_json req = Some (JObj kvs)" "map_of kvs ''_id'' = Some v"
    and nul: "CHR 0x00 \<in> set (py_str v)" and enc: "enc (py_str v) = Inr img"
    and dir: "ensure_imgs fs = (Inr (), fs1)"
  shows "app enc req fs =
           (\<lparr>resp_status = 400, resp_body = JsonBody (msg_json ''Invalid entry_id'')\<rparr>, fs1)"
proof -
  have ne: "py_str v \<noteq> []" using nul by auto
  have "CHR 0x00 \<in> set (qr_path (py_str v))"
    using nul by (intro qr_path_keeps) simp_all
  then have "img_save img (qr_path (py_str v)) fs1 = (Inl (ValueError ''embedded null byte''), fs1)"
    by (rule img_save_nul)
  then show ?thesis
    using post generate_qr_code_stage [where enc = enc and fs = fs, OF json ne enc] dir
    by (simp add: app_post_eq py_handle_qr_clauses invalid_entry_def)
qed

theorem app_nul_id_witness:
  "app demo_enc (post_json (Some (JObj [(''_id'', JStr [CHR ''a'', CHR 0x00])]))) demo_fs =
     (\<lparr>resp_status = 400, resp_body = JsonBody (msg_json ''Invalid entry_id'')\<rparr>,
      demo_fs\<lparr>fs_dirs := insert [''app'', ''imgs''] (fs_dirs demo_fs)\<rparr>)"
  by (rule app_nul_id [where kvs = "[(''_id'', JStr [CHR ''a'', CHR 0x00])]"
        and v = "JStr [CHR ''a'', CHR 0x00]" and enc = demo_enc and img = "[CHR ''a'', CHR 0x00]"])
     (simp_all add: demo_simps ensure_imgs_eq)

end
