(* ===== verification/BackendApp.thy ===== *)
theory BackendApp
  imports BackendView
begin

text \<open>
  Properties of the application of \<open>features/backend.py\<close> across requests and
  routes: failed requests and the files they leave (C12, C13), idempotence (C14), the
  recreation of \<open>imgs\<close> (C15), the frame of a request (C16), confinement and
  traversal of the image path (C17, C18) and the routing table (C19).
\<close>

section \<open>Properties of the application\<close>

text \<open>
  C12. A request that is not answered 200 leaves no new complete image: after it, every
  file is as before or truncated. A truncated file is the partial-failure state the spec
  rules out: on a full device the save leaves one behind, whether it created the file or
  overwrote an old image (C13).
\<close>

theorem app_error_keeps_files:
  assumes run: "app enc req fs = (resp, fs')" and err: "resp_status resp \<noteq> 200"
  shows "\<forall>q. fs_files fs' q = fs_files fs q \<or> fs_files fs' q = Some Partial"
proof
  fix q
  from app_cases [OF run]
  show "fs_files fs' q = fs_files fs q \<or> fs_files fs' q = Some Partial"
  proof
    assume "fs' = fs"
    then show ?thesis by simp
  next
    assume "req_method req = ''POST'' \<and> req_url req = ''/qrcode'' \<and>
            (\<exists>r. generate_qr_code enc req fs = (r, fs') \<and> resp = finalize r)"
    then obtain r where gen: "generate_qr_code enc req fs = (r, fs')" and "resp = finalize r"
      by blast
    with err have "r \<noteq> Inr (RetJsonify (msg_json ''Success'') 200)" by auto
    with gen show ?thesis by (rule generate_qr_code_fail_files)
  qed
qed

theorem app_error_keeps_files_witness:
  "\<forall>q. fs_files (snd (app demo_enc ((post_json None)\<lparr>req_mimetype := ''text/plain''\<rparr>) demo_fs)) q =
         fs_files demo_fs q \<or>
       fs_files (snd (app demo_enc ((post_json None)\<lparr>req_mimetype := ''text/plain''\<rparr>) demo_fs)) q =
         Some Partial"
proof -
  let ?r = "(post_json None)\<lparr>req_mimetype := ''text/plain''\<rparr>"
  have "resp_status (fst (app demo_enc ?r demo_fs)) = 400"
    by (simp add: app_post_qrcode generate_qr_code_not_json post_json_def is_json_def startswith_def)
  then show ?thesis by (intro app_error_keeps_files [OF surjective_pairing]) simp
qed

text \<open>
  C13. On a full device a request that overwrites an existing image fails with 500
  \<open>Error processing QR code\<close> and leaves the old file truncated: the previous image is
  lost, the partial-failure state the spec rules out.
\<close>

theorem app_full_device_damages:
  assumes post: "req_method req = ''POST''" "req_url req = ''/qrcode''"
    and json: "is_json req" "req_json req = Some (JObj kvs)" "map_of kvs ''_id'' = Some v"
    and eid: "py_str v \<noteq> []" "enc (py_str v) = Inr img"
    and dir: "ensure_imgs fs = (Inr (), fs1)" and full: "fs_full fs1"
    and res: "os_resolve fs1 (qr_path (py_str v)) = Inr (TEntry d n)"
    and nd: "d @ [n] \<notin> fs_dirs fs1" "d \<notin> fs_ro fs1"
    and old: "fs_files fs1 (d @ [n]) = Some c"
  shows "app enc req fs =
           (\<lparr>resp_status = 500, resp_body = JsonBody (msg_json ''Error processing QR code'')\<rparr>,
            fs1\<lparr>fs_files := (fs_files fs1)(d @ [n] \<mapsto> Partial)\<rparr>)"
proof -
  have save: "img_save img (qr_path (py_str v)) fs1 =
      (Inl (OSError ENOSPC), fs1\<lparr>fs_files := (fs_files fs1)(d @ [n] \<mapsto> Partial)\<rparr>)"
    using res nd full old by (rule img_save_full_existing)
  show ?thesis
    using post generate_qr_code_stage [where enc = enc and fs = fs, OF json eid] dir save
    by (simp add: app_post_eq py_handle_qr_clauses storage_error_def)
qed

theorem app_full_device_damages_witness:
  "app demo_enc (post_json (Some (JObj [(''_id'', JStr ''abc'')])))
     \<lparr>fs_dirs = {[], [''app''], [''app'', ''imgs'']},
      fs_files = [[''app'', ''imgs'', ''abc.png''] \<mapsto> Png ''old''],
      fs_cwd = [''app''], fs_ro = {}, fs_full = True\<rparr> =
   (\<lparr>resp_status = 500, resp_body = JsonBody (msg_json ''Error processing QR code'')\<rparr>,
    \<lparr>fs_dirs = {[], [''app''], [''app'', ''imgs'']},
     fs_files = [[''app'', ''imgs'', ''abc.png''] \<mapsto> Partial],
     fs_cwd = [''app''], fs_ro = {}, fs_full = True\<rparr>)"
proof -
  let ?fs = "\<lparr>fs_dirs = {[], [''app''], [''app'', ''imgs'']},
      fs_files = [[''app'', ''imgs'', ''abc.png''] \<mapsto> Png ''old''],
      fs_cwd = [''app''], fs_ro = {}, fs_full = True\<rparr> :: string fs"
  have dir: "ensure_imgs ?fs = (Inr (), ?fs)"
    by (simp add: ensure_imgs_eq imgs_dir_def node_at_def)
  have res: "os_resolve ?fs (qr_path (py_str (JStr ''abc''))) = Inr (TEntry [''app'', ''imgs''] ''abc.png'')"
    by (simp add: demo_simps)
  show ?thesis
    by (rule trans [OF app_full_device_damages [where kvs = "[(''_id'', JStr ''abc'')]" and v = "JStr ''abc''"
          and img = "''abc''" and enc = demo_enc and c = "Png ''old''", OF _ _ _ _ _ _ _ dir _ res]])
       (simp_all add: demo_simps)
qed

text \<open>
  C14. Idempotence: repeating a request that was answered 200 gives the same answer and
  leaves the file system as the first request left it (the second write overwrites the
  image with the same image).
\<close>

theorem app_idempotent:
  assumes run: "app enc req fs = (resp, fs')"
    and post: "req_method req = ''POST''" "req_url req = ''/qrcode''"
    and ok: "resp_status resp = 200"
  shows "app enc req fs' = (resp, fs')"
proof -
  obtain r where gen: "generate_qr_code enc req fs = (r, fs')" and fin: "resp = finalize r"
    using run post by (simp add: app_post_qrcode split: prod.splits)
  obtain j where r: "r = Inr (RetJsonify j 200)"
    using gen fin ok by (blast dest: generate_qr_code_finalize_200)
  from gen r obtain kvs v img fs1 p where
    json: "req_json req = Some (JObj kvs)" "map_of kvs ''_id'' = Some v" and
    eid: "py_str v \<noteq> []" "enc (py_str v) = Inr img" and dir: "ensure_imgs fs = (Inr (), fs1)" and
    sv: "save_ok fs1 (qr_path (py_str v))" "save_target fs1 (qr_path (py_str v)) = Some p" and
    fs': "fs' = fs1\<lparr>fs_files := (fs_files fs1)(p \<mapsto> Png img)\<rparr>" and j: "j = msg_json ''Success''"
    by (rule generate_qr_code_200)
  have js: "is_json req"
    using gen r by (cases "is_json req") (simp_all add: generate_qr_code_not_json)
  have "node_at fs' (imgs_dir fs') \<noteq> None"
    using ensure_imgs_ok_node [OF dir] fs' by (simp add: node_at_file_update)
  then have dir': "ensure_imgs fs' = (Inr (), fs')" by (rule ensure_imgs_node)
  have sv': "save_ok fs' (qr_path (py_str v))" "save_target fs' (qr_path (py_str v)) = Some p"
    using fs' save_ok_files_update [OF sv(1)] save_target_files_update [OF sv(2)] by simp_all
  have "generate_qr_code enc req fs' =
          (Inr (RetJsonify (msg_json ''Success'') 200), fs'\<lparr>fs_files := (fs_files fs')(p \<mapsto> Png img)\<rparr>)"
    by (rule generate_qr_code_store [where enc = enc, OF js json eid dir' sv'])
  moreover have "fs'\<lparr>fs_files := (fs_files fs')(p \<mapsto> Png img)\<rparr> = fs'"
    using fs' by simp
  ultimately show ?thesis
    using post fin r j by (simp add: app_post_eq)
qed

theorem app_idempotent_witness:
  "app demo_enc (post_json (Some (JObj [(''_id'', JStr ''abc'')])))
     \<lparr>fs_dirs = {[''app'', ''imgs''], [], [''app'']},
      fs_files = [[''app'', ''imgs'', ''abc.png''] \<mapsto> Png ''abc''],
      fs_cwd = [''app''], fs_ro = {}, fs_full = False\<rparr> =
   (\<lparr>resp_status = 200, resp_body = JsonBody (msg_json ''Success'')\<rparr>,
    \<lparr>fs_dirs = {[''app'', ''imgs''], [], [''app'']},
     fs_files = [[''app'', ''imgs'', ''abc.png''] \<mapsto> Png ''abc''],
     fs_cwd = [''app''], fs_ro = {}, fs_full = False\<rparr>)"
proof -
  let ?r = "post_json (Some (JObj [(''_id'', JStr ''abc'')]))"
  let ?fs1 = "demo_fs\<lparr>fs_dirs := insert [''app'', ''imgs''] (fs_dirs demo_fs)\<rparr>"
  have m: "req_method ?r = ''POST''" "req_url ?r = ''/qrcode''" "is_json ?r"
    "req_json ?r = Some (JObj [(''_id'', JStr ''abc'')])"
    by (simp_all add: post_json_def is_json_def)
  have k: "map_of [(''_id'', JStr ''abc'')] ''_id'' = Some (JStr ''abc'')" by simp
  have e: "py_str (JStr ''abc'') \<noteq> []" "demo_enc (py_str (JStr ''abc'')) = Inr ''abc''"
    by (simp_all add: demo_enc_def)
  have dir: "ensure_imgs demo_fs = (Inr (), ?fs1)"
    by (simp add: ensure_imgs_eq demo_simps)
  have ok: "save_ok ?fs1 (qr_path (py_str (JStr ''abc'')))"
    by (simp add: demo_simps)
  have tgt: "save_target ?fs1 (qr_path (py_str (JStr ''abc''))) = Some [''app'', ''imgs'', ''abc.png'']"
    by (simp add: demo_simps)
  have gen: "generate_qr_code demo_enc ?r demo_fs =
      (Inr (RetJsonify (msg_json ''Success'') 200),
       ?fs1\<lparr>fs_files := (fs_files ?fs1)([''app'', ''imgs'', ''abc.png''] \<mapsto> Png ''abc'')\<rparr>)"
    by (rule generate_qr_code_store [where enc = demo_enc, OF m(3,4) k e dir ok tgt])
  have run: "app demo_enc ?r demo_fs =
      (\<lparr>resp_status = 200, resp_body = JsonBody (msg_json ''Success'')\<rparr>,
       ?fs1\<lparr>fs_files := (fs_files ?fs1)([''app'', ''imgs'', ''abc.png''] \<mapsto> Png ''abc'')\<rparr>)"
    using app_post_eq [OF m(1,2) gen] by simp
  from app_idempotent [OF run m(1,2)] show ?thesis by (simp add: demo_fs_def)
qed

text \<open>
  C15. Directory auto-creation: on a well-formed file system without \<open>imgs\<close>, a valid
  request with a plain identifier creates \<open>imgs\<close>, writes \<open>imgs/<entry_id>.png\<close> in it,
  and is answered 200, provided the directories are writable and the device is not full.
\<close>

theorem app_recreates_imgs:
  assumes post: "req_method req = ''POST''" "req_url req = ''/qrcode''"
    and json: "is_json req" "req_json req = Some (JObj kvs)" "map_of kvs ''_id'' = Some v"
    and eid: "py_str v \<noteq> []" "plain_id (py_str v)" "enc (py_str v) = Inr img"
    and wf: "wf_fs fs" and gone: "node_at fs (imgs_dir fs) = None"
    and w: "fs_cwd fs \<notin> fs_ro fs" "imgs_dir fs \<notin> fs_ro fs" and nf: "\<not> fs_full fs"
  shows "app enc req fs =
           (\<lparr>resp_status = 200, resp_body = JsonBody (msg_json ''Success'')\<rparr>,
            fs\<lparr>fs_dirs := insert (imgs_dir fs) (fs_dirs fs),
               fs_files := (fs_files fs)(imgs_dir fs @ [py_str v @ ''.png''] \<mapsto> Png img)\<rparr>)"
proof -
  let ?fs1 = "fs\<lparr>fs_dirs := insert (imgs_dir fs) (fs_dirs fs)\<rparr>"
  let ?p = "imgs_dir fs @ [py_str v @ ''.png'']"
  have dir: "ensure_imgs fs = (Inr (), ?fs1)"
    using gone w nf by (simp add: ensure_imgs_eq)
  have in1: "imgs_dir ?fs1 \<in> fs_dirs ?fs1" by (simp add: imgs_dir_def)
  have res: "os_resolve ?fs1 (qr_path (py_str v)) = Inr (TEntry (imgs_dir fs) (py_str v @ ''.png''))"
    using os_resolve_plain [OF eid(2) in1] qr_path_plain [OF eid(2)] by (simp add: imgs_dir_def)
  have "?p \<notin> fs_dirs fs"
  proof
    assume "?p \<in> fs_dirs fs"
    with wf have "imgs_dir fs \<in> fs_dirs fs" by (auto simp: wf_fs_def)
    with gone show False by (simp add: node_at_def)
  qed
  then have ok: "save_ok ?fs1 (qr_path (py_str v))" and tgt: "save_target ?fs1 (qr_path (py_str v)) = Some ?p"
    using res w nf by (simp_all add: save_ok_def save_target_def)
  have "generate_qr_code enc req fs = (Inr (RetJsonify (msg_json ''Success'') 200),
          ?fs1\<lparr>fs_files := (fs_files ?fs1)(?p \<mapsto> Png img)\<rparr>)"
    by (rule generate_qr_code_store [where enc = enc, OF json eid(1,3) dir ok tgt])
  with post show ?thesis by (simp add: app_post_eq)
qed

theorem app_recreates_imgs_witness:
  "app demo_enc (post_json (Some (JObj [(''_id'', JStr ''abc'')]))) demo_fs =
     (\<lparr>resp_status = 200, resp_body = JsonBody (msg_json ''Success'')\<rparr>,
      demo_fs\<lparr>fs_dirs := insert [''app'', ''imgs''] (fs_dirs demo_fs),
              fs_files := (fs_files demo_fs)([''app'', ''imgs'', ''abc.png''] \<mapsto> Png ''abc'')\<rparr>)"
proof -
  have wf: "wf_fs demo_fs" by (simp add: wf_fs_def demo_fs_def)
  have pl: "plain_id (py_str (JStr ''abc''))" by (simp add: plain_id_def NAME_MAX_def)
  show ?thesis
    using app_recreates_imgs [where kvs = "[(''_id'', JStr ''abc'')]" and v = "JStr ''abc''"
        and enc = demo_enc and img = "''abc''" and fs = demo_fs, OF _ _ _ _ _ _ pl _ wf]
    by (simp add: demo_simps)
qed

text \<open>
  C16. Frame: a request adds at most the directory \<open>imgs\<close>, removes no directory,
  changes at most one file, and leaves the working directory, the permissions and the
  device state alone.
\<close>

theorem app_frame:
  assumes run: "app enc req fs = (resp, fs')"
  shows "fs_dirs fs \<subseteq> fs_dirs fs' \<and> fs_dirs fs' \<subseteq> insert (imgs_dir fs) (fs_dirs fs) \<and>
         (\<exists>p. \<forall>q. q \<noteq> p \<longrightarrow> fs_files fs' q = fs_files fs q) \<and>
         fs_cwd fs' = fs_cwd fs \<and> fs_ro fs' = fs_ro fs \<and> fs_full fs' = fs_full fs"
  using app_effect [OF run]
proof
  assume "fs' = fs"
  then show ?thesis by auto
next
  assume st: "fs' = snd (ensure_imgs fs) \<or>
              (\<exists>img s eid. enc eid = Inr img \<and> fs' = snd (img_save img s (snd (ensure_imgs fs))))"
  define fs1 where "fs1 = snd (ensure_imgs fs)"
  have fr: "fs_dirs fs \<subseteq> fs_dirs fs1 \<and> fs_dirs fs1 \<subseteq> insert (imgs_dir fs) (fs_dirs fs) \<and>
         fs_files fs1 = fs_files fs \<and> fs_cwd fs1 = fs_cwd fs \<and> fs_ro fs1 = fs_ro fs \<and>
         fs_full fs1 = fs_full fs"
    unfolding fs1_def by (rule ensure_imgs_frame [of _ "fst (ensure_imgs fs)"]) simp
  from st show ?thesis
  proof
    assume "fs' = snd (ensure_imgs fs)"
    with fr show ?thesis by (auto simp: fs1_def)
  next
    assume "\<exists>img s eid. enc eid = Inr img \<and> fs' = snd (img_save img s (snd (ensure_imgs fs)))"
    then obtain img s where s: "fs' = snd (img_save img s fs1)" by (auto simp: fs1_def)
    obtain p where "\<forall>q. q \<noteq> p \<longrightarrow> fs_files fs' q = fs_files fs1 q"
      using img_save_frame_ex [of img s fs1] s by blast
    with s fr show ?thesis by (auto simp: img_save_dirs img_save_other_fields)
  qed
qed

theorem app_frame_witness:
  "fs_dirs (snd (app demo_enc (post_json (Some (JObj [(''_id'', JStr ''abc'')]))) demo_fs))
     \<subseteq> insert [''app'', ''imgs''] (fs_dirs demo_fs)"
proof -
  have "imgs_dir demo_fs = [''app'', ''imgs'']" by (simp add: imgs_dir_def demo_fs_def)
  then show ?thesis using app_frame [OF surjective_pairing] by metis
qed

text \<open>
  C17. Confinement: when the identifier neither starts with a slash nor has a \<open>..\<close>
  field, the file that line 23 writes lies strictly below the \<open>imgs\<close> directory of the
  working directory, however many slashes the identifier has.
\<close>

theorem qr_target_confined:
  assumes tgt: "save_target fs (qr_path eid) = Some p"
    and rel: "\<not> startswith eid ''/''"
    and nodd: "''..'' \<notin> set (split_on (CHR ''/'') eid)"
  shows "strict_prefix (imgs_dir fs) p"
proof -
  define P where "P = filter pp_keep (split_on (CHR ''/'') (eid @ ''.png''))"
  obtain ys y where P: "P = ys @ [y @ ''.png'']" and ys: "set ys \<subseteq> set (split_on (CHR ''/'') eid)"
    using qr_parts_last [of eid] unfolding P_def by blast
  have path: "qr_path eid = join_with (CHR ''/'') (''imgs'' # P)"
    using qr_path_rel [OF rel] by (simp add: P_def)
  have ok: "\<forall>x \<in> set (''imgs'' # P). pp_keep x \<and> CHR ''/'' \<notin> set x"
    using qr_parts_ok [of "eid @ ''.png''"] by (simp add: P_def pp_keep_def)
  have comps: "os_comps (qr_path eid) = ''imgs'' # P"
    unfolding path os_comps_def by (rule filter_pp_keep_split_on_join [OF ok])
  have start: "start_dir fs (qr_path eid) = fs_cwd fs"
    by (simp add: path start_dir_def join_with_Cons)
  from tgt obtain d n where res: "os_resolve fs (qr_path eid) = Inr (TEntry d n)" and p: "p = d @ [n]"
    by (auto simp: save_target_def split: sum.splits target.splits)
  have "walk fs (fs_cwd fs) (''imgs'' # ys) = Inr d"
    using res comps start P by (auto simp: os_resolve_def Let_def split: if_splits sum.splits)
  then have w: "walk fs (fs_cwd fs @ [''imgs'']) ys = Inr d"
    by (auto split: if_splits)
  have "''..'' \<notin> set ys" using ys nodd by blast
  from walk_prefix [OF this w] have "prefix (imgs_dir fs) d" by (simp add: imgs_dir_def)
  then show ?thesis
    by (auto simp: p strict_prefix_def prefix_def)
qed

theorem qr_target_confined_witness:
  "save_target (demo_fs\<lparr>fs_dirs := {[], [''app''], [''app'', ''imgs''], [''app'', ''imgs'', ''a'']}\<rparr>)
     (qr_path ''a/b'') = Some [''app'', ''imgs'', ''a'', ''b.png''] \<and>
   strict_prefix (imgs_dir (demo_fs\<lparr>fs_dirs := {[], [''app''], [''app'', ''imgs''], [''app'', ''imgs'', ''a'']}\<rparr>))
     [''app'', ''imgs'', ''a'', ''b.png'']"
proof -
  let ?fs = "demo_fs\<lparr>fs_dirs := {[], [''app''], [''app'', ''imgs''], [''app'', ''imgs'', ''a'']}\<rparr>"
  have t: "save_target ?fs (qr_path ''a/b'') = Some [''app'', ''imgs'', ''a'', ''b.png'']"
    by code_simp
  have r: "\<not> startswith ''a/b'' ''/''" by code_simp
  have d: "''..'' \<notin> set (split_on (CHR ''/'') ''a/b'')" by code_simp
  show ?thesis using qr_target_confined [OF t r d] t by simp
qed

text \<open>Line 23's path for an identifier \<open>../x\<close>, and where it resolves: \<open>imgs\<close> is
  entered and left again, so the file is the working directory's \<open>x.png\<close>.\<close>

lemma qr_path_dotdot:
  assumes "CHR ''/'' \<notin> set x"
  shows "qr_path (''../'' @ x) = ''imgs/../'' @ x @ ''.png''"
proof -
  have ns: "\<not> startswith (''../'' @ x) ''/''" by (simp add: startswith_def)
  have sp: "split_on (CHR ''/'') (''../'' @ x @ ''.png'') = [''..'', x @ ''.png'']"
    using assms split_on_append_sep [of "CHR ''/''" "''..''" "x @ ''.png''"] by simp
  show ?thesis
    using qr_path_rel [OF ns] sp by (simp add: pp_keep_def join_with_Cons)
qed

lemma os_resolve_dotdot:
  assumes "plain_id x" and "imgs_dir fs \<in> fs_dirs fs"
  shows "os_resolve fs (''imgs/../'' @ x @ ''.png'') = Inr (TEntry (fs_cwd fs) (x @ ''.png''))"
proof -
  have slash: "CHR ''/'' \<notin> set (x @ ''.png'')" using assms by (simp add: plain_id_def)
  have sp: "split_on (CHR ''/'') (''imgs/../'' @ x @ ''.png'') = [''imgs'', ''..'', x @ ''.png'']"
    using slash split_on_append_sep [of "CHR ''/''" "''imgs''" "''../'' @ x @ ''.png''"]
      split_on_append_sep [of "CHR ''/''" "''..''" "x @ ''.png''"] by simp
  have dd: "x @ ''.png'' \<noteq> ''..''" "x @ ''.png'' \<noteq> ''.''" "x @ ''.png'' \<noteq> []"
    by (cases x; simp)+
  have len: "utf8_len x + 4 \<le> 255" using assms by (simp add: plain_id_def NAME_MAX_def)
  show ?thesis
    using assms sp dd len
    by (simp add: os_resolve_def os_comps_def pp_keep_def Let_def start_dir_def startswith_def
        plain_id_def PATH_MAX_def NAME_MAX_def imgs_dir_def)
qed

text \<open>
  C18. Path traversal: the identifier is not sanitised. For every identifier \<open>../x\<close>
  with a plain \<open>x\<close>, once \<open>imgs\<close> is a directory, a valid request is answered 200
  \<open>Success\<close> and writes its image to \<open>x.png\<close> in the working directory, beside
  \<open>imgs\<close> rather than in it (the other side of C17).
\<close>

theorem app_path_traversal:
  assumes post: "req_method req = ''POST''" "req_url req = ''/qrcode''"
    and json: "is_json req" "req_json req = Some (JObj kvs)" "map_of kvs ''_id'' = Some v"
    and eid: "py_str v = ''../'' @ x" "plain_id x" "enc (py_str v) = Inr img"
    and dir: "ensure_imgs fs = (Inr (), fs1)" "imgs_dir fs1 \<in> fs_dirs fs1"
    and w: "fs_cwd fs1 @ [x @ ''.png''] \<notin> fs_dirs fs1" "fs_cwd fs1 \<notin> fs_ro fs1" "\<not> fs_full fs1"
  shows "app enc req fs =
           (\<lparr>resp_status = 200, resp_body = JsonBody (msg_json ''Success'')\<rparr>,
            fs1\<lparr>fs_files := (fs_files fs1)(fs_cwd fs1 @ [x @ ''.png''] \<mapsto> Png img)\<rparr>)"
proof -
  have x: "CHR ''/'' \<notin> set x" using eid(2) by (simp add: plain_id_def)
  have res: "os_resolve fs1 (qr_path (py_str v)) = Inr (TEntry (fs_cwd fs1) (x @ ''.png''))"
    unfolding eid(1) qr_path_dotdot [OF x] by (rule os_resolve_dotdot [OF eid(2) dir(2)])
  have ok: "save_ok fs1 (qr_path (py_str v))" using res w by (simp add: save_ok_def)
  have t: "save_target fs1 (qr_path (py_str v)) = Some (fs_cwd fs1 @ [x @ ''.png''])"
    using res by (simp add: save_target_def)
  have ne: "py_str v \<noteq> []" using eid(1) by simp
  show ?thesis
    using generate_qr_code_store [where enc = enc, OF json ne eid(3) dir(1) ok t] post
    by (simp add: app_post_qrcode)
qed

theorem app_path_traversal_witness:
  "app demo_enc (post_json (Some (JObj [(''_id'', JStr ''../x'')]))) demo_fs =
     (\<lparr>resp_status = 200, resp_body = JsonBody (msg_json ''Success'')\<rparr>,
      \<lparr>fs_dirs = {[''app'', ''imgs''], [], [''app'']},
       fs_files = [[''app'', ''x.png''] \<mapsto> Png ''../x''],
       fs_cwd = [''app''], fs_ro = {}, fs_full = False\<rparr>)"
proof -
  let ?fs1 = "demo_fs\<lparr>fs_dirs := insert [''app'', ''imgs''] (fs_dirs demo_fs)\<rparr>"
  have d: "ensure_imgs demo_fs = (Inr (), ?fs1)" by (simp add: ensure_imgs_eq demo_simps)
  have "app demo_enc (post_json (Some (JObj [(''_id'', JStr ''../x'')]))) demo_fs =
          (\<lparr>resp_status = 200, resp_body = JsonBody (msg_json ''Success'')\<rparr>,
           ?fs1\<lparr>fs_files := (fs_files ?fs1)(fs_cwd ?fs1 @ [''x'' @ ''.png''] \<mapsto> Png ''../x'')\<rparr>)"
    by (rule app_path_traversal [where kvs = "[(''_id'', JStr ''../x'')]" and v = "JStr ''../x''" and x = "''x''", OF _ _ _ _ _ _ _ _ d])
       (simp_all add: post_json_def is_json_def demo_enc_def plain_id_def NAME_MAX_def demo_simps)
  then show ?thesis by (simp add: demo_fs_def)
qed

text \<open>
  C19. Routing: the application answers every request by the table of its two
  \<open>@app.route\<close> decorators. \<open>POST /qrcode\<close> runs \<open>generate_qr_code\<close>. \<open>GET\<close> and
  \<open>HEAD /\<close> give the main page. \<open>OPTIONS\<close> on either URL gives an empty 200. Any other
  method on either URL gives 405, and any other URL gives 404. None of the last three
  touches the file system.
\<close>

theorem app_routing:
  "app enc req fs =
     (if req_url req = ''/qrcode'' then
        (if req_method req = ''POST'' then (let (r, fs') = generate_qr_code enc req fs in (finalize r, fs'))
         else if req_method req = ''OPTIONS'' then (\<lparr>resp_status = 200, resp_body = NoBody\<rparr>, fs)
         else (error_response 405, fs))
      else if req_url req = ''/'' then
        (if req_method req \<in> {''GET'', ''HEAD''} then (\<lparr>resp_status = 200, resp_body = HtmlBody main_html\<rparr>, fs)
         else if req_method req = ''OPTIONS'' then (\<lparr>resp_status = 200, resp_body = NoBody\<rparr>, fs)
         else (error_response 405, fs))
      else (error_response 404, fs))"
  by (simp add: app_def dispatch_def route_request_def app_rules_def qr_rule_def main_rule_def rule_methods_def main_view_def)

end
