(* ===== verification/Checkpoint.thy ===== *)
theory Checkpoint
  imports BackendApp
begin

text \<open>
  \<open>src/project-root/features/.ipynb_checkpoints/backend-checkpoint.py\<close>, the draft that
  preceded \<open>features/backend.py\<close>: the view reads the identifier from the form
  (\<open>request.form.get("_id")\<close>), reports its outcome as a \<open>dict\<close> with a \<open>status\<close> field
  (Flask answers a \<open>dict\<close> with HTTP 200 whatever that field says), does not create
  \<open>imgs\<close>, and guards its \<open>try\<close> with \<open>except ValueError():\<close>, a clause that evaluates to
  an exception instance. The routes, the path of the image and the main page are those of
  \<^theory_text>\<open>Backend\<close>.
\<close>

text \<open>\<open>{"status": c, "message": m}\<close>.\<close>

definition status_dict :: "int \<Rightarrow> string \<Rightarrow> json" where
  "status_dict c m = JObj [(''status'', JInt c), (''message'', JStr m)]"

text \<open>The body of the \<open>try\<close> statement (lines 11--17). A form value is a string, so
  \<open>entry_id == None\<close> only holds for a missing key and \<open>str(entry_id)\<close> is the value.\<close>

definition ck_try :: "'img encoder \<Rightarrow> request \<Rightarrow> ('img fs, view_ret) pyst" where
  "ck_try enc req =
     (case form_get req ''_id'' of
        None \<Rightarrow> py_return (RetDict (status_dict 500 ''entry_id not provided''))
      | Some v \<Rightarrow>
          (let entry_id = v in
           py_bind (py_lift (enc entry_id)) (\<lambda>img.
           py_bind (img_save img (qr_path entry_id)) (\<lambda>_.
           py_return (RetDict (status_dict 200 ''Success''))))))"

text \<open>\<open>except ValueError():\<close> (lines 18--19).\<close>

definition ck_clauses :: "(except_clause \<times> ('img fs, view_ret) pyst) list" where
  "ck_clauses = [(ExceptInstance (ValueError []), py_return (RetDict (status_dict 500 ''Invalid entry_id'')))]"

text \<open>\<open>generate_qr_code()\<close> (lines 8--19): without \<open>POST\<close> the function ends without a
  \<open>return\<close>.\<close>

definition ck_generate_qr_code :: "'img encoder \<Rightarrow> request \<Rightarrow> ('img fs, view_ret) pyst" where
  "ck_generate_qr_code enc req =
     (if req_method req = ''POST'' then py_try (ck_try enc req) ck_clauses else py_return RetNone)"

text \<open>\<open>main()\<close> (lines 22--26): the same HTML fragment as \<^theory_text>\<open>Backend\<close>.\<close>

definition ck_main :: "('s, view_ret) pyst" where
  "ck_main = py_return (RetStr main_html)"

text \<open>\<open>@app.route("/qrcode", methods=['POST'])\<close> (lines 7--8) and \<open>@app.route("/")\<close>
  (lines 21--22).\<close>

definition ck_qr_rule :: "endpoint rule" where
  "ck_qr_rule = (EpGenerateQrCode, ''/qrcode'', [''POST''])"

definition ck_main_rule :: "endpoint rule" where
  "ck_main_rule = (EpMain, ''/'', [''GET''])"

fun ck_app_view :: "'img encoder \<Rightarrow> endpoint \<Rightarrow> request \<Rightarrow> ('img fs, view_ret) pyst" where
  "ck_app_view enc EpGenerateQrCode r = ck_generate_qr_code enc r"
| "ck_app_view enc EpMain r = ck_main"

definition ck_app :: "'img encoder \<Rightarrow> request \<Rightarrow> 'img fs \<Rightarrow> response \<times> 'img fs" where
  "ck_app enc r fs = dispatch [ck_qr_rule, ck_main_rule] (ck_app_view enc) r fs"

text \<open>A form \<open>POST /qrcode\<close>.\<close>

definition post_form :: "(string \<times> string) list \<Rightarrow> request" where
  "post_form f =
     \<lparr>req_method = ''POST'', req_url = ''/qrcode'', req_mimetype = ''application/x-www-form-urlencoded'',
      req_json = None, req_form = f\<rparr>"

section \<open>Lemmas\<close>

lemma ck_app_post:
  "req_method req = ''POST'' \<Longrightarrow> req_url req = ''/qrcode'' \<Longrightarrow>
   ck_app enc req fs = (let (r, fs') = py_try (ck_try enc req) ck_clauses fs in (finalize r, fs'))"
  by (simp add: ck_app_def dispatch_def route_request_def ck_qr_rule_def ck_main_rule_def rule_methods_def
      ck_generate_qr_code_def)

text \<open>The clause list catches nothing: every exception of the body becomes the
  \<open>TypeError\<close> of the instance clause.\<close>

lemma ck_try_clauses:
  "py_try (ck_try enc req) ck_clauses fs =
     (case ck_try enc req fs of (Inl e, fs') \<Rightarrow> (Inl catch_error, fs') | (Inr a, fs') \<Rightarrow> (Inr a, fs'))"
  by (simp add: py_try_def ck_clauses_def split: prod.splits sum.splits)

lemma http_code_catch_error [simp]: "http_code catch_error = None"
  by (simp add: catch_error_def)

text \<open>Without \<open>imgs\<close>, the path of a plain identifier does not resolve.\<close>

lemma os_resolve_plain_missing:
  assumes "plain_id eid" and "node_at fs (imgs_dir fs) = None"
  shows "os_resolve fs (qr_path eid) = Inl (OSError ENOENT)"
proof -
  have slash: "CHR ''/'' \<notin> set (eid @ ''.png'')" using assms by (simp add: plain_id_def)
  show ?thesis
    using assms slash
    by (simp add: qr_path_plain os_resolve_def os_comps_def pp_keep_def Let_def start_dir_def
        plain_id_def PATH_MAX_def NAME_MAX_def imgs_dir_def node_at_def split: if_splits)
qed

section \<open>Properties\<close>

text \<open>
  C20. A form without \<open>_id\<close> is answered with HTTP 200: the error is only the
  \<open>"status": 500\<close> field of the body, and nothing is written.
\<close>

theorem ck_missing_id_200:
  assumes post: "req_method req = ''POST''" "req_url req = ''/qrcode''"
    and none: "form_get req ''_id'' = None"
  shows "ck_app enc req fs =
           (\<lparr>resp_status = 200, resp_body = JsonBody (status_dict 500 ''entry_id not provided'')\<rparr>, fs)"
  using post none by (simp add: ck_app_post ck_try_def)

theorem ck_missing_id_200_witness:
  "ck_app demo_enc (post_form [(''name'', ''x'')]) demo_fs =
     (\<lparr>resp_status = 200, resp_body = JsonBody (status_dict 500 ''entry_id not provided'')\<rparr>, demo_fs)"
  by (rule ck_missing_id_200) (simp_all add: post_form_def form_get_def)

text \<open>
  C21. The clause \<open>except ValueError():\<close> catches nothing: whatever the body raises,
  including the \<open>ValueError\<close> the clause names, the answer is Flask's 500 page, with the
  file system the body left.
\<close>

theorem ck_errors_500:
  assumes post: "req_method req = ''POST''" "req_url req = ''/qrcode''"
    and raises: "fst (ck_try enc req fs) = Inl e"
  shows "ck_app enc req fs = (error_response 500, snd (ck_try enc req fs))"
proof -
  obtain fs' where t: "ck_try enc req fs = (Inl e, fs')"
    using raises by (cases "ck_try enc req fs") auto
  then show ?thesis using post by (simp add: ck_app_post ck_try_clauses handle_exception_def)
qed

theorem ck_errors_500_witness:
  "ck_app (\<lambda>s. Inl (ValueError ''bad'') :: py_exc + string) (post_form [(''_id'', ''abc'')]) demo_fs =
     (error_response 500, demo_fs)"
proof -
  let ?enc = "(\<lambda>s. Inl (ValueError ''bad'') :: py_exc + string)"
  have t: "ck_try ?enc (post_form [(''_id'', ''abc'')]) demo_fs = (Inl (ValueError ''bad''), demo_fs)"
    by (simp add: ck_try_def post_form_def form_get_def)
  have "ck_app ?enc (post_form [(''_id'', ''abc'')]) demo_fs =
          (error_response 500, snd (ck_try ?enc (post_form [(''_id'', ''abc'')]) demo_fs))"
    by (rule ck_errors_500 [where e = "ValueError ''bad''"]) (simp add: post_form_def, simp add: post_form_def, simp add: t)
  then show ?thesis by (simp add: t)
qed

text \<open>
  C22. A form \<open>_id\<close> accepted by the encoder and storable is answered 200 with
  \<open>"status": 200\<close> and the image is written at the resolved \<open>imgs/<entry_id>.png\<close>.
\<close>

theorem ck_success:
  assumes post: "req_method req = ''POST''" "req_url req = ''/qrcode''"
    and id: "form_get req ''_id'' = Some v" and e: "enc v = Inr img"
    and save: "save_ok fs (qr_path v)" "save_target fs (qr_path v) = Some p"
  shows "ck_app enc req fs =
           (\<lparr>resp_status = 200, resp_body = JsonBody (status_dict 200 ''Success'')\<rparr>,
            fs\<lparr>fs_files := (fs_files fs)(p \<mapsto> Png img)\<rparr>)"
proof -
  have "ck_try enc req fs =
          (Inr (RetDict (status_dict 200 ''Success'')), fs\<lparr>fs_files := (fs_files fs)(p \<mapsto> Png img)\<rparr>)"
    using id e img_save_ok [OF save, of img] by (simp add: ck_try_def py_bind_apply)
  then show ?thesis using post by (simp add: ck_app_post ck_try_clauses)
qed

theorem ck_success_witness:
  "ck_app demo_enc (post_form [(''_id'', ''abc'')]) (demo_fs\<lparr>fs_dirs := {[], [''app''], [''app'', ''imgs'']}\<rparr>) =
     (\<lparr>resp_status = 200, resp_body = JsonBody (status_dict 200 ''Success'')\<rparr>,
      demo_fs\<lparr>fs_dirs := {[], [''app''], [''app'', ''imgs'']},
              fs_files := [[''app'', ''imgs'', ''abc.png''] \<mapsto> Png ''abc'']\<rparr>)"
proof -
  let ?fs = "demo_fs\<lparr>fs_dirs := {[], [''app''], [''app'', ''imgs'']}\<rparr>"
  have ok: "save_ok ?fs (qr_path ''abc'')" by (simp add: demo_simps)
  have t: "save_target ?fs (qr_path ''abc'') = Some [''app'', ''imgs'', ''abc.png'']"
    by (simp add: demo_simps)
  have "ck_app demo_enc (post_form [(''_id'', ''abc'')]) ?fs =
          (\<lparr>resp_status = 200, resp_body = JsonBody (status_dict 200 ''Success'')\<rparr>,
           ?fs\<lparr>fs_files := (fs_files ?fs)([''app'', ''imgs'', ''abc.png''] \<mapsto> Png ''abc'')\<rparr>)"
    by (rule ck_success [OF _ _ _ _ ok t]) (simp_all add: post_form_def form_get_def demo_enc_def)
  then show ?thesis by (simp add: demo_fs_def)
qed

text \<open>
  C23. The draft does not create \<open>imgs\<close>: without it, a valid form identifier is
  answered 500 and the file system is unchanged (the spec asks for lazy creation).
\<close>

theorem ck_no_imgs:
  assumes post: "req_method req = ''POST''" "req_url req = ''/qrcode''"
    and id: "form_get req ''_id'' = Some v" "plain_id v" and e: "enc v = Inr img"
    and gone: "node_at fs (imgs_dir fs) = None"
  shows "ck_app enc req fs = (error_response 500, fs)"
proof -
  have "ck_try enc req fs = (Inl (OSError ENOENT), fs)"
    using id e img_save_resolve_error [OF os_resolve_plain_missing [OF id(2) gone], of img]
    by (simp add: ck_try_def py_bind_apply)
  then show ?thesis using post by (simp add: ck_app_post ck_try_clauses handle_exception_def)
qed

theorem ck_no_imgs_witness:
  "ck_app demo_enc (post_form [(''_id'', ''abc'')]) demo_fs = (error_response 500, demo_fs)"
proof (rule ck_no_imgs)
  show "plain_id ''abc''" by (simp add: plain_id_def NAME_MAX_def)
  show "node_at demo_fs (imgs_dir demo_fs) = None" by (simp add: demo_simps)
qed (simp_all add: post_form_def form_get_def demo_enc_def)

end
