(* ===== verification/LegacyBackend.thy ===== *)
theory LegacyBackend
  imports Checkpoint
begin

text \<open>
  \<open>src/backend.py\<close>, the first draft. Its view body names \<open>request\<close>, which the module
  never imports, and the dict keys \<open>status\<close> and \<open>message\<close>, which are unbound names,
  not strings; its \<open>def qrcode\<close> rebinds the global \<open>qrcode\<close> that \<open>import qrcode\<close> bound
  to the module. The model therefore has the objects that global names can denote, the
  module's global namespace as the sequence of bindings the module executes, name
  resolution (globals, then builtins, else \<open>NameError\<close>), and the attribute accesses the
  view makes. The routes and the main page are those of \<^theory_text>\<open>Backend\<close>.
\<close>

datatype pyobj =
    OModule string      \<comment> \<open>an imported module\<close>
  | OClass string       \<comment> \<open>a class, such as \<open>Flask\<close>\<close>
  | OFunction string    \<comment> \<open>a function defined by \<open>def\<close>\<close>
  | OFlask              \<comment> \<open>the application object\<close>
  | ORequest            \<comment> \<open>Flask's request proxy\<close>
  | OStr string         \<comment> \<open>a string\<close>
  | OBuiltin string     \<comment> \<open>a builtin\<close>

type_synonym globals = "string \<rightharpoonup> pyobj"

text \<open>The builtins the module names.\<close>

definition py_builtins :: "string list" where
  "py_builtins = [''str'', ''ValueError'']"

text \<open>\<open>LOAD_GLOBAL\<close>.\<close>

definition load_global :: "globals \<Rightarrow> string \<Rightarrow> py_exc + pyobj" where
  "load_global g n =
     (case g n of
        Some v \<Rightarrow> Inr v
      | None \<Rightarrow> if n \<in> set py_builtins then Inr (OBuiltin n) else Inl (NameError n))"

text \<open>The global bindings of lines 1--18, in order: \<open>import qrcode\<close>,
  \<open>from flask import Flask\<close>, \<open>app = Flask(__name__)\<close>, \<open>def qrcode\<close> (the decorator
  returns the function), \<open>def main\<close>.\<close>

definition legacy_bindings :: "(string \<times> pyobj) list" where
  "legacy_bindings =
     [(''qrcode'', OModule ''qrcode''), (''Flask'', OClass ''Flask''), (''app'', OFlask),
      (''qrcode'', OFunction ''qrcode''), (''main'', OFunction ''main'')]"

definition exec_bindings :: "(string \<times> pyobj) list \<Rightarrow> globals \<Rightarrow> globals" where
  "exec_bindings bs g = fold (\<lambda>(n, v) g. g(n \<mapsto> v)) bs g"

definition legacy_globals :: globals where
  "legacy_globals = exec_bindings legacy_bindings Map.empty"

text \<open>\<open>request.method\<close>, \<open>request.form[k]\<close> and \<open>qrcode.make(s)\<close>: only the request
  proxy has the first two, only the module the last.\<close>

definition get_method :: "pyobj \<Rightarrow> request \<Rightarrow> py_exc + string" where
  "get_method rq req = (if rq = ORequest then Inr (req_method req) else Inl (AttributeError ''method''))"

definition get_form_item :: "pyobj \<Rightarrow> request \<Rightarrow> string \<Rightarrow> py_exc + string" where
  "get_form_item rq req k = (if rq = ORequest then form_getitem req k else Inl (AttributeError ''form''))"

definition call_make :: "'img encoder \<Rightarrow> pyobj \<Rightarrow> string \<Rightarrow> py_exc + 'img" where
  "call_make enc q s = (if q = OModule ''qrcode'' then enc s else Inl (AttributeError ''make''))"

text \<open>\<open>{status: c, message: m}\<close>: both keys are looked up as global names; the dict is
  jsonified only with string keys.\<close>

definition legacy_dict :: "globals \<Rightarrow> int \<Rightarrow> string \<Rightarrow> ('s, view_ret) pyst" where
  "legacy_dict g c m =
     py_bind (py_lift (load_global g ''status'')) (\<lambda>k1.
     py_bind (py_lift (load_global g ''message'')) (\<lambda>k2.
     (case (k1, k2) of
        (OStr a, OStr b) \<Rightarrow> py_return (RetDict (JObj [(a, JInt c), (b, JStr m)]))
      | _ \<Rightarrow> py_raise (TypeError ''keys must be str''))))"

text \<open>The body of the \<open>try\<close> statement (lines 10--13).\<close>

definition legacy_try :: "'img encoder \<Rightarrow> globals \<Rightarrow> pyobj \<Rightarrow> request \<Rightarrow> ('img fs, view_ret) pyst" where
  "legacy_try enc g rq req =
     py_bind (py_lift (get_form_item rq req ''_id'')) (\<lambda>v.
     let entry_id = v in
     py_bind (py_lift (load_global g ''qrcode'')) (\<lambda>q.
     py_bind (py_lift (call_make enc q entry_id)) (\<lambda>img.
     py_bind (img_save img (entry_id @ ''.png'')) (\<lambda>_.
     legacy_dict g 200 ''Success''))))"

text \<open>\<open>qrcode()\<close> (lines 7--15), with \<open>except ValueError():\<close>.\<close>

definition legacy_qrcode :: "'img encoder \<Rightarrow> globals \<Rightarrow> request \<Rightarrow> ('img fs, view_ret) pyst" where
  "legacy_qrcode enc g req =
     py_bind (py_lift (load_global g ''request'')) (\<lambda>rq.
     py_bind (py_lift (get_method rq req)) (\<lambda>m.
     if m = ''POST'' then
       py_try (legacy_try enc g rq req) [(ExceptInstance (ValueError []), legacy_dict g 500 ''Invalid entry_id'')]
     else py_return RetNone))"

text \<open>\<open>main()\<close> (lines 18--22): the same HTML fragment as \<^theory_text>\<open>Backend\<close>.\<close>

definition legacy_main :: "('s, view_ret) pyst" where
  "legacy_main = py_return (RetStr main_html)"

text \<open>\<open>@app.route("/qrcode", methods=['POST'])\<close> (lines 6--7) and \<open>@app.route("/")\<close>
  (lines 17--18).\<close>

definition legacy_qr_rule :: "endpoint rule" where
  "legacy_qr_rule = (EpGenerateQrCode, ''/qrcode'', [''POST''])"

definition legacy_main_rule :: "endpoint rule" where
  "legacy_main_rule = (EpMain, ''/'', [''GET''])"

fun legacy_view :: "'img encoder \<Rightarrow> globals \<Rightarrow> endpoint \<Rightarrow> request \<Rightarrow> ('img fs, view_ret) pyst" where
  "legacy_view enc g EpGenerateQrCode r = legacy_qrcode enc g r"
| "legacy_view enc g EpMain r = legacy_main"

definition legacy_app :: "'img encoder \<Rightarrow> globals \<Rightarrow> request \<Rightarrow> 'img fs \<Rightarrow> response \<times> 'img fs" where
  "legacy_app enc g r fs = dispatch [legacy_qr_rule, legacy_main_rule] (legacy_view enc g) r fs"

section \<open>Lemmas\<close>

lemma legacy_globals_eq:
  "legacy_globals = [''qrcode'' \<mapsto> OFunction ''qrcode'', ''Flask'' \<mapsto> OClass ''Flask'', ''app'' \<mapsto> OFlask,
                     ''main'' \<mapsto> OFunction ''main'']"
  by (auto simp: legacy_globals_def exec_bindings_def legacy_bindings_def fun_eq_iff)

lemma legacy_app_post:
  "req_method req = ''POST'' \<Longrightarrow> req_url req = ''/qrcode'' \<Longrightarrow>
   legacy_app enc g req fs = (let (r, fs') = legacy_qrcode enc g req fs in (finalize r, fs'))"
  by (simp add: legacy_app_def dispatch_def route_request_def legacy_qr_rule_def legacy_main_rule_def rule_methods_def)

lemma load_global_request: "load_global legacy_globals ''request'' = Inl (NameError ''request'')"
  by (simp add: load_global_def legacy_globals_eq py_builtins_def)

lemma load_global_qrcode:
  "load_global (legacy_globals(''request'' \<mapsto> ORequest)) ''qrcode'' = Inr (OFunction ''qrcode'')"
  by (simp add: load_global_def legacy_globals_eq)

lemma load_global_request_fixed:
  "load_global (legacy_globals(''request'' \<mapsto> ORequest)) ''request'' = Inr ORequest"
  by (simp add: load_global_def)

text \<open>With the request proxy bound, the body raises before it touches the file system.\<close>

lemma legacy_try_fixed_raises:
  "\<exists>e. legacy_try enc (legacy_globals(''request'' \<mapsto> ORequest)) ORequest req fs = (Inl e, fs)"
  by (simp add: legacy_try_def get_form_item_def form_getitem_def load_global_qrcode call_make_def
      py_bind_apply split: option.splits)

section \<open>Properties\<close>

text \<open>
  C24. The first draft never serves \<open>POST /qrcode\<close>: \<open>request\<close> is not imported, so
  the view raises \<open>NameError\<close> at its first line, every such request is answered 500, and
  nothing is written.
\<close>

theorem legacy_post_500:
  assumes "req_method req = ''POST''" "req_url req = ''/qrcode''"
  shows "legacy_app enc legacy_globals req fs = (error_response 500, fs)"
  using assms by (simp add: legacy_app_post legacy_qrcode_def load_global_request handle_exception_def)

theorem legacy_post_500_witness:
  "legacy_app demo_enc legacy_globals (post_form [(''_id'', ''abc'')]) demo_fs = (error_response 500, demo_fs)"
  by (rule legacy_post_500) (simp_all add: post_form_def)

text \<open>
  C25. Importing \<open>request\<close> would not repair the draft. \<open>def qrcode\<close> has rebound the
  global \<open>qrcode\<close> to the view itself, so \<open>qrcode.make\<close> raises \<open>AttributeError\<close>, and a
  missing form key raises \<open>BadRequestKeyError\<close>. Either exception reaches
  \<open>except ValueError():\<close>, which raises \<open>TypeError\<close>. Every \<open>POST /qrcode\<close> is still
  answered 500 with nothing written.
\<close>

theorem legacy_fixed_import_500:
  assumes post: "req_method req = ''POST''" "req_url req = ''/qrcode''"
  shows "legacy_app enc (legacy_globals(''request'' \<mapsto> ORequest)) req fs = (error_response 500, fs)"
proof -
  obtain e where t: "legacy_try enc (legacy_globals(''request'' \<mapsto> ORequest)) ORequest req fs = (Inl e, fs)"
    using legacy_try_fixed_raises by blast
  have "legacy_qrcode enc (legacy_globals(''request'' \<mapsto> ORequest)) req fs = (Inl catch_error, fs)"
    using post py_try_instance_first [of "legacy_try enc (legacy_globals(''request'' \<mapsto> ORequest)) ORequest req" fs e]
    by (simp add: legacy_qrcode_def load_global_request_fixed get_method_def t)
  then show ?thesis using post by (simp add: legacy_app_post handle_exception_def)
qed

theorem legacy_fixed_import_500_witness:
  "legacy_app demo_enc (legacy_globals(''request'' \<mapsto> ORequest)) (post_form [(''_id'', ''abc'')]) demo_fs =
     (error_response 500, demo_fs)"
  by (rule legacy_fixed_import_500) (simp_all add: post_form_def)

end
