(* ===== verification/Server.thy ===== *)
theory Server
  imports BackendApp
begin

text \<open>
  The server process: the application answers requests one after another, and the file
  system is the only state that one request leaves to the next (spec section 5: the
  handler keeps no state between requests). \<open>serve\<close> runs a list of requests in order.
  The property here is about a sequence of two requests: distinct identifiers can name
  the same image file, so a later request silently replaces another identifier's image.
\<close>

fun serve :: "'img encoder \<Rightarrow> request list \<Rightarrow> 'img fs \<Rightarrow> response list \<times> 'img fs" where
  "serve enc [] fs = ([], fs)"
| "serve enc (r # rs) fs =
     (let (resp, fs1) = app enc r fs; (resps, fs2) = serve enc rs fs1 in (resp # resps, fs2))"

section \<open>Lemmas\<close>

text \<open>Line 23's path for an identifier \<open>../imgs/x\<close> leaves \<open>imgs\<close> and enters it again,
  so it resolves to the file of the identifier \<open>x\<close>.\<close>

lemma qr_path_alias:
  assumes "CHR ''/'' \<notin> set x"
  shows "qr_path (''../imgs/'' @ x) = ''imgs/../imgs/'' @ x @ ''.png''"
proof -
  have ns: "\<not> startswith (''../imgs/'' @ x) ''/''" by (simp add: startswith_def)
  have sp: "split_on (CHR ''/'') (''../imgs/'' @ x @ ''.png'') = [''..'', ''imgs'', x @ ''.png'']"
    using assms split_on_append_sep [of "CHR ''/''" "''..''" "''imgs/'' @ x @ ''.png''"]
      split_on_append_sep [of "CHR ''/''" "''imgs''" "x @ ''.png''"] by simp
  show ?thesis
    using qr_path_rel [OF ns] sp by (simp add: pp_keep_def join_with_Cons)
qed

lemma os_resolve_alias:
  assumes "plain_id x" and "imgs_dir fs \<in> fs_dirs fs"
  shows "os_resolve fs (''imgs/../imgs/'' @ x @ ''.png'') = Inr (TEntry (imgs_dir fs) (x @ ''.png''))"
proof -
  have slash: "CHR ''/'' \<notin> set (x @ ''.png'')" using assms by (simp add: plain_id_def)
  have sp: "split_on (CHR ''/'') (''imgs/../imgs/'' @ x @ ''.png'') = [''imgs'', ''..'', ''imgs'', x @ ''.png'']"
    using slash split_on_append_sep [of "CHR ''/''" "''imgs''" "''../imgs/'' @ x @ ''.png''"]
      split_on_append_sep [of "CHR ''/''" "''..''" "''imgs/'' @ x @ ''.png''"]
      split_on_append_sep [of "CHR ''/''" "''imgs''" "x @ ''.png''"] by simp
  have dd: "x @ ''.png'' \<noteq> ''..''" "x @ ''.png'' \<noteq> ''.''" "x @ ''.png'' \<noteq> []"
    by (cases x; simp)+
  have len: "utf8_len x + 4 \<le> 255" using assms by (simp add: plain_id_def NAME_MAX_def)
  show ?thesis
    using assms sp dd len
    by (simp add: os_resolve_def os_comps_def pp_keep_def Let_def start_dir_def startswith_def
        plain_id_def PATH_MAX_def NAME_MAX_def imgs_dir_def)
qed

text \<open>Both identifiers can be stored once \<open>imgs\<close> is a writable directory without a
  directory in the way.\<close>

lemma alias_store:
  assumes x: "plain_id x" and d: "imgs_dir fs \<in> fs_dirs fs" "imgs_dir fs @ [x @ ''.png''] \<notin> fs_dirs fs"
    "imgs_dir fs \<notin> fs_ro fs" "\<not> fs_full fs"
    and eid: "eid = x \<or> eid = ''../imgs/'' @ x"
  shows "save_ok fs (qr_path eid) \<and> save_target fs (qr_path eid) = Some (imgs_dir fs @ [x @ ''.png''])"
proof -
  have sl: "CHR ''/'' \<notin> set x" using x by (simp add: plain_id_def)
  have "os_resolve fs (qr_path eid) = Inr (TEntry (imgs_dir fs) (x @ ''.png''))"
    using eid
  proof
    assume "eid = x"
    then show ?thesis
      using os_resolve_plain [OF x d(1)] by (simp add: qr_path_plain [OF x])
  next
    assume a: "eid = ''../imgs/'' @ x"
    have q: "qr_path eid = ''imgs/../imgs/'' @ x @ ''.png''"
      unfolding a by (rule qr_path_alias [OF sl])
    show ?thesis unfolding q by (rule os_resolve_alias [OF x d(1)])
  qed
  then show ?thesis using d by (simp add: save_ok_def save_target_def)
qed

lemma ensure_imgs_present: "imgs_dir fs \<in> fs_dirs fs \<Longrightarrow> ensure_imgs fs = (Inr (), fs)"
  by (simp add: ensure_imgs_eq node_at_def)

section \<open>Properties\<close>

text \<open>
  C30. Two identifiers, one image: for every non-empty plain identifier \<open>x\<close>, once \<open>imgs\<close>
  exists, serving a request for \<open>x\<close> and then one for \<open>../imgs/x\<close> answers both 200
  \<open>Success\<close>, and afterwards \<open>imgs/x.png\<close> holds the image of \<open>../imgs/x\<close>: the
  image stored for \<open>x\<close> has been replaced by the QR code of another identifier (the spec
  stores one image per entry identifier at \<open>imgs/<entry_id>.png\<close>).
\<close>

theorem serve_id_alias:
  assumes x: "plain_id x" "x \<noteq> []" and e: "enc x = Inr i1" "enc (''../imgs/'' @ x) = Inr i2"
    and d: "imgs_dir fs \<in> fs_dirs fs" "imgs_dir fs @ [x @ ''.png''] \<notin> fs_dirs fs"
      "imgs_dir fs \<notin> fs_ro fs" "\<not> fs_full fs"
  shows "serve enc [post_json (Some (JObj [(''_id'', JStr x)])),
                    post_json (Some (JObj [(''_id'', JStr (''../imgs/'' @ x))]))] fs =
           ([\<lparr>resp_status = 200, resp_body = JsonBody (msg_json ''Success'')\<rparr>,
             \<lparr>resp_status = 200, resp_body = JsonBody (msg_json ''Success'')\<rparr>],
            fs\<lparr>fs_files := (fs_files fs)(imgs_dir fs @ [x @ ''.png''] \<mapsto> Png i2)\<rparr>)"
proof -
  let ?p = "imgs_dir fs @ [x @ ''.png'']"
  let ?fs1 = "fs\<lparr>fs_files := (fs_files fs)(?p \<mapsto> Png i1)\<rparr>"
  have s1: "save_ok fs (qr_path x)" "save_target fs (qr_path x) = Some ?p"
    using alias_store [OF x(1) d] by simp_all
  have s2: "save_ok ?fs1 (qr_path (''../imgs/'' @ x))"
    "save_target ?fs1 (qr_path (''../imgs/'' @ x)) = Some ?p"
    using alias_store [of x ?fs1 "''../imgs/'' @ x"] x(1) d by (simp_all add: imgs_dir_def)
  have k: "map_of [(''_id'', JStr x)] ''_id'' = Some (JStr x)"
    "map_of [(''_id'', JStr (''../imgs/'' @ x))] ''_id'' = Some (JStr (''../imgs/'' @ x))"
    "py_str (JStr x) \<noteq> []" "py_str (JStr (''../imgs/'' @ x)) \<noteq> []"
    "enc (py_str (JStr x)) = Inr i1" "enc (py_str (JStr (''../imgs/'' @ x))) = Inr i2"
    using x(2) e by simp_all
  have d1: "imgs_dir ?fs1 \<in> fs_dirs ?fs1" using d(1) by (simp add: imgs_dir_def)
  have r1: "app enc (post_json (Some (JObj [(''_id'', JStr x)]))) fs =
              (\<lparr>resp_status = 200, resp_body = JsonBody (msg_json ''Success'')\<rparr>, ?fs1)"
    using app_post_json_store [where enc = enc, OF k(1,3,5) ensure_imgs_present [OF d(1)]] s1
    by simp
  have r2: "app enc (post_json (Some (JObj [(''_id'', JStr (''../imgs/'' @ x))]))) ?fs1 =
              (\<lparr>resp_status = 200, resp_body = JsonBody (msg_json ''Success'')\<rparr>,
               fs\<lparr>fs_files := (fs_files fs)(?p \<mapsto> Png i2)\<rparr>)"
    using app_post_json_store [where enc = enc, OF k(2,4,6) ensure_imgs_present [OF d1]] s2
    by simp
  show ?thesis using r1 r2 by (simp add: serve.simps)
qed

theorem serve_id_alias_witness:
  "serve demo_enc [post_json (Some (JObj [(''_id'', JStr ''a'')])),
                   post_json (Some (JObj [(''_id'', JStr ''../imgs/a'')]))]
     (demo_fs\<lparr>fs_dirs := {[], [''app''], [''app'', ''imgs'']}\<rparr>) =
     ([\<lparr>resp_status = 200, resp_body = JsonBody (msg_json ''Success'')\<rparr>,
       \<lparr>resp_status = 200, resp_body = JsonBody (msg_json ''Success'')\<rparr>],
      demo_fs\<lparr>fs_dirs := {[], [''app''], [''app'', ''imgs'']},
              fs_files := [[''app'', ''imgs'', ''a.png''] \<mapsto> Png ''../imgs/a'']\<rparr>)"
proof -
  let ?fs = "demo_fs\<lparr>fs_dirs := {[], [''app''], [''app'', ''imgs'']}\<rparr>"
  have "serve demo_enc [post_json (Some (JObj [(''_id'', JStr ''a'')])),
                        post_json (Some (JObj [(''_id'', JStr (''../imgs/'' @ ''a''))]))] ?fs =
          ([\<lparr>resp_status = 200, resp_body = JsonBody (msg_json ''Success'')\<rparr>,
            \<lparr>resp_status = 200, resp_body = JsonBody (msg_json ''Success'')\<rparr>],
           ?fs\<lparr>fs_files := (fs_files ?fs)(imgs_dir ?fs @ [''a'' @ ''.png''] \<mapsto> Png (''../imgs/'' @ ''a''))\<rparr>)"
    by (rule serve_id_alias) (simp_all add: plain_id_def NAME_MAX_def demo_simps)
  then show ?thesis by (simp add: demo_fs_def imgs_dir_def)
qed

end
