(* ===== verification/Contract.thy ===== *)
theory Contract
  imports Server
begin

text \<open>
  The contract of the handler as spec section 4.1 states it, and its refinement by the
  current version. The abstract handler classifies a request body by the validation
  table (first failure wins) into one of six outcomes, each with its status and message.
  The theorems show that \<open>app\<close> answers \<open>POST /qrcode\<close> with exactly that response on
  the requests where the spec and the code agree.
\<close>

datatype outcome =
    InvalidBody | MissingIdentifier | EmptyIdentifier | InvalidIdentifier | StorageFailure | Success

fun outcome_status :: "outcome \<Rightarrow> nat" where
  "outcome_status InvalidBody = 400"
| "outcome_status MissingIdentifier = 400"
| "outcome_status EmptyIdentifier = 400"
| "outcome_status InvalidIdentifier = 400"
| "outcome_status StorageFailure = 500"
| "outcome_status Success = 200"

fun outcome_message :: "outcome \<Rightarrow> string" where
  "outcome_message InvalidBody = ''Request must be JSON''"
| "outcome_message MissingIdentifier = ''entry_id not provided''"
| "outcome_message EmptyIdentifier = ''entry_id is empty''"
| "outcome_message InvalidIdentifier = ''Invalid entry_id''"
| "outcome_message StorageFailure = ''Error processing QR code''"
| "outcome_message Success = ''Success''"

definition outcome_response :: "outcome \<Rightarrow> response" where
  "outcome_response oc =
     \<lparr>resp_status = outcome_status oc, resp_body = JsonBody (msg_json (outcome_message oc))\<rparr>"

text \<open>The validation state machine: the body (None when it is not structured data), whether
  the encoder accepts a string, and whether a string can be stored.\<close>

definition spec_handle :: "json option \<Rightarrow> (string \<Rightarrow> bool) \<Rightarrow> (string \<Rightarrow> bool) \<Rightarrow> outcome" where
  "spec_handle body encodes storable =
     (case body of
        Some (JObj kvs) \<Rightarrow>
          (case map_of kvs ''_id'' of
             None \<Rightarrow> MissingIdentifier
           | Some v \<Rightarrow>
               (let s = py_str v in
                if s = [] then EmptyIdentifier
                else if \<not> encodes s then InvalidIdentifier
                else if \<not> storable s then StorageFailure
                else Success))
      | _ \<Rightarrow> InvalidBody)"

text \<open>The view's own return value for each outcome.\<close>

definition outcome_ret :: "outcome \<Rightarrow> view_ret" where
  "outcome_ret oc = RetJsonify (msg_json (outcome_message oc)) (outcome_status oc)"

definition all_outcomes :: "outcome list" where
  "all_outcomes = [InvalidBody, MissingIdentifier, EmptyIdentifier, InvalidIdentifier, StorageFailure, Success]"

text \<open>The abstraction of a concrete request and file system.\<close>

definition abs_body :: "request \<Rightarrow> json option" where
  "abs_body r = (if is_json r then req_json r else None)"

definition encodes :: "'img encoder \<Rightarrow> string \<Rightarrow> bool" where
  "encodes enc s = (case enc s of Inr _ \<Rightarrow> True | Inl _ \<Rightarrow> False)"

definition storable :: "'img fs \<Rightarrow> string \<Rightarrow> bool" where
  "storable fs s = (case ensure_imgs fs of (Inr _, fs1) \<Rightarrow> save_ok fs1 (qr_path s) | (Inl _, _) \<Rightarrow> False)"

text \<open>The abstract store of the spec (section 3, PersistedFile): the image kept for each
  identifier, read from \<open>imgs/<entry_id>.png\<close> of the working directory.\<close>

definition stored :: "'img fs \<Rightarrow> string \<Rightarrow> 'img option" where
  "stored fs s = (case fs_files fs (imgs_dir fs @ [s @ ''.png'']) of Some (Png i) \<Rightarrow> Some i | _ \<Rightarrow> None)"

section \<open>Lemmas\<close>

lemma set_split_on_subset: "w \<in> set (split_on c s) \<Longrightarrow> set w \<subseteq> set s"
proof (induction s arbitrary: w)
  case Nil
  then show ?case by simp
next
  case (Cons x xs)
  obtain u us where r: "split_on c xs = u # us" by (cases "split_on c xs") auto
  have ih: "\<forall>w' \<in> set (u # us). set w' \<subseteq> set xs" using Cons.IH r by simp
  with Cons.prems r show ?case by (auto simp: Let_def split: if_splits)
qed

lemma set_join_with_subset: "set (join_with c ws) \<subseteq> insert c (\<Union>w \<in> set ws. set w)"
  by (induction ws) (auto simp: join_with_Cons)

lemma pp_str_parse_chars: "set (pp_str (parse_pure_path s)) \<subseteq> insert (CHR ''/'') (insert (CHR ''.'') (set s))"
proof -
  obtain root rel where sr: "posix_splitroot s = (root, rel)" by fastforce
  have "(root = [] \<or> root = ''/'' \<or> root = ''//'') \<and> (rel = s \<or> rel = drop 1 s \<or> rel = drop 2 s)"
    using sr unfolding posix_splitroot_def
    by (cases "take 1 s \<noteq> ''/''"; cases "take 1 (drop 1 s) \<noteq> ''/'' \<or> take 1 (drop 2 s) = ''/''") auto
  then have root: "set root \<subseteq> {CHR ''/''}" and rel: "set rel \<subseteq> set s"
    by (auto dest: in_set_dropD)
  have "set (join_with (CHR ''/'') (filter pp_keep (split_on (CHR ''/'') rel))) \<subseteq> insert (CHR ''/'') (set rel)"
    using set_join_with_subset [of "CHR ''/''" "filter pp_keep (split_on (CHR ''/'') rel)"]
      set_split_on_subset [of _ "CHR ''/''" rel] by auto
  with root rel sr show ?thesis by (auto simp: pp_str_def parse_pure_path_def Let_def)
qed

lemma posix_join_chars: "set (posix_join a b) \<subseteq> insert (CHR ''/'') (set a \<union> set b)"
  by (auto simp: posix_join_def)

lemma qr_path_chars:
  "set (qr_path eid) \<subseteq> insert (CHR ''/'') (insert (CHR ''.'') (set ''imgs'' \<union> set (eid @ ''.png'')))"
  using pp_str_parse_chars [of "posix_join ''imgs'' (eid @ ''.png'')"]
    posix_join_chars [of "''imgs''" "eid @ ''.png''"]
  unfolding qr_path_def pure_path2_def by blast

lemma qr_path_no_nul: "CHR 0x00 \<notin> set eid \<Longrightarrow> CHR 0x00 \<notin> set (qr_path eid)"
  using qr_path_chars [of eid] by auto

lemma os_resolve_oserror:
  "CHR 0x00 \<notin> set s \<Longrightarrow> os_resolve fs s = Inl e \<Longrightarrow> isinstance_exc e COSError"
  by (auto simp: os_resolve_def Let_def split: if_splits sum.splits)

lemma img_save_oserror:
  assumes "CHR 0x00 \<notin> set s" and "fst (img_save img s fs) = Inl e"
  shows "isinstance_exc e COSError"
  using assms os_resolve_oserror [of s fs]
  by (auto simp: img_save_def open_wb_def Let_def split: sum.splits target.splits prod.splits if_splits)

lemma oserror_not_valueerror: "isinstance_exc e COSError \<Longrightarrow> \<not> isinstance_exc e CValueError"
  by (cases e) auto

text \<open>The view on a JSON object refines the validation table.\<close>

lemma view_refines:
  assumes json: "is_json req" "req_json req = Some (JObj kvs)"
    and enc_err: "\<forall>s e. enc s = Inl e \<longrightarrow> isinstance_exc e CValueError"
    and nul: "\<forall>v. map_of kvs ''_id'' = Some v \<longrightarrow> CHR 0x00 \<notin> set (py_str v)"
  shows "finalize (fst (generate_qr_code enc req fs)) =
           outcome_response (spec_handle (Some (JObj kvs)) (encodes enc) (storable fs))"
proof (cases "map_of kvs ''_id''")
  case None
  have "generate_qr_code_try enc (JObj kvs) = py_return (RetJsonify (msg_json ''entry_id not provided'') 400)"
    using py_in_str_no_key [OF None] by (rule qr_try_missing)
  then show ?thesis
    using json None by (simp add: generate_qr_code_json spec_handle_def outcome_response_def)
next
  case (Some v)
  note key = py_in_str_key [OF Some]
  have get: "py_getitem_str (JObj kvs) ''_id'' = Inr v" using Some by simp
  show ?thesis
  proof (cases "py_str v = []")
    case True
    have "generate_qr_code_try enc (JObj kvs) = py_return (RetJsonify (msg_json ''entry_id is empty'') 400)"
      by (rule qr_try_empty [OF key get True])
    then show ?thesis
      using json Some True by (simp add: generate_qr_code_json spec_handle_def outcome_response_def)
  next
    case ne: False
    show ?thesis
    proof (cases "enc (py_str v)")
      case (Inl e)
      have "generate_qr_code_try enc (JObj kvs) = py_raise e" by (rule qr_try_encode_error [where enc = enc, OF key get ne Inl])
      moreover have "isinstance_exc e CValueError" using enc_err Inl by blast
      ultimately show ?thesis
        using json Some ne Inl
        by (simp add: generate_qr_code_json spec_handle_def outcome_response_def encodes_def
            py_handle_qr_clauses invalid_entry_def)
    next
      case (Inr img)
      note stage = generate_qr_code_stage [where enc = enc and fs = fs, OF json Some ne Inr]
      have enc_ok: "encodes enc (py_str v)" using Inr by (simp add: encodes_def)
      obtain u fs1 where e: "ensure_imgs fs = (u, fs1)" by fastforce
      show ?thesis
      proof (cases u)
        case (Inl e')
        then have os: "isinstance_exc e' COSError" and "fs1 = fs" using ensure_imgs_error e by auto
        have "\<not> storable fs (py_str v)" using e Inl by (simp add: storable_def)
        then show ?thesis
          using stage e Inl os oserror_not_valueerror [OF os] Some ne enc_ok
          by (simp add: spec_handle_def outcome_response_def py_handle_qr_clauses storage_error_def)
      next
        case (Inr u')
        obtain r fs2 where sv: "img_save img (qr_path (py_str v)) fs1 = (r, fs2)" by fastforce
        show ?thesis
        proof (cases r)
          case (Inl e2)
          have nn: "CHR 0x00 \<notin> set (qr_path (py_str v))" using nul Some by (simp add: qr_path_no_nul)
          have os: "isinstance_exc e2 COSError" using img_save_oserror [OF nn, of img fs1 e2] sv Inl by simp
          have "\<not> save_ok fs1 (qr_path (py_str v))"
          proof
            assume ok: "save_ok fs1 (qr_path (py_str v))"
            then obtain p where "save_target fs1 (qr_path (py_str v)) = Some p" by (blast dest: save_ok_target)
            from img_save_ok [OF ok this, of img] sv Inl show False by simp
          qed
          then have "\<not> storable fs (py_str v)" using e Inr by (simp add: storable_def)
          then show ?thesis
            using stage e \<open>u = Inr u'\<close> sv Inl os oserror_not_valueerror [OF os] Some ne enc_ok
            by (simp add: spec_handle_def outcome_response_def py_handle_qr_clauses storage_error_def)
        next
          case (Inr u2)
          have "storable fs (py_str v)"
            using img_save_success_ok [of img _ fs1] sv Inr e \<open>u = Inr u'\<close> by (simp add: storable_def)
          then show ?thesis
            using stage e \<open>u = Inr u'\<close> sv Inr Some ne enc_ok
            by (simp add: spec_handle_def outcome_response_def)
        qed
      qed
    qed
  qed
qed

text \<open>A plain identifier can only be saved at \<open>imgs/<entry_id>.png\<close>.\<close>

lemma save_target_plain:
  assumes plain: "plain_id eid" and tgt: "save_target fs (qr_path eid) = Some p"
  shows "p = imgs_dir fs @ [eid @ ''.png'']"
proof (cases "imgs_dir fs \<in> fs_dirs fs")
  case True
  with tgt os_resolve_plain [OF plain True] show ?thesis by (simp add: qr_path_plain [OF plain] save_target_def)
next
  case False
  have slash: "CHR ''/'' \<notin> set (eid @ ''.png'')" using plain by (simp add: plain_id_def)
  have "save_target fs (qr_path eid) = None"
    using False slash plain
    by (simp add: qr_path_plain save_target_def os_resolve_def os_comps_def pp_keep_def Let_def
        start_dir_def plain_id_def PATH_MAX_def NAME_MAX_def imgs_dir_def split: if_splits)
  with tgt show ?thesis by simp
qed

lemma os_resolve_long_name:
  assumes slash: "CHR ''/'' \<notin> set eid" and nul: "CHR 0x00 \<notin> set eid"
    and dir: "imgs_dir fs \<in> fs_dirs fs" and long: "NAME_MAX < utf8_len eid + 4"
  shows "os_resolve fs (qr_path eid) = Inl (OSError ENAMETOOLONG)"
proof -
  have sl: "CHR ''/'' \<notin> set (eid @ ''.png'')" using slash by simp
  have dd: "eid @ ''.png'' \<noteq> ''..''" by (cases eid) simp_all
  show ?thesis
    using sl dd nul dir long
    by (simp add: qr_path_noslash [OF slash] os_resolve_def os_comps_def pp_keep_def Let_def
        start_dir_def PATH_MAX_def NAME_MAX_def imgs_dir_def)
qed

lemma finalize_outcome_ret [simp]: "finalize (Inr (outcome_ret oc)) = outcome_response oc"
  by (simp add: outcome_ret_def outcome_response_def)

lemma qr_try_outcome:
  "fst (generate_qr_code_try enc data fs) = Inr r \<Longrightarrow> r \<in> set (map outcome_ret all_outcomes)"
  by (auto simp: generate_qr_code_try_def py_bind_apply Let_def outcome_ret_def all_outcomes_def
      split: sum.splits prod.splits if_splits)

lemma generate_qr_code_outcome:
  assumes "fst (generate_qr_code enc req fs) = Inr r"
  shows "r \<in> set (map outcome_ret all_outcomes)"
proof (cases "is_json req \<and> req_json req \<noteq> None")
  case True
  then obtain data where data: "is_json req" "req_json req = Some data" by auto
  obtain r0 fs0 where m: "generate_qr_code_try enc data fs = (r0, fs0)" by fastforce
  show ?thesis
  proof (cases r0)
    case (Inl e)
    with assms data m show ?thesis
      by (auto simp: generate_qr_code_json py_try_def py_handle_qr_clauses invalid_entry_def
          storage_error_def outcome_ret_def all_outcomes_def split: if_splits)
  next
    case (Inr r1)
    with assms data m qr_try_outcome [of enc data fs r1] show ?thesis
      by (auto simp: generate_qr_code_json py_try_def)
  qed
next
  case False
  with assms show ?thesis
    by (cases "is_json req")
       (auto simp: generate_qr_code_not_json generate_qr_code_undecodable outcome_ret_def all_outcomes_def)
qed

lemma handle_exception_pages: "handle_exception e \<in> {error_response 400, error_response 500}"
  by (cases e) (simp_all add: handle_exception_def)

section \<open>Properties\<close>

text \<open>
  C26. Refinement of the contract: on every \<open>POST /qrcode\<close> whose body is not a
  JSON document other than an object, whose encoder only rejects with \<open>ValueError\<close>, and
  whose identifier has no NUL, the answer is the status and message that the validation
  table of spec section 4.1 gives for the request's body, encoder and storage.
\<close>

theorem app_refines_contract:
  assumes post: "req_method req = ''POST''" "req_url req = ''/qrcode''"
    and body: "is_json req \<Longrightarrow> \<exists>kvs. req_json req = Some (JObj kvs)"
    and enc_err: "\<forall>s e. enc s = Inl e \<longrightarrow> isinstance_exc e CValueError"
    and nul: "\<forall>kvs v. req_json req = Some (JObj kvs) \<longrightarrow> map_of kvs ''_id'' = Some v \<longrightarrow>
                CHR 0x00 \<notin> set (py_str v)"
  shows "fst (app enc req fs) = outcome_response (spec_handle (abs_body req) (encodes enc) (storable fs))"
proof (cases "is_json req")
  case False
  then show ?thesis
    using post by (simp add: app_post_qrcode generate_qr_code_not_json abs_body_def spec_handle_def
        outcome_response_def)
next
  case True
  then obtain kvs where kvs: "req_json req = Some (JObj kvs)" using body by blast
  have "fst (app enc req fs) = finalize (fst (generate_qr_code enc req fs))"
    using post by (simp add: app_post_qrcode split: prod.splits)
  also have "\<dots> = outcome_response (spec_handle (Some (JObj kvs)) (encodes enc) (storable fs))"
    using True kvs enc_err nul by (intro view_refines) auto
  finally show ?thesis using True kvs by (simp add: abs_body_def)
qed

theorem app_refines_contract_witness:
  "fst (app demo_enc (post_json (Some (JObj [(''_id'', JStr ''abc'')]))) demo_fs) = outcome_response Success"
proof -
  let ?r = "post_json (Some (JObj [(''_id'', JStr ''abc'')]))"
  have "fst (app demo_enc ?r demo_fs) = outcome_response (spec_handle (abs_body ?r) (encodes demo_enc) (storable demo_fs))"
    by (rule app_refines_contract) (auto simp: post_json_def is_json_def demo_enc_def)
  moreover have "storable demo_fs ''abc''"
    by (simp add: storable_def ensure_imgs_eq demo_simps)
  ultimately show ?thesis
    by (simp add: abs_body_def post_json_def is_json_def spec_handle_def encodes_def demo_enc_def)
qed

text \<open>
  C27. Refinement of the store: a request answered 200 whose identifier is plain updates
  the abstract store of spec section 3 exactly as the spec's step does, the identifier
  now mapping to its QR image and every other identifier keeping its image.
\<close>

theorem app_refines_store:
  assumes run: "app enc req fs = (resp, fs')"
    and post: "req_method req = ''POST''" "req_url req = ''/qrcode''"
    and ok: "resp_status resp = 200"
    and json: "req_json req = Some (JObj kvs)" "map_of kvs ''_id'' = Some v"
    and plain: "plain_id (py_str v)"
  shows "\<exists>img. enc (py_str v) = Inr img \<and> stored fs' = (stored fs)(py_str v \<mapsto> img)"
proof -
  obtain r where gen: "generate_qr_code enc req fs = (r, fs')" and fin: "resp = finalize r"
    using run post by (simp add: app_post_qrcode split: prod.splits)
  obtain j where r: "r = Inr (RetJsonify j 200)"
    using generate_qr_code_finalize_200 [OF gen fin ok] by blast
  obtain kvs' v' img fs1 p where "req_json req = Some (JObj kvs')" "map_of kvs' ''_id'' = Some v'"
    and e: "enc (py_str v') = Inr img" and d: "ensure_imgs fs = (Inr (), fs1)"
    and t: "save_target fs1 (qr_path (py_str v')) = Some p"
    and f: "fs' = fs1\<lparr>fs_files := (fs_files fs1)(p \<mapsto> Png img)\<rparr>"
    using generate_qr_code_200 [OF gen r] by metis
  with json have vv: "v' = v" by simp
  have fr: "fs_files fs1 = fs_files fs" "imgs_dir fs1 = imgs_dir fs"
    using ensure_imgs_frame [OF d] by (simp_all add: imgs_dir_def)
  have p: "p = imgs_dir fs @ [py_str v @ ''.png'']"
    using save_target_plain [OF plain, of fs1 p] t vv fr by simp
  have "stored fs' = (stored fs)(py_str v \<mapsto> img)"
    using f fr p by (auto simp: stored_def fun_eq_iff)
  with e vv show ?thesis by blast
qed

theorem app_refines_store_witness:
  "\<exists>img. demo_enc ''abc'' = Inr img \<and>
     stored (snd (app demo_enc (post_json (Some (JObj [(''_id'', JStr ''abc'')]))) demo_fs)) =
       (stored demo_fs)(''abc'' \<mapsto> img)"
proof -
  let ?r = "post_json (Some (JObj [(''_id'', JStr ''abc'')]))"
  let ?fs1 = "demo_fs\<lparr>fs_dirs := insert [''app'', ''imgs''] (fs_dirs demo_fs)\<rparr>"
  have k: "map_of [(''_id'', JStr ''abc'')] ''_id'' = Some (JStr ''abc'')" "py_str (JStr ''abc'') \<noteq> []"
    "demo_enc (py_str (JStr ''abc'')) = Inr ''abc''" by (simp_all add: demo_enc_def)
  have d: "ensure_imgs demo_fs = (Inr (), ?fs1)" by (simp add: ensure_imgs_eq demo_simps)
  have o: "save_ok ?fs1 (qr_path (py_str (JStr ''abc'')))" by (simp add: demo_simps)
  have t: "save_target ?fs1 (qr_path (py_str (JStr ''abc''))) = Some [''app'', ''imgs'', ''abc.png'']"
    by (simp add: demo_simps)
  note run = app_post_json_store [where enc = demo_enc, OF k d o t]
  have "\<exists>img. demo_enc (py_str (JStr ''abc'')) = Inr img \<and>
          stored (snd (app demo_enc ?r demo_fs)) = (stored demo_fs)(py_str (JStr ''abc'') \<mapsto> img)"
  proof (rule app_refines_store [OF surjective_pairing])
    show "req_method ?r = ''POST''" "req_url ?r = ''/qrcode''" "req_json ?r = Some (JObj [(''_id'', JStr ''abc'')])"
      by (simp_all add: post_json_def)
    show "resp_status (fst (app demo_enc ?r demo_fs)) = 200" using run by simp
    show "map_of [(''_id'', JStr ''abc'')] ''_id'' = Some (JStr ''abc'')" by simp
    show "plain_id (py_str (JStr ''abc''))" by (simp add: plain_id_def NAME_MAX_def)
  qed
  then show ?thesis by simp
qed

text \<open>
  C28. Bound on the identifier: with \<open>imgs\<close> present and writable, an identifier without
  slash or NUL is stored and answered 200 exactly when its UTF-8 length plus the four
  bytes of \<open>.png\<close> fit in \<open>NAME_MAX\<close> (255 bytes: 251 ASCII characters); one byte more
  and the save fails with \<open>ENAMETOOLONG\<close>, answered 500.
\<close>

theorem app_name_bound:
  assumes post: "req_method req = ''POST''" "req_url req = ''/qrcode''"
    and json: "is_json req" "req_json req = Some (JObj kvs)" "map_of kvs ''_id'' = Some v"
    and eid: "py_str v \<noteq> []" "enc (py_str v) = Inr img"
    and chars: "CHR ''/'' \<notin> set (py_str v)" "CHR 0x00 \<notin> set (py_str v)"
    and dir: "imgs_dir fs \<in> fs_dirs fs" "imgs_dir fs \<notin> fs_ro fs" "\<not> fs_full fs"
    and free: "imgs_dir fs @ [py_str v @ ''.png''] \<notin> fs_dirs fs"
  shows "resp_status (fst (app enc req fs)) = 200 \<longleftrightarrow> utf8_len (py_str v) + 4 \<le> NAME_MAX"
proof -
  have ens: "ensure_imgs fs = (Inr (), fs)"
    using dir(1) by (intro ensure_imgs_node) (simp add: node_at_def)
  show ?thesis
  proof (cases "utf8_len (py_str v) + 4 \<le> NAME_MAX")
    case True
    then have plain: "plain_id (py_str v)" using chars by (simp add: plain_id_def)
    have res: "os_resolve fs (qr_path (py_str v)) = Inr (TEntry (imgs_dir fs) (py_str v @ ''.png''))"
      using os_resolve_plain [OF plain dir(1)] by (simp add: qr_path_plain [OF plain])
    have ok: "save_ok fs (qr_path (py_str v))" using res dir free by (simp add: save_ok_def)
    have t: "save_target fs (qr_path (py_str v)) = Some (imgs_dir fs @ [py_str v @ ''.png''])"
      using res by (simp add: save_target_def)
    have "generate_qr_code enc req fs =
            (Inr (RetJsonify (msg_json ''Success'') 200),
             fs\<lparr>fs_files := (fs_files fs)(imgs_dir fs @ [py_str v @ ''.png''] \<mapsto> Png img)\<rparr>)"
      by (rule generate_qr_code_store [where enc = enc, OF json eid ens ok t])
    with post True show ?thesis by (simp add: app_post_qrcode)
  next
    case False
    have "img_save img (qr_path (py_str v)) fs = (Inl (OSError ENAMETOOLONG), fs)"
      using False by (intro img_save_resolve_error os_resolve_long_name chars dir(1)) simp
    then have "generate_qr_code enc req fs = (Inr storage_error, fs)"
      using generate_qr_code_stage [where enc = enc and fs = fs, OF json eid] ens
      by (simp add: py_handle_qr_clauses)
    with post False show ?thesis by (simp add: app_post_qrcode storage_error_def)
  qed
qed

theorem app_name_bound_witness:
  "resp_status (fst (app demo_enc (post_json (Some (JObj [(''_id'', JStr (replicate 251 (CHR ''a'')))])))
      (demo_fs\<lparr>fs_dirs := {[], [''app''], [''app'', ''imgs'']}\<rparr>))) = 200 \<and>
   resp_status (fst (app demo_enc (post_json (Some (JObj [(''_id'', JStr (replicate 252 (CHR ''a'')))])))
      (demo_fs\<lparr>fs_dirs := {[], [''app''], [''app'', ''imgs'']}\<rparr>))) \<noteq> 200"
proof -
  let ?fs = "demo_fs\<lparr>fs_dirs := {[], [''app''], [''app'', ''imgs'']}\<rparr>"
  have u: "utf8_len (replicate n (CHR ''a'')) = n" for n by (simp add: utf8_len_def sum_list_replicate)
  have a: "resp_status (fst (app demo_enc (post_json (Some (JObj [(''_id'', JStr (replicate n (CHR ''a'')))]))) ?fs)) = 200
             \<longleftrightarrow> utf8_len (py_str (JStr (replicate n (CHR ''a'')))) + 4 \<le> NAME_MAX" if "0 < n" for n
    by (rule app_name_bound [where kvs = "[(''_id'', JStr (replicate n (CHR ''a'')))]"
          and v = "JStr (replicate n (CHR ''a''))" and img = "replicate n (CHR ''a'')"])
       (use that in \<open>simp_all add: post_json_def is_json_def demo_enc_def demo_fs_def imgs_dir_def\<close>)
  show ?thesis using a [of 251] a [of 252] by (simp add: u NAME_MAX_def)
qed

text \<open>
  C29. The answers to \<open>POST /qrcode\<close> are typed by the contract: each is one of the six
  rows of the validation table, with its status and message, or werkzeug's error page for
  400 or 500. No other body or status is ever produced.
\<close>

theorem app_post_answers:
  assumes post: "req_method req = ''POST''" "req_url req = ''/qrcode''"
  shows "fst (app enc req fs) \<in> outcome_response ` set all_outcomes \<union> {error_response 400, error_response 500}"
proof (cases "fst (generate_qr_code enc req fs)")
  case (Inl e)
  then show ?thesis
    using post handle_exception_pages [of e] by (auto simp: app_post_qrcode split: prod.splits)
next
  case (Inr r)
  then obtain oc where "oc \<in> set all_outcomes" "r = outcome_ret oc"
    using generate_qr_code_outcome [OF Inr] by auto
  with Inr post show ?thesis by (auto simp: app_post_qrcode split: prod.splits)
qed

theorem app_post_answers_witness:
  "fst (app demo_enc (post_json None) demo_fs) = error_response 400"
proof -
  have "fst (app demo_enc (post_json None) demo_fs) \<in>
          outcome_response ` set all_outcomes \<union> {error_response 400, error_response 500}"
    by (rule app_post_answers) (simp_all add: post_json_def)
  moreover have "fst (app demo_enc (post_json None) demo_fs) = error_response 400"
    by (simp add: app_post_qrcode post_json_def is_json_def generate_qr_code_undecodable
        handle_exception_def)
  ultimately show ?thesis by simp
qed

end
