(* ===== verification/Interleave.thy ===== *)
theory Interleave
  imports BackendApp
begin

text \<open>
  Concurrent requests (spec section 5). Once a request has passed its checks and has
  its image (lines 14--20 of \<open>features/backend.py\<close>), the rest of the view is three
  atomic steps on the shared file system: the test \<open>os.path.exists("imgs")\<close>
  (line 21), \<open>os.mkdir("imgs")\<close> (line 22) and \<open>img.save(...)\<close> (line 23), with the
  \<open>except\<close> clauses of lines 25--28 turning an exception of a step into the answer.
  A request in flight is a thread with a program counter; a schedule lists which
  thread takes the next step. Running one thread alone gives the view's result, and
  whenever two requests both pass the existence test before either creates \<open>imgs\<close>,
  the second is answered 500.
\<close>

datatype pc =
    PcCheck                     \<comment> \<open>before line 21\<close>
  | PcMkdir                     \<comment> \<open>before line 22: \<open>imgs\<close> did not exist\<close>
  | PcSave                      \<comment> \<open>before line 23\<close>
  | PcDone "py_exc + view_ret"  \<comment> \<open>the view has returned or raised\<close>

record 'img thread =
  th_pc :: pc
  th_id :: string
  th_img :: 'img

definition start_thread :: "string \<Rightarrow> 'img \<Rightarrow> 'img thread" where
  "start_thread eid img = \<lparr>th_pc = PcCheck, th_id = eid, th_img = img\<rparr>"

text \<open>An exception of a step reaches the clauses of lines 25--28.\<close>

definition th_raise :: "'img thread \<Rightarrow> py_exc \<Rightarrow> 'img fs \<Rightarrow> 'img thread \<times> 'img fs" where
  "th_raise t e fs = (let (r, fs') = py_handle e qr_clauses fs in (t\<lparr>th_pc := PcDone r\<rparr>, fs'))"

definition th_step :: "'img thread \<Rightarrow> 'img fs \<Rightarrow> 'img thread \<times> 'img fs" where
  "th_step t fs =
     (case th_pc t of
        PcCheck \<Rightarrow> (t\<lparr>th_pc := if os_path_exists ''imgs'' fs then PcSave else PcMkdir\<rparr>, fs)
      | PcMkdir \<Rightarrow>
          (case os_mkdir ''imgs'' fs of
             (Inl e, fs1) \<Rightarrow> th_raise t e fs1
           | (Inr _, fs1) \<Rightarrow> (t\<lparr>th_pc := PcSave\<rparr>, fs1))
      | PcSave \<Rightarrow>
          (case img_save (th_img t) (qr_path (th_id t)) fs of
             (Inl e, fs1) \<Rightarrow> th_raise t e fs1
           | (Inr _, fs1) \<Rightarrow> (t\<lparr>th_pc := PcDone (Inr (RetJsonify (msg_json ''Success'') 200))\<rparr>, fs1))
      | PcDone _ \<Rightarrow> (t, fs))"

text \<open>A schedule names the thread of each step; a name that is not a thread is skipped.\<close>

fun run :: "nat list \<Rightarrow> 'img thread list \<Rightarrow> 'img fs \<Rightarrow> 'img thread list \<times> 'img fs" where
  "run [] ts fs = (ts, fs)"
| "run (i # is) ts fs =
     (if i < length ts then (let (t', fs') = th_step (ts ! i) fs in run is (ts[i := t']) fs')
      else run is ts fs)"

section \<open>Lemmas\<close>

lemma start_thread_fields [simp]:
  "th_pc (start_thread eid img) = PcCheck" "th_id (start_thread eid img) = eid"
  "th_img (start_thread eid img) = img"
  by (simp_all add: start_thread_def)

lemma th_raise_state [simp]: "snd (th_raise t e fs) = fs"
  by (simp add: th_raise_def py_handle_qr_clauses split: prod.splits)

lemma run_single: "run (0 # is) [t] fs = run is [fst (th_step t fs)] (snd (th_step t fs))"
  by (simp split: prod.splits)

lemma th_step_check:
  "th_pc t = PcCheck \<Longrightarrow>
   th_step t fs = (t\<lparr>th_pc := if os_path_exists ''imgs'' fs then PcSave else PcMkdir\<rparr>, fs)"
  by (simp add: th_step_def)

lemma th_step_mkdir:
  "th_pc t = PcMkdir \<Longrightarrow>
   th_step t fs = (case os_mkdir ''imgs'' fs of
                     (Inl e, fs1) \<Rightarrow> (t\<lparr>th_pc := PcDone (fst (py_handle e qr_clauses fs1))\<rparr>, fs1)
                   | (Inr _, fs1) \<Rightarrow> (t\<lparr>th_pc := PcSave\<rparr>, fs1))"
  by (simp add: th_step_def th_raise_def py_handle_qr_clauses split: prod.splits sum.splits)

lemma th_step_save:
  "th_pc t = PcSave \<Longrightarrow>
   th_step t fs = (case img_save (th_img t) (qr_path (th_id t)) fs of
                     (Inl e, fs1) \<Rightarrow> (t\<lparr>th_pc := PcDone (fst (py_handle e qr_clauses fs1))\<rparr>, fs1)
                   | (Inr _, fs1) \<Rightarrow> (t\<lparr>th_pc := PcDone (Inr (RetJsonify (msg_json ''Success'') 200))\<rparr>, fs1))"
  by (simp add: th_step_def th_raise_def py_handle_qr_clauses split: prod.splits sum.splits)

lemma th_step_done: "th_pc t = PcDone r \<Longrightarrow> th_step t fs = (t, fs)"
  by (simp add: th_step_def)

lemma run_length [simp]: "length (fst (run sch ts fs)) = length ts"
  by (induction sch arbitrary: ts fs) (auto split: prod.splits)

text \<open>The existence test and \<open>os.mkdir\<close> of lines 21--22 on \<open>imgs\<close>.\<close>

lemma os_path_exists_imgs: "os_path_exists ''imgs'' fs \<longleftrightarrow> node_at fs (imgs_dir fs) \<noteq> None"
  by (simp add: os_path_exists_def os_stat_def imgs_dir_def split: option.splits)

lemma os_mkdir_imgs:
  "os_mkdir ''imgs'' fs =
     (if node_at fs (imgs_dir fs) \<noteq> None then (Inl (OSError EEXIST), fs)
      else if fs_cwd fs \<in> fs_ro fs then (Inl (OSError EACCES), fs)
      else if fs_full fs then (Inl (OSError ENOSPC), fs)
      else (Inr (), fs\<lparr>fs_dirs := insert (imgs_dir fs) (fs_dirs fs)\<rparr>))"
  by (simp add: os_mkdir_def imgs_dir_def)

text \<open>A schedule runs as its prefix followed by the rest, and a thread that has returned
  stays returned whatever the other threads do.\<close>

lemma run_append: "run (xs @ ys) ts fs = (case run xs ts fs of (ts', fs') \<Rightarrow> run ys ts' fs')"
  by (induction xs arbitrary: ts fs) (auto split: prod.splits)

lemma run_keeps_done:
  "i < length ts \<Longrightarrow> th_pc (ts ! i) = PcDone r \<Longrightarrow> th_pc (fst (run sch ts fs) ! i) = PcDone r"
proof (induction sch arbitrary: ts fs)
  case Nil
  then show ?case by simp
next
  case (Cons k sch)
  show ?case
  proof (cases "k < length ts")
    case True
    obtain t' fs' where st: "th_step (ts ! k) fs = (t', fs')" by fastforce
    have "th_pc (ts[k := t'] ! i) = PcDone r"
      using Cons.prems st th_step_done [of "ts ! i" r fs] by (cases "k = i") auto
    then show ?thesis using Cons.IH [of "ts[k := t'] " fs'] Cons.prems True st by simp
  next
    case False
    then show ?thesis using Cons by simp
  qed
qed

section \<open>Properties\<close>

text \<open>
  The step model agrees with the view: one thread started on a valid request and run
  alone for three steps ends with exactly the result and the file system of
  \<open>generate_qr_code\<close>.
\<close>

lemma thread_refines_view:
  assumes json: "is_json req" "req_json req = Some (JObj kvs)" "map_of kvs ''_id'' = Some v"
    and eid: "py_str v \<noteq> []" "enc (py_str v) = Inr img"
  shows "run [0, 0, 0] [start_thread (py_str v) img] fs =
           ([\<lparr>th_pc = PcDone (fst (generate_qr_code enc req fs)), th_id = py_str v, th_img = img\<rparr>],
            snd (generate_qr_code enc req fs))"
proof -
  note stage = generate_qr_code_stage [where enc = enc and fs = fs, OF json eid]
  let ?t = "start_thread (py_str v) img"
  have pc: "th_pc ?t = PcCheck" "th_id ?t = py_str v" "th_img ?t = img" by (simp_all add: start_thread_def)
  show ?thesis
  proof (cases "os_path_exists ''imgs'' fs")
    case True
    then have "ensure_imgs fs = (Inr (), fs)" by (simp add: ensure_imgs_def)
    with True stage pc show ?thesis
      by (simp add: run_single th_step_check th_step_save th_step_done py_handle_qr_clauses_state
          split: prod.splits sum.splits)
  next
    case False
    then have e: "ensure_imgs fs = os_mkdir ''imgs'' fs" by (simp add: ensure_imgs_def)
    with False stage pc show ?thesis
      by (simp add: run_single th_step_check th_step_mkdir th_step_save th_step_done
          py_handle_qr_clauses_state split: prod.splits sum.splits)
  qed
qed

text \<open>
  C31. The check-then-create of lines 21--22 is not atomic. On any file system without
  \<open>imgs\<close> whose working directory is writable, two requests that both pass the
  existence test before either calls \<open>os.mkdir\<close> race: the first creates \<open>imgs\<close>, the
  second's \<open>os.mkdir\<close> raises \<open>FileExistsError\<close>, and that request is answered 500
  \<open>Error processing QR code\<close>, whatever the identifiers, the images and the rest of the
  schedule. The spec calls this race harmless.
\<close>

theorem mkdir_race:
  assumes gone: "node_at fs (imgs_dir fs) = None"
    and w: "fs_cwd fs \<notin> fs_ro fs" "\<not> fs_full fs"
  shows "th_pc (fst (run (0 # 1 # 0 # 1 # rest) [start_thread a ia, start_thread b ib] fs) ! 1) =
           PcDone (Inr (RetJsonify (msg_json ''Error processing QR code'') 500))"
proof -
  let ?fs1 = "fs\<lparr>fs_dirs := insert (imgs_dir fs) (fs_dirs fs)\<rparr>"
  let ?ts = "[start_thread a ia, start_thread b ib]"
  have ex: "\<not> os_path_exists ''imgs'' fs" using gone by (simp add: os_path_exists_imgs)
  have mk0: "os_mkdir ''imgs'' fs = (Inr (), ?fs1)" using gone w by (simp add: os_mkdir_imgs)
  have mk1: "os_mkdir ''imgs'' ?fs1 = (Inl (OSError EEXIST), ?fs1)"
    by (simp add: os_mkdir_imgs node_at_def imgs_dir_def)
  have pre: "th_pc (fst (run [0, 1, 0, 1] ?ts fs) ! 1) =
               PcDone (Inr (RetJsonify (msg_json ''Error processing QR code'') 500))"
    using ex mk0 mk1
    by (simp add: th_step_check th_step_mkdir py_handle_qr_clauses storage_error_def)
  have "th_pc (fst (run rest (fst (run [0, 1, 0, 1] ?ts fs)) (snd (run [0, 1, 0, 1] ?ts fs))) ! 1) =
          PcDone (Inr (RetJsonify (msg_json ''Error processing QR code'') 500))"
    by (rule run_keeps_done [OF _ pre]) (simp only: run_length, simp)
  then show ?thesis
    using run_append [of "[0, 1, 0, 1]" rest ?ts fs] by (simp split: prod.splits)
qed

theorem mkdir_race_witness:
  "th_pc (fst (run [0, 1, 0, 1, 0, 1] [start_thread ''a'' ''a'', start_thread ''b'' ''b''] demo_fs) ! 1) =
     PcDone (Inr (RetJsonify (msg_json ''Error processing QR code'') 500))"
  by (rule mkdir_race) (simp_all add: demo_simps)

end
