(* ===== verification/Spec2Isabelle.thy ===== *)
theory Spec2Isabelle
  imports LegacyBackend Contract Interleave
begin

text \<open>
  \<^bold>\<open>A verification development of the QR-code service of 42-DDN/DDN-dahab-hackathon.\<close>

  \<^bold>\<open>The program.\<close> Three near-duplicate Flask applications, each with a view for
  \<open>POST /qrcode\<close> that turns an entry identifier into a QR-code PNG on disk and a view for
  \<open>GET /\<close> that returns a fixed HTML fragment:
  \<^item> \<open>src/project-root/features/backend.py\<close>, the current version: \<open>generate_qr_code\<close>
    checks \<open>request.is_json\<close>, reads \<open>request.json\<close>, tests \<open>"_id" in data\<close>, takes
    \<open>str(data["_id"])\<close>, rejects the empty string, calls \<open>qrcode.make\<close>, creates
    \<open>imgs\<close> if nothing of that name exists, saves the image at
    \<open>PurePath("imgs", entry_id + ".png")\<close>, and maps \<open>ValueError\<close> to 400 and
    \<open>OSError\<close> to 500;
  \<^item> \<open>src/project-root/features/.ipynb_checkpoints/backend-checkpoint.py\<close>, an earlier draft
    reading a form field, answering with dicts, never creating \<open>imgs\<close>;
  \<^item> \<open>src/backend.py\<close>, the first draft, which never imports \<open>request\<close>.
  The components interact by calls only: Flask routes a request to a view, the view calls
  the JSON accessors, the encoder, \<open>os\<close> and Pillow; the only state that survives a
  request is the file system, which the server process threads from one request to the next.

  \<^bold>\<open>The theories.\<close>
  \<^item> \<^theory_text>\<open>Prelude\<close>: Python's \<open>str.split\<close>, \<open>str.join\<close>, \<open>startswith\<close>,
    \<open>endswith\<close>, the substring test, UTF-8 byte length, and the named collections
    \<open>py_simps\<close>, \<open>fs_simps\<close>, \<open>flask_simps\<close>.
  \<^item> \<^theory_text>\<open>PyCore\<close>: the exceptions the views raise and catch, the class test of
    \<open>except\<close>, computations with state and exceptions (\<open>('s, 'a) pyst\<close>,
    \<open>py_bind\<close>, \<open>py_raise\<close>), and \<open>try\<close>/\<open>except\<close> with clauses that name a class or
    evaluate to an instance (\<open>except ValueError():\<close> raises \<open>TypeError\<close>).
  \<^item> \<^theory_text>\<open>PyJson\<close>: the values of \<open>request.json\<close> and Python's \<open>in\<close>,
    \<open>[]\<close>, \<open>str()\<close> and \<open>repr()\<close> on them.
  \<^item> \<^theory_text>\<open>PurePath\<close>: \<open>pathlib.PurePath\<close> on POSIX (join, parse, \<open>str()\<close>).
  \<^item> \<^theory_text>\<open>FileSys\<close>: the file system as a record (directories, files, working
    directory, non-writable directories, full device) with \<open>os.path.exists\<close>,
    \<open>os.mkdir\<close>, \<open>open(..., "w+b")\<close> and Pillow's \<open>Image.save\<close>. A path string is
    checked and walked as CPython and Linux do it (NUL, \<open>PATH_MAX\<close> 4096,
    \<open>NAME_MAX\<close> 255, \<open>..\<close>, missing directory, file as directory).
  \<^item> \<^theory_text>\<open>Flask\<close>: requests, responses, \<open>is_json\<close>, \<open>request.json\<close>, form access,
    \<open>jsonify\<close>, the conversion of view results and uncaught exceptions into responses,
    and URL routing with \<open>HEAD\<close>, \<open>OPTIONS\<close>, 404 and 405.
  \<^item> \<^theory_text>\<open>Backend\<close>: the definitions of \<open>features/backend.py\<close>: \<open>generate_qr_code\<close> (the body of
    its \<open>try\<close> as \<open>generate_qr_code_try\<close>, its clauses as \<open>qr_clauses\<close>, lines
    21--22 as \<open>ensure_imgs\<close>, line 23's path as \<open>qr_path\<close>), \<open>main\<close>, one rule
    per \<open>@app.route\<close> decorator (\<open>qr_rule\<close>, \<open>main_rule\<close>) collected in
    \<open>app_rules\<close>, and the application \<open>app\<close>, a function from an encoder, a request
    and a file system to a response and a file system. \<^theory_text>\<open>BackendEval\<close> evaluates
    each branch of the view and the effect of a request on the file system;
    \<^theory_text>\<open>BackendView\<close> holds the properties of the view (C1--C11) and
    \<^theory_text>\<open>BackendApp\<close> those of the application across requests and routes
    (C12--C19).
  \<^item> \<^theory_text>\<open>Checkpoint\<close>: the checkpoint draft (\<open>ck_try\<close>, \<open>ck_clauses\<close>,
    \<open>ck_generate_qr_code\<close>, its own \<open>main\<close> and routes, \<open>ck_app\<close>).
  \<^item> \<^theory_text>\<open>LegacyBackend\<close>: the first draft with its module globals as the module
    binds them (\<open>legacy_bindings\<close>: \<open>def qrcode\<close> rebinds \<open>qrcode\<close>), name resolution
    (\<open>load_global\<close>), the view \<open>legacy_qrcode\<close>, its \<open>main\<close> and routes.
  \<^item> \<^theory_text>\<open>Server\<close>: the process: \<open>serve\<close> answers a list of requests in order,
    threading the file system from one request to the next.
  \<^item> \<^theory_text>\<open>Interleave\<close>: concurrent requests. The rest of the view after the
    checks (lines 21--23 with the clauses of 25--28) is three atomic steps of a thread
    (\<open>th_step\<close>), and a schedule interleaves the threads on the shared file system
    (\<open>run\<close>).
  \<^item> \<^theory_text>\<open>Contract\<close>: the validation table of spec section 4.1 as an abstract
    handler \<open>spec_handle\<close> with six outcomes, the abstract store \<open>stored\<close> of spec
    section 3, and the refinement of both by \<open>app\<close>.

  \<^bold>\<open>What is proved.\<close> For the current version (BackendView, BackendApp): the answer to
  a valid request and the file it writes (C1), that a 200 answer always comes with the
  image on disk (C2), the answers to a missing, empty, non-JSON, undecodable, non-object,
  unencodable, unstorable or NUL identifier or body (C3--C11), that a failed request
  leaves no new image (C12) but may truncate an old one on a full device (C13),
  idempotence (C14), the recreation of \<open>imgs\<close> (C15), the frame of a request (C16),
  confinement below \<open>imgs\<close> of relative identifiers without \<open>..\<close> (C17) and, for every
  identifier \<open>../x\<close>, a write beside \<open>imgs\<close> instead (C18), and the routing table
  (C19). For the drafts: the checkpoint's 200-with-status-500 answer, its dead
  \<open>except\<close> clause, its success and its missing directory (C20--C23); the first draft's
  500 on every \<open>POST\<close>, even with \<open>request\<close> imported (C24, C25). Against the spec:
  refinement of the validation table (C26) and of the store (C27), the \<open>NAME_MAX\<close>
  bound on identifiers (C28), and the six table rows plus two error pages as the only
  answers (C29). Across requests: the identifiers \<open>x\<close> and \<open>../imgs/x\<close> share one
  image file, so serving the second replaces the image of the first (C30). For
  concurrency: on any file system without \<open>imgs\<close>, two requests that both pass the
  existence test before either creates it race, and the second is answered 500 whatever
  the rest of the schedule (C31). Lemmas that check the model itself (the step model run
  alone computes the view, the \<open>PurePath\<close> and split/join round trips, the substring
  test against \<open>sublist\<close>) are kept beside the definitions they validate. Each theorem
  with hypotheses has a witness at a concrete request and file system.

  \<^bold>\<open>Bounds and fuel.\<close> No loop of the program needs fuel: every function of the model
  is structurally recursive or non-recursive, so every one is total, and \<open>run\<close> consumes
  its schedule. The file-system limits are Linux's: \<open>NAME_MAX\<close> 255 and \<open>PATH_MAX\<close>
  4096 bytes, counted in UTF-8.

  \<^bold>\<open>Not modelled.\<close> The QR encoding (the encoder is a parameter that every theorem
  quantifies over), PNG encoding (an image is an opaque value), JSON parsing (the request
  carries the decoded value or none), JSON floats, the HTTP transport, headers and the
  HTML of werkzeug's error pages (an error response is its status code), symbolic links,
  mount points and the trailing-slash forms of path strings. Permissions are per
  directory: a non-writable directory refuses every open for writing in it, also of an
  existing file. The only write failure modelled is a full device, which surfaces in
  Pillow's \<open>fp.close()\<close> and leaves the truncated file behind. Concurrency is modelled only
  at the granularity of the three file-system calls of a request; the steps before them
  touch no shared state.
\<close>

end
